theory Spec2Isabelle
  imports Main "HOL-Library.Sublist"
begin

section \<open>A model of the shell that runs the build stages\<close>

text \<open>
  The build pipeline is a set of bash scripts run under \<^verbatim>\<open>set -euo pipefail\<close>.
  The model below follows them command by command.  The file system is an association
  list from absolute paths to nodes; a script is a list of commands, each a function on
  the shell state; every external program that a script starts is recorded, with its
  argument list, in the trace \<open>out\<close>, and so is every line the script prints.
\<close>

type_synonym path = string
type_synonym bytes = string

datatype node = File bytes bool | Dir

type_synonym filesys = "(path \<times> node) list"

datatype event = Echo string | Exec string "string list"

datatype status = Running | Exited nat | Killed

record sh =
  fs :: filesys
  out :: "event list"
  status :: status
  fuel :: "nat option"

type_synonym cmd = "sh \<Rightarrow> sh"

text \<open>
  What the scripts read from their surroundings: the directory of the script, the
  variables of the environment, and the behaviour of the external programs and of the
  network.  The checksum files (\<^verbatim>\<open>xxhash.sha256sum\<close> and the others) belong to the
  repository but are not part of the sources at hand, so their parsed lines
  (digest, file name) are a parameter.
\<close>

record env =
  ROOT :: path
  OSTYPE :: string
  uname_m :: string
  XXHASH_VER_env :: "string option"
  MSGSPEC_VER_env :: "string option"
  curl_fetch :: "string \<Rightarrow> bytes option"
  sha256 :: "bytes \<Rightarrow> string"
  checksum_lines :: "path \<Rightarrow> (string \<times> string) list option"
  tar_members :: "bytes \<Rightarrow> (path \<times> node) list option"
  tar_pack :: "(path \<times> node) list \<Rightarrow> bytes"
  clang_resource_dir :: string
  clang_compile :: "string list \<Rightarrow> filesys \<Rightarrow> bytes option"
  wasm_ld_link :: "string list \<Rightarrow> filesys \<Rightarrow> bytes option"
  uv_sync_ok :: bool
  uv_build_python :: "string option"
  config_guess :: string
  configure_run :: "string list \<Rightarrow> filesys \<Rightarrow> (path \<times> node) list option"

subsection \<open>Control: steps, crashes, \<^verbatim>\<open>set -e\<close>\<close>

text \<open>
  \<open>fuel\<close> is the number of atomic steps left before the process is killed from
  outside (\<open>None\<close>: the run is never interrupted).  A step does nothing once the script
  has exited or has been killed.
\<close>

definition tick :: "cmd \<Rightarrow> cmd" where
  "tick c s =
     (if status s \<noteq> Running then s
      else case fuel s of
             None \<Rightarrow> c s
           | Some 0 \<Rightarrow> s\<lparr>status := Killed\<rparr>
           | Some (Suc n) \<Rightarrow> c (s\<lparr>fuel := Some n\<rparr>))"

fun script :: "cmd list \<Rightarrow> cmd" where
  "script [] s = s"
| "script (c # cs) s = (if status s = Running then script cs (c s) else s)"

definition echo :: "string \<Rightarrow> cmd" where
  "echo msg = tick (\<lambda>s. s\<lparr>out := out s @ [Echo msg]\<rparr>)"

definition exit_sh :: "nat \<Rightarrow> cmd" where
  "exit_sh rc = tick (\<lambda>s. s\<lparr>status := Exited rc\<rparr>)"

definition ifte :: "(filesys \<Rightarrow> bool) \<Rightarrow> cmd list \<Rightarrow> cmd list \<Rightarrow> cmd" where
  "ifte b t f = tick (\<lambda>s. if b (fs s) then script t s else script f s)"

text \<open>
  An external program: an action on the file system that returns the exit code.
  Under \<^verbatim>\<open>set -e\<close> a non-zero exit code ends the script with that code, unless the
  command is followed by \<^verbatim>\<open>|| true\<close>.
\<close>

type_synonym action = "filesys \<Rightarrow> nat \<times> filesys"

definition step_of :: "bool \<Rightarrow> string \<Rightarrow> string list \<Rightarrow> action \<Rightarrow> cmd" where
  "step_of or_true prog args a s =
     (case a (fs s) of (rc, f') \<Rightarrow>
        s\<lparr>fs := f', out := out s @ [Exec prog args],
          status := (if rc = 0 \<or> or_true then Running else Exited rc)\<rparr>)"

definition exec :: "string \<Rightarrow> string list \<Rightarrow> action \<Rightarrow> cmd" where
  "exec prog args a = tick (step_of False prog args a)"

definition exec_or_true :: "string \<Rightarrow> string list \<Rightarrow> action \<Rightarrow> cmd" where
  "exec_or_true prog args a = tick (step_of True prog args a)"

definition finish :: "sh \<Rightarrow> sh" where
  "finish s = (if status s = Running then s\<lparr>status := Exited 0\<rparr> else s)"

definition run :: "cmd \<Rightarrow> filesys \<Rightarrow> nat option \<Rightarrow> sh" where
  "run c f n = finish (c \<lparr>fs = f, out = [], status = Running, fuel = n\<rparr>)"

subsection \<open>The file system\<close>

definition is_file :: "filesys \<Rightarrow> path \<Rightarrow> bool" where
  "is_file f p = (case map_of f p of Some (File b x) \<Rightarrow> True | _ \<Rightarrow> False)"

definition is_dir :: "filesys \<Rightarrow> path \<Rightarrow> bool" where
  "is_dir f p = (map_of f p = Some Dir)"

definition is_exec :: "filesys \<Rightarrow> path \<Rightarrow> bool" where
  "is_exec f p = (case map_of f p of Some (File b x) \<Rightarrow> x | Some Dir \<Rightarrow> True | None \<Rightarrow> False)"

definition runnable :: "filesys \<Rightarrow> path \<Rightarrow> bool" where
  "runnable f p = (case map_of f p of Some (File b x) \<Rightarrow> x | _ \<Rightarrow> False)"

text \<open>The content and the executable bit of the regular file at a path, if there is one.\<close>

definition file_at :: "filesys \<Rightarrow> path \<Rightarrow> (bytes \<times> bool) option" where
  "file_at f p = (case map_of f p of Some (File b x) \<Rightarrow> Some (b, x) | _ \<Rightarrow> None)"

definition store :: "path \<Rightarrow> node \<Rightarrow> filesys \<Rightarrow> filesys" where
  "store p n f = (p, n) # filter (\<lambda>(q, m). q \<noteq> p) f"

text \<open>The proper ancestors of a path, outermost first: \<open>/a\<close> and \<open>/a/b\<close> for \<open>/a/b/c\<close>.\<close>

fun ancestors_from :: "string \<Rightarrow> string \<Rightarrow> string list" where
  "ancestors_from acc [] = []"
| "ancestors_from acc (c # cs) =
     (if c = CHR ''/'' \<and> acc \<noteq> [] then [acc] else []) @ ancestors_from (acc @ [c]) cs"

definition ancestors :: "path \<Rightarrow> path list" where
  "ancestors p = ancestors_from [] p"

definition parent_ok :: "filesys \<Rightarrow> path \<Rightarrow> bool" where
  "parent_ok f p = (case ancestors p of [] \<Rightarrow> True | a # as \<Rightarrow> is_dir f (last (a # as)))"

definition under :: "path \<Rightarrow> path \<Rightarrow> bool" where
  "under d q = (q = d \<or> prefix (d @ ''/'') q)"

definition write_file :: "path \<Rightarrow> node \<Rightarrow> action" where
  "write_file p n f = (if parent_ok f p \<and> \<not> is_dir f p then (0, store p n f) else (1, f))"

definition ensure_dir :: "filesys \<Rightarrow> path \<Rightarrow> filesys" where
  "ensure_dir g q = (if map_of g q = None then store q Dir g else g)"

definition put :: "path \<Rightarrow> node \<Rightarrow> filesys \<Rightarrow> filesys" where
  "put p n f = store p n (foldl ensure_dir f (ancestors p))"

definition mkdir_p1 :: "path \<Rightarrow> action" where
  "mkdir_p1 d f =
     (if is_dir f d then (0, f)
      else if list_ex (is_file f) (ancestors d @ [d]) then (1, f)
      else (0, foldl ensure_dir f (ancestors d @ [d])))"

fun mkdir_p :: "path list \<Rightarrow> action" where
  "mkdir_p [] f = (0, f)"
| "mkdir_p (d # ds) f =
     (case mkdir_p1 d f of (rc, f') \<Rightarrow>
        case mkdir_p ds f' of (rc', f'') \<Rightarrow> (max rc rc', f''))"

definition rm_rf :: "path \<Rightarrow> action" where
  "rm_rf d f = (0, filter (\<lambda>(q, n). \<not> under d q) f)"

definition rm_f :: "path \<Rightarrow> action" where
  "rm_f p f = (if is_dir f p then (1, f) else (0, filter (\<lambda>(q, n). q \<noteq> p) f))"

text \<open>The entries of directory \<open>d\<close> whose name ends in \<open>ext\<close>, as the glob \<^verbatim>\<open>"d/"*ext\<close> finds them.\<close>

definition child_name :: "path \<Rightarrow> path \<Rightarrow> string option" where
  "child_name d q =
     (if prefix (d @ ''/'') q
      then (let n = drop (length d + 1) q
            in if n = [] \<or> CHR ''/'' \<in> set n then None else Some n)
      else None)"

definition glob_ext :: "filesys \<Rightarrow> path \<Rightarrow> string \<Rightarrow> path list" where
  "glob_ext f d ext =
     [q. (q, n) \<leftarrow> f,
         case child_name d q of None \<Rightarrow> False
         | Some nm \<Rightarrow> suffix ext nm \<and> \<not> prefix ''.'' nm]"

definition basename :: "path \<Rightarrow> string" where
  "basename p = rev (takeWhile (\<lambda>c. c \<noteq> CHR ''/'') (rev p))"

definition copy_tree :: "path \<Rightarrow> path \<Rightarrow> filesys \<Rightarrow> filesys" where
  "copy_tree src dstdir f =
     foldl (\<lambda>g (q, n). put (dstdir @ ''/'' @ basename src @ drop (length src) q) n g) f
       [(q, n). (q, n) \<leftarrow> f, under src q]"

definition cp_R :: "path list \<Rightarrow> path \<Rightarrow> action" where
  "cp_R srcs dstdir f =
     (if srcs = [] \<or> \<not> is_dir f dstdir \<or> list_ex (\<lambda>p. map_of f p = None) srcs then (1, f)
      else (0, foldl (\<lambda>g src. copy_tree src dstdir g) f srcs))"

text \<open>
  \<^verbatim>\<open>cp -R "d/"*ext dst/\<close>: the shell expands the glob when the command is reached; a glob
  that matches nothing is passed on as it is written, and \<^verbatim>\<open>cp\<close> fails on it.
\<close>

definition cp_R_glob :: "bool \<Rightarrow> path \<Rightarrow> string \<Rightarrow> path \<Rightarrow> cmd" where
  "cp_R_glob or_true d ext dstdir =
     tick (\<lambda>s. let srcs = glob_ext (fs s) d ext
               in step_of or_true ''cp''
                    (''-R'' # (if srcs = [] then [d @ ''/*'' @ ext] else srcs) @ [dstdir @ ''/''])
                    (cp_R srcs dstdir) s)"

text \<open>\<^verbatim>\<open>mv src dst\<close> renames a tree, or moves it into \<open>dst\<close> when that is a directory.\<close>

definition mv :: "path \<Rightarrow> path \<Rightarrow> action" where
  "mv src dst f =
     (if map_of f src = None \<or> \<not> parent_ok f dst then (1, f)
      else (let target = (if is_dir f dst then dst @ ''/'' @ basename src else dst)
            in (0, map (\<lambda>(q, n). if under src q then (target @ drop (length src) q, n) else (q, n))
                     (filter (\<lambda>(q, n). q \<noteq> target) f))))"

text \<open>\<^verbatim>\<open>{ ...; } > file\<close>: the output of a group of commands, written to a file.\<close>

definition redirect_to :: "path \<Rightarrow> (filesys \<Rightarrow> bytes) \<Rightarrow> cmd" where
  "redirect_to file content =
     tick (\<lambda>s. case write_file file (File (content (fs s)) False) (fs s) of (rc, f') \<Rightarrow>
             if rc = 0 then s\<lparr>fs := f'\<rparr> else s\<lparr>status := Exited 1\<rparr>)"

text \<open>\<^verbatim>\<open>pushd dir\<close> fails, and with it the script, when \<open>dir\<close> is no directory.\<close>

definition pushd :: "path \<Rightarrow> cmd" where
  "pushd d = tick (\<lambda>s. if is_dir (fs s) d then s else s\<lparr>status := Exited 1\<rparr>)"

subsection \<open>The external programs\<close>

text \<open>
  \<^verbatim>\<open>curl -fL -o file url\<close> streams the body into the file, so the file exists with
  part of its content before it is complete: two steps, a crash may fall between them.
  A failed transfer leaves no file and ends the script.
\<close>

definition curl :: "env \<Rightarrow> string list \<Rightarrow> path \<Rightarrow> string \<Rightarrow> cmd" where
  "curl e args file url = script
     [tick (\<lambda>s. let s' = s\<lparr>out := out s @ [Exec ''curl'' args]\<rparr> in
         case curl_fetch e url of
           None \<Rightarrow> s'\<lparr>status := Exited 22\<rparr>
         | Some b \<Rightarrow>
            (case write_file file (File [] False) (fs s') of (rc, f') \<Rightarrow>
               if rc = 0 then s'\<lparr>fs := f'\<rparr> else s'\<lparr>status := Exited 23\<rparr>)),
      tick (\<lambda>s. case curl_fetch e url of
           None \<Rightarrow> s
         | Some b \<Rightarrow> s\<lparr>fs := store file (File b False) (fs s)\<rparr>)]"

text \<open>
  \<^verbatim>\<open>(cd dir && shasum -a 256 -c checkfile)\<close>: every line of the check file names a file,
  relative to \<open>dir\<close>, and its digest.  A listed file that cannot be read or whose
  digest differs is a failure.  With \<^verbatim>\<open>--ignore-missing\<close> a listed file that does not
  exist is passed over, and the check fails when no file at all was verified.  A check
  file with no line fails.  Digests are compared as lower-case hexadecimal strings.
\<close>

datatype verdict = Verified | Failed | Skipped

definition check_line ::
  "env \<Rightarrow> bool \<Rightarrow> path \<Rightarrow> filesys \<Rightarrow> string \<times> string \<Rightarrow> verdict" where
  "check_line e ignore_missing dir f l =
     (case map_of f (dir @ ''/'' @ snd l) of
        None \<Rightarrow> if ignore_missing then Skipped else Failed
      | Some Dir \<Rightarrow> Failed
      | Some (File b x) \<Rightarrow> if sha256 e b = fst l then Verified else Failed)"

definition shasum_c :: "env \<Rightarrow> bool \<Rightarrow> path \<Rightarrow> path \<Rightarrow> action" where
  "shasum_c e ignore_missing dir checkfile f =
     (if \<not> is_dir f dir then (1, f)
      else case checksum_lines e checkfile of
             None \<Rightarrow> (1, f)
           | Some ls \<Rightarrow>
               (let vs = map (check_line e ignore_missing dir f) ls
                in if ls = [] \<or> Failed \<in> set vs \<or> (ignore_missing \<and> Verified \<notin> set vs)
                   then (1, f) else (0, f)))"

text \<open>\<^verbatim>\<open>tar -C dest -xf archive\<close> writes every member of the archive below \<open>dest\<close>.\<close>

definition tar_x :: "env \<Rightarrow> path \<Rightarrow> path \<Rightarrow> action" where
  "tar_x e dest archive f =
     (case map_of f archive of
        Some (File b x) \<Rightarrow>
          (if \<not> is_dir f dest then (2, f)
           else case tar_members e b of
                  None \<Rightarrow> (2, f)
                | Some ms \<Rightarrow> (0, foldl (\<lambda>g (rel, n). put (dest @ ''/'' @ rel) n g) f ms))
      | _ \<Rightarrow> (2, f))"

text \<open>
  \<^verbatim>\<open>tar -C dir -czf outfile name\<close> opens \<open>outfile\<close> for writing, which creates it empty,
  and then streams the archive of \<open>dir/name\<close> into it: two steps, a crash may fall
  between them.
\<close>

definition tar_tree :: "filesys \<Rightarrow> path \<Rightarrow> string \<Rightarrow> (path \<times> node) list" where
  "tar_tree f dir name =
     [(drop (length dir + 1) q, n). (q, n) \<leftarrow> f, under (dir @ ''/'' @ name) q]"

definition tar_czf :: "env \<Rightarrow> string list \<Rightarrow> path \<Rightarrow> path \<Rightarrow> string \<Rightarrow> cmd" where
  "tar_czf e args dir outfile name = script
     [tick (\<lambda>s. let s' = s\<lparr>out := out s @ [Exec ''tar'' args]\<rparr> in
         case write_file outfile (File [] False) (fs s') of (rc, f') \<Rightarrow>
           if rc = 0 then s'\<lparr>fs := f'\<rparr> else s'\<lparr>status := Exited 2\<rparr>),
      tick (\<lambda>s. if map_of (fs s) (dir @ ''/'' @ name) = None then s\<lparr>status := Exited 2\<rparr>
                 else s\<lparr>fs := store outfile
                         (File (tar_pack e (tar_tree (fs s) dir name)) False) (fs s)\<rparr>)]"

text \<open>
  The compiler and the linker read the file system and write one output file, the
  argument of \<^verbatim>\<open>-o\<close>; what they write is the environment's.
\<close>

definition tool_output ::
  "path \<Rightarrow> (filesys \<Rightarrow> bytes option) \<Rightarrow> path \<Rightarrow> action" where
  "tool_output prog produce outfile f =
     (if \<not> runnable f prog then (127, f)
      else case produce f of
             None \<Rightarrow> (1, f)
           | Some b \<Rightarrow> write_file outfile (File b False) f)"

definition tool_query :: "path \<Rightarrow> action" where
  "tool_query prog f = (if runnable f prog then (0, f) else (127, f))"

section \<open>Platform detection (build\_cpython.sh, lines 15 to 30)\<close>

definition detect_platform :: "env \<Rightarrow> string + string" where
  "detect_platform e =
     (let ARCH = uname_m e in
      if prefix ''linux-gnu'' (OSTYPE e)
      then Inr ((if ARCH = ''aarch64'' then ''arm64'' else ARCH) @ ''-'' @ ''linux'')
      else if prefix ''darwin'' (OSTYPE e)
      then Inr (ARCH @ ''-'' @ ''macos'')
      else Inl (''Unsupported OS: '' @ OSTYPE e))"


section \<open>Paths shared by the stages\<close>

definition TOOL_DIR :: "env \<Rightarrow> path" where
  "TOOL_DIR e = ROOT e @ ''/_tooling''"

definition WASI_VER :: string where
  "WASI_VER = ''27.0''"

definition WASI_DIR :: "env \<Rightarrow> path" where
  "WASI_DIR e = TOOL_DIR e @ ''/wasi-sdk-'' @ WASI_VER"

definition WASI_SDK :: "env \<Rightarrow> path" where
  "WASI_SDK e = WASI_DIR e"

definition PY_HEADERS_312_DIR :: "env \<Rightarrow> path" where
  "PY_HEADERS_312_DIR e = TOOL_DIR e @ ''/py-headers-3.12''"

definition CPYTHON_TAG :: string where
  "CPYTHON_TAG = ''cpython-312''"

definition RT_DIR :: "env \<Rightarrow> path" where
  "RT_DIR e = clang_resource_dir e @ ''/lib/wasm32-unknown-wasi''"

section \<open>build\_xxhash.sh\<close>

definition XXHASH_VER :: "env \<Rightarrow> string" where
  "XXHASH_VER e =
     (case XXHASH_VER_env e of None \<Rightarrow> ''3.4.1'' | Some v \<Rightarrow> if v = [] then ''3.4.1'' else v)"

definition xx_OUT_TAR :: "env \<Rightarrow> path" where
  "xx_OUT_TAR e = TOOL_DIR e @ ''/xxhash-wasi.tar.gz''"

definition xx_BUILD_DIR :: "env \<Rightarrow> path" where
  "xx_BUILD_DIR e = TOOL_DIR e @ ''/build-xxhash''"

definition xx_PKG_DIR :: "env \<Rightarrow> path" where
  "xx_PKG_DIR e = xx_BUILD_DIR e @ ''/pkg''"

definition xx_ARCHIVE_URL :: "env \<Rightarrow> string" where
  "xx_ARCHIVE_URL e =
     ''https://files.pythonhosted.org/packages/source/x/xxhash/xxhash-'' @ XXHASH_VER e @ ''.tar.gz''"

definition xx_ARCHIVE_NAME :: "env \<Rightarrow> string" where
  "xx_ARCHIVE_NAME e = ''xxhash-'' @ XXHASH_VER e @ ''-pypi.tar.gz''"

definition xx_ARCHIVE_FILE :: "env \<Rightarrow> path" where
  "xx_ARCHIVE_FILE e = TOOL_DIR e @ ''/'' @ xx_ARCHIVE_NAME e"

definition xx_CHECKFILE :: "env \<Rightarrow> path" where
  "xx_CHECKFILE e = ROOT e @ ''/xxhash.sha256sum''"

definition xx_SRC_TOP_DIR :: "env \<Rightarrow> path" where
  "xx_SRC_TOP_DIR e = xx_BUILD_DIR e @ ''/xxhash-'' @ XXHASH_VER e"

definition xx_OBJ_DIR :: "env \<Rightarrow> path" where
  "xx_OBJ_DIR e = xx_BUILD_DIR e @ ''/obj''"

definition xx_EXT_BASENAME :: string where
  "xx_EXT_BASENAME = ''_xxhash''"

definition xx_INC_DEPS :: "env \<Rightarrow> string list" where
  "xx_INC_DEPS e =
     [''-I'' @ xx_SRC_TOP_DIR e @ ''/src'', ''-I'' @ xx_SRC_TOP_DIR e @ ''/xxhash'',
      ''-I'' @ xx_SRC_TOP_DIR e @ ''/deps/xxhash'']"

definition xx_EXT_NAME :: string where
  "xx_EXT_NAME = xx_EXT_BASENAME @ ''.'' @ CPYTHON_TAG @ ''-wasm32-wasi.so''"

definition xx_cc_wrap_args :: "env \<Rightarrow> path \<Rightarrow> string list" where
  "xx_cc_wrap_args e WRAP_C =
     [''--target=wasm32-wasi'', ''--sysroot='' @ WASI_SDK e @ ''/share/wasi-sysroot'',
      ''-I'' @ PY_HEADERS_312_DIR e, ''-I'' @ PY_HEADERS_312_DIR e @ ''/cpython'']
     @ xx_INC_DEPS e @
     [''-O3'', ''-DNDEBUG'', ''-fPIC'', ''-std=c99'', ''-fvisibility=default'',
      ''-DSSIZE_MAX=2147483647'', ''-c'', WRAP_C,
      ''-o'', xx_OBJ_DIR e @ ''/'' @ xx_EXT_BASENAME @ ''.o'']"

definition xx_cc_core_args :: "env \<Rightarrow> string list" where
  "xx_cc_core_args e =
     [''--target=wasm32-wasi'', ''--sysroot='' @ WASI_SDK e @ ''/share/wasi-sysroot'']
     @ xx_INC_DEPS e @
     [''-O3'', ''-DNDEBUG'', ''-fPIC'', ''-std=c99'', ''-fvisibility=default'',
      ''-DSSIZE_MAX=2147483647'', ''-c'', xx_SRC_TOP_DIR e @ ''/deps/xxhash/xxhash.c'',
      ''-o'', xx_OBJ_DIR e @ ''/xxhash_core.o'']"

definition xx_ld_args :: "env \<Rightarrow> string list" where
  "xx_ld_args e =
     [''--no-entry'', ''--shared'', ''--export-dynamic'', ''--allow-undefined'',
      ''--export=PyInit__xxhash'',
      ''-L'' @ RT_DIR e,
      ''-o'', xx_PKG_DIR e @ ''/xxhash/'' @ xx_EXT_NAME,
      xx_OBJ_DIR e @ ''/'' @ xx_EXT_BASENAME @ ''.o'',
      xx_OBJ_DIR e @ ''/xxhash_core.o'',
      RT_DIR e @ ''/libclang_rt.builtins.a'']"

definition xx_tar_args :: "env \<Rightarrow> string list" where
  "xx_tar_args e = [''-C'', xx_PKG_DIR e, ''-czf'', xx_OUT_TAR e, ''xxhash'']"

text \<open>Lines 11 to 25: the tool cache and the cache check.\<close>

definition xxhash_cache_check :: "env \<Rightarrow> cmd list" where
  "xxhash_cache_check e =
     [exec_or_true ''mkdir'' [''-p'', TOOL_DIR e] (mkdir_p [TOOL_DIR e]),
      ifte (\<lambda>f. is_file f (xx_OUT_TAR e))
        [echo (''[xxhash] Cache hit: '' @ xx_OUT_TAR e @ '' already exists; skipping build''),
         exit_sh 0] []]"

text \<open>Lines 27 to 58: the prerequisites, the reset of the build subtree.\<close>

definition xxhash_prereqs :: "env \<Rightarrow> cmd list" where
  "xxhash_prereqs e =
     [ifte (\<lambda>f. \<not> is_exec f (WASI_SDK e @ ''/bin/clang''))
        [echo ''[xxhash] Error: WASI SDK not found; run build_cpython.sh first'',
         exit_sh 1] [],
      ifte (\<lambda>f. is_dir f (PY_HEADERS_312_DIR e))
        []
        [echo ''[xxhash] Error: Python 3.12 headers not found; run build_cpython.sh first'',
         exit_sh 1],
      exec (WASI_SDK e @ ''/bin/clang'') [''--print-resource-dir'']
        (tool_query (WASI_SDK e @ ''/bin/clang'')),
      ifte (\<lambda>f. \<not> is_dir f (RT_DIR e))
        [echo (''[xxhash] Error: compiler runtime dir not found: '' @ RT_DIR e),
         exit_sh 1] [],
      exec_or_true ''rm'' [''-rf'', xx_BUILD_DIR e] (rm_rf (xx_BUILD_DIR e)),
      exec_or_true ''mkdir'' [''-p'', xx_BUILD_DIR e, xx_PKG_DIR e]
        (mkdir_p [xx_BUILD_DIR e, xx_PKG_DIR e])]"

definition xxhash_prepare :: "env \<Rightarrow> cmd list" where
  "xxhash_prepare e = xxhash_cache_check e @ xxhash_prereqs e"

text \<open>Lines 60 to 72: the source archive, downloaded unless it is there, and its checksum.\<close>

definition xxhash_fetch :: "env \<Rightarrow> cmd list" where
  "xxhash_fetch e =
     [ifte (\<lambda>f. \<not> is_file f (xx_ARCHIVE_FILE e))
        [echo (''[xxhash] Downloading '' @ xx_ARCHIVE_URL e),
         curl e [''-fL'', ''-o'', xx_ARCHIVE_FILE e, xx_ARCHIVE_URL e]
           (xx_ARCHIVE_FILE e) (xx_ARCHIVE_URL e)]
        [echo (''[xxhash] Using cached '' @ xx_ARCHIVE_FILE e)],
      echo ''[xxhash] Verifying checksum'',
      exec ''shasum'' [''-a'', ''256'', ''-c'', xx_CHECKFILE e]
        (shasum_c e False (TOOL_DIR e) (xx_CHECKFILE e))]"

text \<open>Lines 111 to 146, with the wrapper source \<open>WRAP_C\<close> that lines 99 to 109 found.\<close>

definition xxhash_compile_link :: "env \<Rightarrow> path \<Rightarrow> cmd list" where
  "xxhash_compile_link e WRAP_C =
     [exec (WASI_SDK e @ ''/bin/clang'') (xx_cc_wrap_args e WRAP_C)
        (tool_output (WASI_SDK e @ ''/bin/clang'') (clang_compile e (xx_cc_wrap_args e WRAP_C))
           (xx_OBJ_DIR e @ ''/'' @ xx_EXT_BASENAME @ ''.o'')),
      exec (WASI_SDK e @ ''/bin/clang'') (xx_cc_core_args e)
        (tool_output (WASI_SDK e @ ''/bin/clang'') (clang_compile e (xx_cc_core_args e))
           (xx_OBJ_DIR e @ ''/xxhash_core.o'')),
      exec (WASI_SDK e @ ''/bin/wasm-ld'') (xx_ld_args e)
        (tool_output (WASI_SDK e @ ''/bin/wasm-ld'') (wasm_ld_link e (xx_ld_args e))
           (xx_PKG_DIR e @ ''/xxhash/'' @ xx_EXT_NAME)),
      echo (''[xxhash] Built: '' @ xx_PKG_DIR e @ ''/xxhash/'' @ xx_EXT_NAME)]"

text \<open>Lines 74 to 146: unpack, copy the Python files, compile and link.\<close>

definition xxhash_build :: "env \<Rightarrow> cmd list" where
  "xxhash_build e =
     [echo (''[xxhash] Unpacking '' @ xx_ARCHIVE_FILE e),
      exec ''tar'' [''-C'', xx_BUILD_DIR e, ''-xf'', xx_ARCHIVE_FILE e]
        (tar_x e (xx_BUILD_DIR e) (xx_ARCHIVE_FILE e)),
      ifte (\<lambda>f. \<not> is_dir f (xx_SRC_TOP_DIR e))
        [echo (''[xxhash] Error: Unexpected sdist layout; cannot find '' @ xx_SRC_TOP_DIR e),
         exit_sh 1] [],
      exec_or_true ''mkdir'' [''-p'', xx_PKG_DIR e @ ''/xxhash'']
        (mkdir_p [xx_PKG_DIR e @ ''/xxhash'']),
      cp_R_glob False (xx_SRC_TOP_DIR e @ ''/xxhash'') ''.py'' (xx_PKG_DIR e @ ''/xxhash''),
      cp_R_glob True (xx_SRC_TOP_DIR e @ ''/xxhash'') ''.pyi'' (xx_PKG_DIR e @ ''/xxhash''),
      ifte (\<lambda>f. is_file f (xx_SRC_TOP_DIR e @ ''/xxhash/py.typed''))
        [exec ''cp'' [xx_SRC_TOP_DIR e @ ''/xxhash/py.typed'', xx_PKG_DIR e @ ''/xxhash/'']
           (cp_R [xx_SRC_TOP_DIR e @ ''/xxhash/py.typed''] (xx_PKG_DIR e @ ''/xxhash''))] [],
      echo ''[xxhash] Compiling C extension for WASI'',
      exec_or_true ''mkdir'' [''-p'', xx_OBJ_DIR e] (mkdir_p [xx_OBJ_DIR e]),
      ifte (\<lambda>f. is_file f (xx_SRC_TOP_DIR e @ ''/src/_xxhash.c''))
        (xxhash_compile_link e (xx_SRC_TOP_DIR e @ ''/src/_xxhash.c''))
        [ifte (\<lambda>f. is_file f (xx_SRC_TOP_DIR e @ ''/xxhash/_xxhash.c''))
           (xxhash_compile_link e (xx_SRC_TOP_DIR e @ ''/xxhash/_xxhash.c''))
           [echo ''[xxhash] Error: Could not find Python wrapper source (_xxhash.c) in src/ or xxhash/'',
            exit_sh 1]]]"

text \<open>Lines 148 to 152: the tarball, written straight to its final path.\<close>

definition xxhash_package :: "env \<Rightarrow> cmd list" where
  "xxhash_package e =
     [echo (''[xxhash] Creating tarball: '' @ xx_OUT_TAR e),
      exec ''rm'' [''-f'', xx_OUT_TAR e] (rm_f (xx_OUT_TAR e)),
      tar_czf e (xx_tar_args e) (xx_PKG_DIR e) (xx_OUT_TAR e) ''xxhash'',
      echo ''[xxhash] Done'']"

definition build_xxhash :: "env \<Rightarrow> cmd" where
  "build_xxhash e =
     script (xxhash_prepare e @ xxhash_fetch e @ xxhash_build e @ xxhash_package e)"


section \<open>build\_msgspec.sh\<close>

definition MSGSPEC_VER :: "env \<Rightarrow> string" where
  "MSGSPEC_VER e =
     (case MSGSPEC_VER_env e of None \<Rightarrow> ''0.19.0'' | Some v \<Rightarrow> if v = [] then ''0.19.0'' else v)"

definition ms_OUT_TAR :: "env \<Rightarrow> path" where
  "ms_OUT_TAR e = TOOL_DIR e @ ''/msgspec-wasi.tar.gz''"

definition ms_BUILD_DIR :: "env \<Rightarrow> path" where
  "ms_BUILD_DIR e = TOOL_DIR e @ ''/build-msgspec''"

definition ms_PKG_DIR :: "env \<Rightarrow> path" where
  "ms_PKG_DIR e = ms_BUILD_DIR e @ ''/pkg''"

definition ms_ARCHIVE_URL :: "env \<Rightarrow> string" where
  "ms_ARCHIVE_URL e =
     ''https://github.com/jcrist/msgspec/archive/refs/tags/'' @ MSGSPEC_VER e @ ''.tar.gz''"

definition ms_ARCHIVE_NAME :: "env \<Rightarrow> string" where
  "ms_ARCHIVE_NAME e = ''msgspec-'' @ MSGSPEC_VER e @ ''-github.tar.gz''"

definition ms_ARCHIVE_FILE :: "env \<Rightarrow> path" where
  "ms_ARCHIVE_FILE e = TOOL_DIR e @ ''/'' @ ms_ARCHIVE_NAME e"

definition ms_CHECKFILE :: "env \<Rightarrow> path" where
  "ms_CHECKFILE e = ROOT e @ ''/msgspec.sha256sum''"

definition ms_SRC_TOP_DIR :: "env \<Rightarrow> path" where
  "ms_SRC_TOP_DIR e = ms_BUILD_DIR e @ ''/msgspec-'' @ MSGSPEC_VER e"

definition ms_OBJ_DIR :: "env \<Rightarrow> path" where
  "ms_OBJ_DIR e = ms_BUILD_DIR e @ ''/obj''"

definition ms_EXT_NAME :: string where
  "ms_EXT_NAME = ''_core.'' @ CPYTHON_TAG @ ''-wasm32-wasi.so''"

definition ms_cc_args :: "env \<Rightarrow> string list" where
  "ms_cc_args e =
     [''--target=wasm32-wasi'', ''--sysroot='' @ WASI_SDK e @ ''/share/wasi-sysroot'',
      ''-I'' @ PY_HEADERS_312_DIR e, ''-I'' @ PY_HEADERS_312_DIR e @ ''/cpython'',
      ''-O3'', ''-DNDEBUG'', ''-fPIC'', ''-std=c99'',
      ''-DSSIZE_MAX=2147483647'',
      ''-c'', ms_SRC_TOP_DIR e @ ''/msgspec/_core.c'',
      ''-o'', ms_OBJ_DIR e @ ''/_core.o'']"

definition ms_ld_args :: "env \<Rightarrow> string list" where
  "ms_ld_args e =
     [''--no-entry'', ''--shared'', ''--export-dynamic'', ''--allow-undefined'',
      ''-L'' @ RT_DIR e,
      ''-o'', ms_PKG_DIR e @ ''/msgspec/'' @ ms_EXT_NAME,
      ms_OBJ_DIR e @ ''/_core.o'',
      RT_DIR e @ ''/libclang_rt.builtins.a'']"

definition ms_tar_args :: "env \<Rightarrow> string list" where
  "ms_tar_args e = [''-C'', ms_PKG_DIR e, ''-czf'', ms_OUT_TAR e, ''msgspec'']"

text \<open>Lines 20 to 34 of build\_host.sh, where the script begins at line 10.\<close>

definition msgspec_cache_check :: "env \<Rightarrow> cmd list" where
  "msgspec_cache_check e =
     [exec_or_true ''mkdir'' [''-p'', TOOL_DIR e] (mkdir_p [TOOL_DIR e]),
      ifte (\<lambda>f. is_file f (ms_OUT_TAR e))
        [echo (''[msgspec] Cache hit: '' @ ms_OUT_TAR e @ '' already exists; skipping build''),
         exit_sh 0] []]"

text \<open>Lines 36 to 67.\<close>

definition msgspec_prereqs :: "env \<Rightarrow> cmd list" where
  "msgspec_prereqs e =
     [ifte (\<lambda>f. \<not> is_exec f (WASI_SDK e @ ''/bin/clang''))
        [echo ''[msgspec] Error: WASI SDK not found; run build_cpython.sh first'',
         exit_sh 1] [],
      ifte (\<lambda>f. is_dir f (PY_HEADERS_312_DIR e))
        []
        [echo ''[msgspec] Error: Python 3.12 headers not found; run build_cpython.sh first'',
         exit_sh 1],
      exec (WASI_SDK e @ ''/bin/clang'') [''--print-resource-dir'']
        (tool_query (WASI_SDK e @ ''/bin/clang'')),
      ifte (\<lambda>f. \<not> is_dir f (RT_DIR e))
        [echo (''[msgspec] Error: compiler runtime dir not found: '' @ RT_DIR e),
         exit_sh 1] [],
      exec_or_true ''rm'' [''-rf'', ms_BUILD_DIR e] (rm_rf (ms_BUILD_DIR e)),
      exec_or_true ''mkdir'' [''-p'', ms_BUILD_DIR e, ms_PKG_DIR e]
        (mkdir_p [ms_BUILD_DIR e, ms_PKG_DIR e])]"

definition msgspec_prepare :: "env \<Rightarrow> cmd list" where
  "msgspec_prepare e = msgspec_cache_check e @ msgspec_prereqs e"

text \<open>Lines 69 to 80.\<close>

definition msgspec_fetch :: "env \<Rightarrow> cmd list" where
  "msgspec_fetch e =
     [ifte (\<lambda>f. \<not> is_file f (ms_ARCHIVE_FILE e))
        [echo (''[msgspec] Downloading '' @ ms_ARCHIVE_URL e),
         curl e [''-fL'', ''-o'', ms_ARCHIVE_FILE e, ms_ARCHIVE_URL e]
           (ms_ARCHIVE_FILE e) (ms_ARCHIVE_URL e)]
        [echo (''[msgspec] Using cached '' @ ms_ARCHIVE_FILE e)],
      echo ''[msgspec] Verifying checksum'',
      exec ''shasum'' [''-a'', ''256'', ''-c'', ms_CHECKFILE e]
        (shasum_c e False (TOOL_DIR e) (ms_CHECKFILE e))]"

text \<open>Lines 73 to 113.\<close>

definition msgspec_build :: "env \<Rightarrow> cmd list" where
  "msgspec_build e =
     [echo (''[msgspec] Unpacking '' @ ms_ARCHIVE_FILE e),
      exec ''tar'' [''-C'', ms_BUILD_DIR e, ''-xf'', ms_ARCHIVE_FILE e]
        (tar_x e (ms_BUILD_DIR e) (ms_ARCHIVE_FILE e)),
      ifte (\<lambda>f. \<not> is_dir f (ms_SRC_TOP_DIR e))
        [echo (''[msgspec] Error: Unexpected sdist layout; cannot find '' @ ms_SRC_TOP_DIR e),
         exit_sh 1] [],
      exec_or_true ''mkdir'' [''-p'', ms_PKG_DIR e @ ''/msgspec'']
        (mkdir_p [ms_PKG_DIR e @ ''/msgspec'']),
      cp_R_glob True (ms_SRC_TOP_DIR e @ ''/msgspec'') ''.py'' (ms_PKG_DIR e @ ''/msgspec''),
      cp_R_glob True (ms_SRC_TOP_DIR e @ ''/msgspec'') ''.pyi'' (ms_PKG_DIR e @ ''/msgspec''),
      exec_or_true ''cp''
        [''-R'', ms_SRC_TOP_DIR e @ ''/msgspec/py.typed'', ms_PKG_DIR e @ ''/msgspec/'']
        (cp_R [ms_SRC_TOP_DIR e @ ''/msgspec/py.typed''] (ms_PKG_DIR e @ ''/msgspec'')),
      echo ''[msgspec] Compiling C extension (_core) for WASI'',
      exec_or_true ''mkdir'' [''-p'', ms_OBJ_DIR e] (mkdir_p [ms_OBJ_DIR e]),
      exec (WASI_SDK e @ ''/bin/clang'') (ms_cc_args e)
        (tool_output (WASI_SDK e @ ''/bin/clang'') (clang_compile e (ms_cc_args e))
           (ms_OBJ_DIR e @ ''/_core.o'')),
      exec (WASI_SDK e @ ''/bin/wasm-ld'') (ms_ld_args e)
        (tool_output (WASI_SDK e @ ''/bin/wasm-ld'') (wasm_ld_link e (ms_ld_args e))
           (ms_PKG_DIR e @ ''/msgspec/'' @ ms_EXT_NAME)),
      echo (''[msgspec] Built: '' @ ms_PKG_DIR e @ ''/msgspec/'' @ ms_EXT_NAME)]"

text \<open>Lines 115 to 119.\<close>

definition msgspec_package :: "env \<Rightarrow> cmd list" where
  "msgspec_package e =
     [echo (''[msgspec] Creating tarball: '' @ ms_OUT_TAR e),
      exec_or_true ''rm'' [''-f'', ms_OUT_TAR e] (rm_f (ms_OUT_TAR e)),
      tar_czf e (ms_tar_args e) (ms_PKG_DIR e) (ms_OUT_TAR e) ''msgspec'',
      echo ''[msgspec] Done'']"

definition build_msgspec :: "env \<Rightarrow> cmd" where
  "build_msgspec e =
     script (msgspec_prepare e @ msgspec_fetch e @ msgspec_build e @ msgspec_package e)"


section \<open>build\_cpython.sh\<close>

definition TAG :: string where
  "TAG = ''wasi-sdk-27''"

definition WASI_TARBALL_NAME :: "string \<Rightarrow> string" where
  "WASI_TARBALL_NAME PLATFORM = ''wasi-sdk-'' @ WASI_VER @ ''-'' @ PLATFORM @ ''.tar.gz''"

definition WASI_TARBALL :: "env \<Rightarrow> string \<Rightarrow> path" where
  "WASI_TARBALL e PLATFORM = TOOL_DIR e @ ''/'' @ WASI_TARBALL_NAME PLATFORM"

definition WASI_URL :: "string \<Rightarrow> string" where
  "WASI_URL PLATFORM =
     ''https://github.com/WebAssembly/wasi-sdk/releases/download/'' @ TAG @ ''/wasi-sdk-''
       @ WASI_VER @ ''-'' @ PLATFORM @ ''.tar.gz''"

definition WASI_CHECKFILE :: "env \<Rightarrow> path" where
  "WASI_CHECKFILE e = ROOT e @ ''/wasi-sdk.sha256sum''"

definition RT_BUILTINS :: "env \<Rightarrow> path" where
  "RT_BUILTINS e = RT_DIR e @ ''/libclang_rt.builtins.a''"

definition HEADERS_OUT :: "env \<Rightarrow> path" where
  "HEADERS_OUT e = TOOL_DIR e @ ''/py-headers-3.12''"

definition PY_VER :: string where
  "PY_VER = ''3.12.0''"

definition PY_TARBALL_NAME :: string where
  "PY_TARBALL_NAME = ''Python-'' @ PY_VER @ ''.tgz''"

definition PY_TARBALL :: "env \<Rightarrow> path" where
  "PY_TARBALL e = TOOL_DIR e @ ''/'' @ PY_TARBALL_NAME"

definition PY_URL :: string where
  "PY_URL = ''https://www.python.org/ftp/python/'' @ PY_VER @ ''/Python-'' @ PY_VER @ ''.tgz''"

definition PY_CHECKFILE :: "env \<Rightarrow> path" where
  "PY_CHECKFILE e = ROOT e @ ''/python.sha256sum''"

definition PY_SRC :: "env \<Rightarrow> path" where
  "PY_SRC e = TOOL_DIR e @ ''/Python-'' @ PY_VER"

definition PY_PREFIX :: "env \<Rightarrow> path" where
  "PY_PREFIX e = PY_SRC e @ ''/build-wasi/install''"

definition MERGED_SITE :: "env \<Rightarrow> path" where
  "MERGED_SITE e = PY_SRC e @ ''/build-wasi/config.site''"

definition merged_site_text :: "env \<Rightarrow> filesys \<Rightarrow> bytes" where
  "merged_site_text e f =
     (if is_file f (PY_SRC e @ ''/Tools/wasm/wasm-config.site'')
      then ''. '' @ [CHR 0x22] @ PY_SRC e @ ''/Tools/wasm/wasm-config.site'' @ [CHR 0x22, CHR 0x0A]
      else [])
     @ ''ac_cv_file__dev_ptmx=no'' @ [CHR 0x0A]
     @ ''ac_cv_file__dev_ptc=no'' @ [CHR 0x0A]"

definition BUILD_PY :: "env \<Rightarrow> string" where
  "BUILD_PY e = (case uv_build_python e of None \<Rightarrow> [] | Some p \<Rightarrow> p)"

definition configure_args :: "env \<Rightarrow> string list" where
  "configure_args e =
     [''./configure'', ''--host=wasm32-unknown-wasi'', ''--build='' @ config_guess e,
      ''--with-build-python='' @ BUILD_PY e, ''--prefix='' @ PY_PREFIX e]"

text \<open>
  The configure run, started through \<^verbatim>\<open>./Tools/wasm/wasi-env\<close> in the source tree:
  the files it leaves in the tree are the environment's.
\<close>

definition configure :: "env \<Rightarrow> action" where
  "configure e f =
     (if \<not> runnable f (PY_SRC e @ ''/Tools/wasm/wasi-env'') then (127, f)
      else case configure_run e (configure_args e) f of
             None \<Rightarrow> (1, f)
           | Some files \<Rightarrow> (0, foldl (\<lambda>g (rel, n). put (PY_SRC e @ ''/'' @ rel) n g) f files))"

text \<open>Lines 32 to 43: the archive of the toolchain and its checksum.\<close>

definition cpython_sdk_fetch :: "env \<Rightarrow> string \<Rightarrow> cmd list" where
  "cpython_sdk_fetch e PLATFORM =
     [ifte (\<lambda>f. \<not> is_file f (WASI_TARBALL e PLATFORM))
        [echo (''[wasi-sdk] Downloading '' @ WASI_URL PLATFORM),
         curl e [''-fL'', ''-o'', WASI_TARBALL e PLATFORM, WASI_URL PLATFORM]
           (WASI_TARBALL e PLATFORM) (WASI_URL PLATFORM)]
        [echo (''[wasi-sdk] Using existing '' @ WASI_TARBALL e PLATFORM)],
      echo ''[wasi-sdk] Verifying checksum'',
      exec ''shasum'' [''-a'', ''256'', ''-c'', WASI_CHECKFILE e, ''--ignore-missing'']
        (shasum_c e True (TOOL_DIR e) (WASI_CHECKFILE e))]"

text \<open>Lines 45 to 68: the toolchain is extracted, unless it is there, and looked over.\<close>

definition cpython_sdk_install :: "env \<Rightarrow> string \<Rightarrow> cmd list" where
  "cpython_sdk_install e PLATFORM =
     [ifte (\<lambda>f. \<not> is_dir f (WASI_DIR e))
        [echo (''[wasi-sdk] Extracting to '' @ WASI_DIR e),
         exec_or_true ''rm'' [''-rf'', WASI_DIR e] (rm_rf (WASI_DIR e)),
         exec ''tar'' [''-C'', TOOL_DIR e, ''-xf'', WASI_TARBALL e PLATFORM]
           (tar_x e (TOOL_DIR e) (WASI_TARBALL e PLATFORM)),
         exec ''mv'' [WASI_DIR e @ ''-'' @ PLATFORM, WASI_DIR e]
           (mv (WASI_DIR e @ ''-'' @ PLATFORM) (WASI_DIR e))]
        [echo (''[wasi-sdk] Using existing '' @ WASI_DIR e)],
      ifte (\<lambda>f. \<not> is_exec f (WASI_SDK e @ ''/bin/clang''))
        [echo (''Error: clang not found at '' @ WASI_SDK e @ ''/bin/clang''),
         exit_sh 1] [],
      exec (WASI_SDK e @ ''/bin/clang'') [''--print-resource-dir'']
        (tool_query (WASI_SDK e @ ''/bin/clang'')),
      ifte (\<lambda>f. \<not> is_file f (RT_BUILTINS e))
        [echo (''Error: compiler-rt builtins not found at: '' @ RT_BUILTINS e),
         echo (''Ensure you're using the official wasi-sdk '' @ WASI_VER @ '' macOS tarball.''),
         exit_sh 1] []]"

definition cpython_toolchain :: "env \<Rightarrow> string \<Rightarrow> cmd list" where
  "cpython_toolchain e PLATFORM = cpython_sdk_fetch e PLATFORM @ cpython_sdk_install e PLATFORM"

text \<open>Lines 72 to 85: the archive of the runtime source and its checksum.\<close>

definition cpython_src_fetch :: "env \<Rightarrow> cmd list" where
  "cpython_src_fetch e =
     [ifte (\<lambda>f. \<not> is_file f (PY_TARBALL e))
        [echo (''[cpython] Downloading CPython '' @ PY_VER),
         curl e [''-fL'', ''-o'', PY_TARBALL e, PY_URL] (PY_TARBALL e) PY_URL]
        [echo (''[cpython] Using existing '' @ PY_TARBALL e)],
      echo ''[cpython] Verifying checksum'',
      exec ''shasum'' [''-a'', ''256'', ''-c'', PY_CHECKFILE e]
        (shasum_c e False (TOOL_DIR e) (PY_CHECKFILE e))]"

text \<open>Lines 87 to 143: the source is extracted and configured, the headers are copied.\<close>

definition cpython_configure :: "env \<Rightarrow> cmd list" where
  "cpython_configure e =
     [ifte (\<lambda>f. \<not> is_dir f (PY_SRC e))
        [echo (''[cpython] Extracting to '' @ PY_SRC e),
         exec_or_true ''rm'' [''-rf'', PY_SRC e] (rm_rf (PY_SRC e)),
         exec ''tar'' [''-C'', TOOL_DIR e, ''-xf'', PY_TARBALL e]
           (tar_x e (TOOL_DIR e) (PY_TARBALL e))]
        [echo (''[cpython] Using existing '' @ PY_SRC e)],
      pushd (PY_SRC e),
      exec ''uv'' [''sync''] (\<lambda>f. (if uv_sync_ok e then 0 else 1, f)),
      exec ''uv'' [''run'', ''python'', ''-c'', ''import sys; print(sys.executable)'']
        (\<lambda>f. (if uv_build_python e = None then 1 else 0, f)),
      echo (''[cpython] Using BUILD_PY: '' @ BUILD_PY e),
      exec ''mkdir'' [''-p'', ''build-wasi''] (mkdir_p [PY_SRC e @ ''/build-wasi'']),
      redirect_to (MERGED_SITE e) (merged_site_text e),
      echo (''[cpython] Configuring with CONFIG_SITE: '' @ MERGED_SITE e),
      exec_or_true ''./config.guess'' [] (\<lambda>f. (0, f)),
      exec ''./Tools/wasm/wasi-env'' (configure_args e) (configure e),
      echo (''[cpython] Copying headers to '' @ TOOL_DIR e @ ''/py-headers-3.12''),
      exec_or_true ''rm'' [''-rf'', HEADERS_OUT e] (rm_rf (HEADERS_OUT e)),
      exec ''mkdir'' [''-p'', HEADERS_OUT e] (mkdir_p [HEADERS_OUT e]),
      cp_R_glob False (PY_SRC e @ ''/Include'') [] (HEADERS_OUT e),
      exec ''cp'' [PY_SRC e @ ''/pyconfig.h'', HEADERS_OUT e @ ''/'']
        (cp_R [PY_SRC e @ ''/pyconfig.h''] (HEADERS_OUT e)),
      echo (''[cpython] PY_INC='' @ HEADERS_OUT e),
      echo ''[cpython] PY_ABI=cp312'']"

definition cpython_headers_body :: "env \<Rightarrow> cmd list" where
  "cpython_headers_body e = cpython_src_fetch e @ cpython_configure e"

definition cpython_headers :: "env \<Rightarrow> cmd list" where
  "cpython_headers e = [ifte (\<lambda>f. \<not> is_dir f (HEADERS_OUT e)) (cpython_headers_body e) []]"

text \<open>Lines 7 to 30, and the rest for the platform found.\<close>

definition build_cpython :: "env \<Rightarrow> cmd" where
  "build_cpython e =
     script
       ([echo ''Step 1: Build CPython for WASI'',
         exec ''mkdir'' [''-p'', TOOL_DIR e] (mkdir_p [TOOL_DIR e]),
         exec ''uname'' [''-m''] (\<lambda>f. (0, f))]
        @ (case detect_platform e of
             Inl msg \<Rightarrow> [echo msg, exit_sh 1]
           | Inr PLATFORM \<Rightarrow>
               echo (''Platform Detected: '' @ PLATFORM)
               # cpython_toolchain e PLATFORM @ cpython_headers e))"


section \<open>What a run does: classes of events, invariants of commands\<close>

definition is_download :: "event \<Rightarrow> bool" where
  "is_download ev = (case ev of Exec prog args \<Rightarrow> basename prog = ''curl'' | Echo m \<Rightarrow> False)"

definition is_checksum :: "event \<Rightarrow> bool" where
  "is_checksum ev = (case ev of Exec prog args \<Rightarrow> basename prog = ''shasum'' | Echo m \<Rightarrow> False)"

definition is_extract :: "event \<Rightarrow> bool" where
  "is_extract ev =
     (case ev of Exec prog args \<Rightarrow> basename prog = ''tar'' \<and> ''-xf'' \<in> set args
      | Echo m \<Rightarrow> False)"

definition is_compile :: "event \<Rightarrow> bool" where
  "is_compile ev =
     (case ev of Exec prog args \<Rightarrow> basename prog = ''clang'' \<and> ''-c'' \<in> set args
      | Echo m \<Rightarrow> False)"

definition is_link :: "event \<Rightarrow> bool" where
  "is_link ev = (case ev of Exec prog args \<Rightarrow> basename prog = ''wasm-ld'' | Echo m \<Rightarrow> False)"

definition is_configure :: "event \<Rightarrow> bool" where
  "is_configure ev = (case ev of Exec prog args \<Rightarrow> basename prog = ''wasi-env'' | Echo m \<Rightarrow> False)"

text \<open>
  \<open>keeps J c\<close>: the command keeps the property \<open>J\<close> of file system and trace, whether it
  ends, fails or is killed.  \<open>valid P c Q\<close>: from a state with \<open>P\<close>, if the script is
  still running after the command, \<open>Q\<close> holds.
\<close>

definition keeps :: "(filesys \<Rightarrow> event list \<Rightarrow> bool) \<Rightarrow> cmd \<Rightarrow> bool" where
  "keeps J c = (\<forall>s. J (fs s) (out s) \<longrightarrow> J (fs (c s)) (out (c s)))"

definition valid ::
  "(filesys \<Rightarrow> event list \<Rightarrow> bool) \<Rightarrow> cmd \<Rightarrow> (filesys \<Rightarrow> event list \<Rightarrow> bool) \<Rightarrow> bool" where
  "valid P c Q =
     (\<forall>s. P (fs s) (out s) \<longrightarrow> status (c s) = Running \<longrightarrow> Q (fs (c s)) (out (c s)))"

section \<open>Concrete environments and file systems\<close>

text \<open>
  A small environment: the scripts live in \<open>/r\<close>, the host is Linux on x86-64, the digest
  of a byte string is the string behind a number sign, the checksum files pin the
  archives that the network serves.
\<close>

definition demo_env :: env where
  "demo_env =
     \<lparr>ROOT = ''/r'', OSTYPE = ''linux-gnu'', uname_m = ''x86_64'',
      XXHASH_VER_env = None, MSGSPEC_VER_env = None,
      curl_fetch = (\<lambda>u.
        if u = ''https://files.pythonhosted.org/packages/source/x/xxhash/xxhash-3.4.1.tar.gz''
        then Some ''XX''
        else if u = ''https://github.com/jcrist/msgspec/archive/refs/tags/0.19.0.tar.gz''
        then Some ''MS''
        else if u = ''https://github.com/WebAssembly/wasi-sdk/releases/download/wasi-sdk-27/wasi-sdk-27.0-x86_64-linux.tar.gz''
        then Some ''SDK''
        else None),
      sha256 = (\<lambda>b. ''#'' @ b),
      checksum_lines = (\<lambda>p.
        if p = ''/r/xxhash.sha256sum'' then Some [(''#XX'', ''xxhash-3.4.1-pypi.tar.gz'')]
        else if p = ''/r/msgspec.sha256sum'' then Some [(''#MS'', ''msgspec-0.19.0-github.tar.gz'')]
        else if p = ''/r/wasi-sdk.sha256sum''
        then Some [(''#SDK'', ''wasi-sdk-27.0-x86_64-linux.tar.gz''),
                   (''#SDK-ARM'', ''wasi-sdk-27.0-arm64-linux.tar.gz'')]
        else if p = ''/r/python.sha256sum'' then Some [(''#PY'', ''Python-3.12.0.tgz'')]
        else None),
      tar_members = (\<lambda>b.
        if b = ''XX''
        then Some [(''xxhash-3.4.1'', Dir),
                   (''xxhash-3.4.1/xxhash/__init__.py'', File ''py'' False),
                   (''xxhash-3.4.1/src/_xxhash.c'', File ''c1'' False),
                   (''xxhash-3.4.1/deps/xxhash/xxhash.c'', File ''c2'' False)]
        else if b = ''MS''
        then Some [(''msgspec-0.19.0'', Dir),
                   (''msgspec-0.19.0/msgspec/__init__.py'', File ''py'' False),
                   (''msgspec-0.19.0/msgspec/_core.c'', File ''c'' False)]
        else None),
      tar_pack = (\<lambda>ms. concat (map fst ms)),
      clang_resource_dir = ''/r/_tooling/wasi-sdk-27.0/lib/clang/19'',
      clang_compile = (\<lambda>args f. Some ''obj''),
      wasm_ld_link = (\<lambda>args f. Some ''wasm''),
      uv_sync_ok = True,
      uv_build_python = Some ''/usr/bin/python3'',
      config_guess = ''x86_64-pc-linux-gnu'',
      configure_run = (\<lambda>args f. Some [(''pyconfig.h'', File ''h'' False)])\<rparr>"

text \<open>A tool cache with the toolchain extracted and the header bundle in place.\<close>

definition demo_fs :: filesys where
  "demo_fs =
     [(''/r'', Dir), (''/r/_tooling'', Dir),
      (''/r/_tooling/wasi-sdk-27.0'', Dir), (''/r/_tooling/wasi-sdk-27.0/bin'', Dir),
      (''/r/_tooling/wasi-sdk-27.0/bin/clang'', File ''clang'' True),
      (''/r/_tooling/wasi-sdk-27.0/bin/wasm-ld'', File ''ld'' True),
      (''/r/_tooling/wasi-sdk-27.0/lib'', Dir), (''/r/_tooling/wasi-sdk-27.0/lib/clang'', Dir),
      (''/r/_tooling/wasi-sdk-27.0/lib/clang/19'', Dir),
      (''/r/_tooling/wasi-sdk-27.0/lib/clang/19/lib'', Dir),
      (''/r/_tooling/wasi-sdk-27.0/lib/clang/19/lib/wasm32-unknown-wasi'', Dir),
      (''/r/_tooling/wasi-sdk-27.0/lib/clang/19/lib/wasm32-unknown-wasi/libclang_rt.builtins.a'',
         File ''rt'' False),
      (''/r/_tooling/py-headers-3.12'', Dir)]"

text \<open>A tool cache that holds only the two extension tarballs of an earlier run.\<close>

definition cached_fs :: filesys where
  "cached_fs =
     [(''/r'', Dir), (''/r/_tooling'', Dir),
      (''/r/_tooling/xxhash-wasi.tar.gz'', File ''old xxhash tarball'' False),
      (''/r/_tooling/msgspec-wasi.tar.gz'', File ''old msgspec tarball'' False)]"

text \<open>A tool cache that is still empty.\<close>

definition bare_fs :: filesys where
  "bare_fs = [(''/r'', Dir), (''/r/_tooling'', Dir)]"

section \<open>Reading a trace\<close>

text \<open>\<open>only_events Q c\<close>: every event that the command adds to the trace satisfies \<open>Q\<close>.\<close>

definition only_events :: "(event \<Rightarrow> bool) \<Rightarrow> cmd \<Rightarrow> bool" where
  "only_events Q c = keeps (\<lambda>f tr. list_all Q tr) c"

text \<open>The argument that follows the option \<open>k\<close>; the output file of a link step.\<close>

fun arg_after :: "string \<Rightarrow> string list \<Rightarrow> string option" where
  "arg_after k (x # y # r) = (if x = k then Some y else arg_after k (y # r))"
| "arg_after k r = None"

definition link_output :: "event \<Rightarrow> path option" where
  "link_output ev = (case ev of Exec prog args \<Rightarrow> arg_after ''-o'' args | Echo m \<Rightarrow> None)"

text \<open>
  The name of a compiled module is \<^verbatim>\<open><module>.<ABI tag>-<target triple>.so\<close>, the ABI tag
  being the implementation and its version (\<^verbatim>\<open>cpython-312\<close>).  \<open>module_tags\<close> reads the
  ABI tag and the target triple off the file name.
\<close>

fun split_on :: "char \<Rightarrow> string \<Rightarrow> string list" where
  "split_on c [] = [[]]"
| "split_on c (x # xs) =
     (if x = c then [] # split_on c xs
      else (case split_on c xs of [] \<Rightarrow> [[x]] | h # t \<Rightarrow> (x # h) # t))"

fun join_with :: "string \<Rightarrow> string list \<Rightarrow> string" where
  "join_with sep [] = []"
| "join_with sep [x] = x"
| "join_with sep (x # y # r) = x @ sep @ join_with sep (y # r)"

definition module_tags :: "path \<Rightarrow> (string \<times> string) option" where
  "module_tags p =
     (case split_on CHR ''.'' (basename p) of
        [stem, tag, ext] \<Rightarrow>
          (case split_on CHR ''-'' tag of
             impl # ver # t # ts \<Rightarrow> Some (impl @ ''-'' @ ver, join_with ''-'' (t # ts))
           | _ \<Rightarrow> None)
      | _ \<Rightarrow> None)"

definition module_tags_of :: "event \<Rightarrow> (string \<times> string) option" where
  "module_tags_of ev = (case link_output ev of None \<Rightarrow> None | Some p \<Rightarrow> module_tags p)"

text \<open>The symbols that a link step exports by name.\<close>

definition explicit_exports :: "string list \<Rightarrow> string list" where
  "explicit_exports args = map (drop 9) (filter (prefix ''--export='') args)"

text \<open>What is observed of a finished run: its status, its trace, and the nodes at some paths.\<close>

definition probe :: "sh \<Rightarrow> path list \<Rightarrow> status \<times> event list \<times> node option list" where
  "probe s ps = (status s, out s, map (map_of (fs s)) ps)"

text \<open>
  \<open>final_absent tar_args out_tar f tr\<close>: no regular file is at the final path of the
  tarball, unless the packaging \<^verbatim>\<open>tar\<close> has been started.
\<close>

definition final_absent :: "string list \<Rightarrow> path \<Rightarrow> filesys \<Rightarrow> event list \<Rightarrow> bool" where
  "final_absent tar_args out_tar f tr = (Exec ''tar'' tar_args \<in> set tr \<or> \<not> is_file f out_tar)"

section \<open>The checksum gate\<close>

text \<open>
  The bytes that a stage has in the archive file when it verifies the checksum: those of
  the file in the tool cache when there is one, else those that the network serves.
\<close>

definition archive_bytes :: "env \<Rightarrow> filesys \<Rightarrow> path \<Rightarrow> string \<Rightarrow> bytes option" where
  "archive_bytes e f file url =
     (case file_at f file of Some (b, x) \<Rightarrow> Some b | None \<Rightarrow> curl_fetch e url)"

text \<open>The work that a stage does on an archive: extraction, configuration, compilation, linking.\<close>

definition is_work :: "event \<Rightarrow> bool" where
  "is_work ev = (is_extract ev \<or> is_configure ev \<or> is_compile ev \<or> is_link ev)"

text \<open>\<open>never_exits_zero c\<close>: the command does not end the script with exit code 0.\<close>

definition never_exits_zero :: "cmd \<Rightarrow> bool" where
  "never_exits_zero c = (\<forall>s. status s \<noteq> Exited 0 \<longrightarrow> status (c s) \<noteq> Exited 0)"

text \<open>Lines 7 to 30 of build\_cpython.sh, for a platform that was recognised.\<close>

definition cpython_until_sdk_check :: "env \<Rightarrow> string \<Rightarrow> cmd list" where
  "cpython_until_sdk_check e P =
     [echo ''Step 1: Build CPython for WASI'',
      exec ''mkdir'' [''-p'', TOOL_DIR e] (mkdir_p [TOOL_DIR e]),
      exec ''uname'' [''-m''] (\<lambda>f. (0, f)),
      echo (''Platform Detected: '' @ P)]"

text \<open>
  \<open>triple P c Q A\<close>: from a running state with \<open>P\<close>, the trace after the command has
  \<open>A\<close>, however the command ends, and file system and trace have \<open>Q\<close> when the script is
  still running.
\<close>

definition triple ::
  "(filesys \<Rightarrow> event list \<Rightarrow> bool) \<Rightarrow> cmd \<Rightarrow> (filesys \<Rightarrow> event list \<Rightarrow> bool)
     \<Rightarrow> (event list \<Rightarrow> bool) \<Rightarrow> bool" where
  "triple P c Q A =
     (\<forall>s. status s = Running \<longrightarrow> P (fs s) (out s) \<longrightarrow>
          A (out (c s)) \<and> (status (c s) = Running \<longrightarrow> Q (fs (c s)) (out (c s))))"

section \<open>Reruns of the toolchain stage\<close>

text \<open>The events of the toolchain stage that a rerun may or may not repeat.\<close>

definition sdk_untar :: "env \<Rightarrow> string \<Rightarrow> event" where
  "sdk_untar e P = Exec ''tar'' [''-C'', TOOL_DIR e, ''-xf'', WASI_TARBALL e P]"

definition sdk_mv :: "env \<Rightarrow> string \<Rightarrow> event" where
  "sdk_mv e P = Exec ''mv'' [WASI_DIR e @ ''-'' @ P, WASI_DIR e]"

definition sdk_curl :: "env \<Rightarrow> string \<Rightarrow> event" where
  "sdk_curl e P = Exec ''curl'' [''-fL'', ''-o'', WASI_TARBALL e P, WASI_URL P]"

definition sdk_shasum :: "env \<Rightarrow> event" where
  "sdk_shasum e = Exec ''shasum'' [''-a'', ''256'', ''-c'', WASI_CHECKFILE e, ''--ignore-missing'']"

definition rerun_event :: "env \<Rightarrow> string \<Rightarrow> bool \<Rightarrow> event \<Rightarrow> bool" where
  "rerun_event e P cached ev =
     (ev \<noteq> sdk_untar e P \<and> ev \<noteq> sdk_mv e P \<and> (cached \<longrightarrow> ev \<noteq> sdk_curl e P))"

definition rerun_state :: "env \<Rightarrow> string \<Rightarrow> bool \<Rightarrow> filesys \<Rightarrow> event list \<Rightarrow> bool" where
  "rerun_state e P cached f tr =
     (is_dir f (WASI_DIR e) \<and> (cached \<longrightarrow> is_file f (WASI_TARBALL e P))
      \<and> list_all (rerun_event e P cached) tr)"

text \<open>The tool cache of the concrete environment, with the archive of the toolchain kept.\<close>

definition rerun_fs :: filesys where
  "rerun_fs = (''/r/_tooling/wasi-sdk-27.0-x86_64-linux.tar.gz'', File ''SDK'' False) # demo_fs"

section \<open>Verification before work\<close>

text \<open>
  \<open>verified_first W m tr\<close>: in the trace, no event of the kind \<open>W\<close> comes before the
  first occurrence of the event \<open>m\<close>.
\<close>

definition verified_first :: "(event \<Rightarrow> bool) \<Rightarrow> event \<Rightarrow> event list \<Rightarrow> bool" where
  "verified_first W m tr = list_all (\<lambda>ev. \<not> W ev) (takeWhile (\<lambda>ev. ev \<noteq> m) tr)"

definition xx_shasum :: "env \<Rightarrow> event" where
  "xx_shasum e = Exec ''shasum'' [''-a'', ''256'', ''-c'', xx_CHECKFILE e]"

definition ms_shasum :: "env \<Rightarrow> event" where
  "ms_shasum e = Exec ''shasum'' [''-a'', ''256'', ''-c'', ms_CHECKFILE e]"

definition py_shasum :: "env \<Rightarrow> event" where
  "py_shasum e = Exec ''shasum'' [''-a'', ''256'', ''-c'', PY_CHECKFILE e]"

definition py_curl :: "env \<Rightarrow> event" where
  "py_curl e = Exec ''curl'' [''-fL'', ''-o'', PY_TARBALL e, PY_URL]"

text \<open>The work on the runtime source: its extraction and its configuration.\<close>

definition py_work :: "env \<Rightarrow> event \<Rightarrow> bool" where
  "py_work e ev =
     (ev = Exec ''tar'' [''-C'', TOOL_DIR e, ''-xf'', PY_TARBALL e] \<or> is_configure ev)"

text \<open>
  Lines 7 to 68 of build\_cpython.sh, for a platform that was recognised: all that comes
  before the header bundle.
\<close>

definition cpython_sdk_part :: "env \<Rightarrow> string \<Rightarrow> cmd list" where
  "cpython_sdk_part e P =
     cpython_until_sdk_check e P @ cpython_sdk_fetch e P @ cpython_sdk_install e P"

section \<open>Archives that do not match their pinned checksum\<close>

text \<open>
  \<open>pinned_mismatch e f checkfile name file url\<close>: the checksum file has a line for the file
  name of the archive, and the digest of the bytes that the stage has in the archive
  file (see \<open>archive_bytes\<close>) is not the digest of that line.
\<close>

definition pinned_mismatch ::
  "env \<Rightarrow> filesys \<Rightarrow> path \<Rightarrow> string \<Rightarrow> path \<Rightarrow> string \<Rightarrow> bool" where
  "pinned_mismatch e f checkfile name file url =
     (case checksum_lines e checkfile of
        None \<Rightarrow> False
      | Some ls \<Rightarrow>
          (case archive_bytes e f file url of
             None \<Rightarrow> False
           | Some b \<Rightarrow> list_ex (\<lambda>(h, n). n = name \<and> sha256 e b \<noteq> h) ls))"

text \<open>The five archives of the concrete environment, each with bytes that were tampered with.\<close>

definition tampered_archives :: filesys where
  "tampered_archives =
     [(''/r/_tooling/xxhash-3.4.1-pypi.tar.gz'', File ''XX tampered'' False),
      (''/r/_tooling/msgspec-0.19.0-github.tar.gz'', File ''MS tampered'' False),
      (''/r/_tooling/wasi-sdk-27.0-x86_64-linux.tar.gz'', File ''SDK tampered'' False),
      (''/r/_tooling/Python-3.12.0.tgz'', File ''PY tampered'' False),
      (''/r/_tooling/pydantic_core-wasi.tar.gz'', File ''PD tampered'' False)]"

section \<open>Runs that are not interrupted\<close>

text \<open>
  \<open>steady c\<close>: when no crash point is set, the command sets none and does not kill the
  script.  \<open>fails s\<close>: the script has ended with an exit code other than 0.
\<close>

definition steady :: "cmd \<Rightarrow> bool" where
  "steady c =
     (\<forall>s. fuel s = None \<longrightarrow> fuel (c s) = None \<and> (status s \<noteq> Killed \<longrightarrow> status (c s) \<noteq> Killed))"

definition fails :: "sh \<Rightarrow> bool" where
  "fails s = (case status s of Exited rc \<Rightarrow> rc \<noteq> 0 | _ \<Rightarrow> False)"

text \<open>\<open>passes c f\<close>: a run of the commands from \<open>f\<close>, not interrupted, goes through all of them.\<close>

definition passes :: "cmd list \<Rightarrow> filesys \<Rightarrow> bool" where
  "passes cs f = (status (script cs \<lparr>fs = f, out = [], status = Running, fuel = None\<rparr>) = Running)"

section \<open>Checksum files and the artifacts they name\<close>

text \<open>\<open>listed e checkfile name\<close>: the checksum file has a line for the file name.\<close>

definition listed :: "env \<Rightarrow> path \<Rightarrow> string \<Rightarrow> bool" where
  "listed e checkfile name =
     (case checksum_lines e checkfile of None \<Rightarrow> False | Some ls \<Rightarrow> name \<in> snd ` set ls)"

text \<open>
  The concrete environment with \<^verbatim>\<open>XXHASH_VER=3.5.0\<close> set by the caller, as line 16 of
  build\_xxhash.sh allows: the network serves that release, the checksum file still pins
  only the archive of release 3.4.1.  In the tool cache, next to toolchain and header
  bundle, is the archive of release 3.4.1 that an earlier run has left there.
\<close>

definition unpinned_env :: env where
  "unpinned_env =
     demo_env
       \<lparr>XXHASH_VER_env := Some ''3.5.0'',
        curl_fetch := (\<lambda>u.
          if u = ''https://files.pythonhosted.org/packages/source/x/xxhash/xxhash-3.5.0.tar.gz''
          then Some ''XX5'' else curl_fetch demo_env u),
        tar_members := (\<lambda>b.
          if b = ''XX5''
          then Some [(''xxhash-3.5.0'', Dir),
                     (''xxhash-3.5.0/xxhash/__init__.py'', File ''py5'' False),
                     (''xxhash-3.5.0/src/_xxhash.c'', File ''c1'' False),
                     (''xxhash-3.5.0/deps/xxhash/xxhash.c'', File ''c2'' False)]
          else if b = ''XX5 tampered''
          then Some [(''xxhash-3.5.0'', Dir),
                     (''xxhash-3.5.0/xxhash/__init__.py'', File ''py5'' False),
                     (''xxhash-3.5.0/src/_xxhash.c'', File ''c1 tampered'' False),
                     (''xxhash-3.5.0/deps/xxhash/xxhash.c'', File ''c2'' False)]
          else tar_members demo_env b)\<rparr>"

definition unpinned_fs :: filesys where
  "unpinned_fs = (''/r/_tooling/xxhash-3.4.1-pypi.tar.gz'', File ''XX'' False) # demo_fs"

text \<open>
  The same tool cache when an archive of release 3.5.0 is in it as well, with other
  bytes than the network serves for that release.
\<close>

definition unpinned_cached_fs :: filesys where
  "unpinned_cached_fs =
     (''/r/_tooling/xxhash-3.5.0-pypi.tar.gz'', File ''XX5 tampered'' False) # unpinned_fs"

text \<open>
  A host running macOS on arm64, with a checksum file for the toolchain that pins only
  the two Linux archives, and a tool cache that holds the archive for macOS next to a
  genuine archive for Linux on x86-64.
\<close>

definition mac_env :: env where
  "mac_env = demo_env\<lparr>OSTYPE := ''darwin23'', uname_m := ''arm64''\<rparr>"

definition mac_fs :: filesys where
  "mac_fs =
     [(''/r'', Dir), (''/r/_tooling'', Dir),
      (''/r/_tooling/wasi-sdk-27.0-x86_64-linux.tar.gz'', File ''SDK'' False),
      (''/r/_tooling/wasi-sdk-27.0-arm64-macos.tar.gz'', File ''any bytes'' False)]"

text \<open>What the claims on verification read off a run: how it ended, and its downloads,
  checksum verifications and work, in the order of the trace.\<close>

definition summary :: "sh \<Rightarrow> status \<times> event list \<times> event list \<times> event list" where
  "summary s =
     (status s, filter is_download (out s), filter is_checksum (out s), filter is_work (out s))"

section \<open>The driver: the second script of the file build\_xxhash.sh\<close>

text \<open>
  The file build\_xxhash.sh holds a second script, lines 152 to 230, whose own file name
  is not given.  It stages the dependencies of the guest (step 2: toolchain and headers
  through build\_cpython.sh, the prebuilt pydantic tarball, the two extension tarballs)
  and assembles the component (step 3).  The line numbers below are those of the file.

  What the generator of the prelude and \<^verbatim>\<open>componentize-py\<close> write is not the driver's
  affair; their results are parameters.
\<close>

record guest =
  generate_prelude :: "filesys \<Rightarrow> bytes option"
  componentize_py :: "filesys \<Rightarrow> bytes option"

text \<open>\<^verbatim>\<open>cd dir\<close> fails, and with it the script, when \<open>dir\<close> is no directory.\<close>

definition cd :: "path \<Rightarrow> cmd" where
  "cd d = tick (\<lambda>s. if is_dir (fs s) d then s else s\<lparr>status := Exited 1\<rparr>)"

text \<open>\<^verbatim>\<open>source file\<close> fails, and with it the script, when there is no such file.\<close>

definition source_file :: "path \<Rightarrow> cmd" where
  "source_file p = tick (\<lambda>s. if is_file (fs s) p then s else s\<lparr>status := Exited 1\<rparr>)"

text \<open>\<^verbatim>\<open>mkdir dir\<close>, without \<^verbatim>\<open>-p\<close>: fails when \<open>dir\<close> exists or its parent does not.\<close>

definition mkdir1 :: "path \<Rightarrow> action" where
  "mkdir1 d f = (if map_of f d \<noteq> None \<or> \<not> parent_ok f d then (1, f) else (0, store d Dir f))"

text \<open>
  \<^verbatim>\<open>bash script\<close>: the other script runs as a child on the same file system.  When it
  ends with exit code 0 the caller goes on; any other exit code ends the caller too,
  under \<^verbatim>\<open>set -e\<close>.
\<close>

definition call :: "path \<Rightarrow> cmd \<Rightarrow> cmd" where
  "call prog c =
     tick (\<lambda>s. let s' = c (s\<lparr>out := out s @ [Exec ''bash'' [prog]]\<rparr>)
               in case status s' of
                    Exited rc \<Rightarrow> if rc = 0 then s'\<lparr>status := Running\<rparr> else s'
                  | _ \<Rightarrow> s')"

definition GUEST_DIR :: "env \<Rightarrow> path" where
  "GUEST_DIR e = ROOT e @ ''/../guest''"

definition DEPS_DIR :: "env \<Rightarrow> path" where
  "DEPS_DIR e = ROOT e @ ''/../guest/.venv/lib/python3.12/site-packages/''"

definition PYDANTIC_NAME :: string where
  "PYDANTIC_NAME = ''pydantic_core-wasi.tar.gz''"

definition PYDANTIC_TAR :: "env \<Rightarrow> path" where
  "PYDANTIC_TAR e = TOOL_DIR e @ ''/'' @ PYDANTIC_NAME"

definition PYDANTIC_WASI_WHEEL :: string where
  "PYDANTIC_WASI_WHEEL =
     ''https://github.com/dicej/wasi-wheels/releases/download/latest/pydantic_core-wasi.tar.gz''"

definition PYDANTIC_CHECKFILE :: "env \<Rightarrow> path" where
  "PYDANTIC_CHECKFILE e = ROOT e @ ''/pydantic.sha256sum''"

definition MSGSPEC_TAR :: "env \<Rightarrow> path" where
  "MSGSPEC_TAR e = TOOL_DIR e @ ''/msgspec-wasi.tar.gz''"

definition XXHASH_TAR :: "env \<Rightarrow> path" where
  "XXHASH_TAR e = TOOL_DIR e @ ''/xxhash-wasi.tar.gz''"

text \<open>
  \<^verbatim>\<open>uv sync\<close> in the guest directory makes the virtual environment \<^verbatim>\<open>.venv\<close> there, with
  its activation script and its directory of installed modules.
\<close>

definition uv_sync :: "env \<Rightarrow> path \<Rightarrow> action" where
  "uv_sync e d f =
     (if uv_sync_ok e \<and> is_dir f d
      then (0, put (d @ ''/.venv/bin/activate'') (File [] False)
                 (snd (mkdir_p [d @ ''/.venv/lib/python3.12/site-packages''] f)))
      else (1, f))"

text \<open>
  Lines 157 to 176.  The two tests of lines 167 and 170 set one flag, \<open>NEED_CPYTHON\<close>,
  which line 173 reads.
\<close>

definition guest_prepare :: "env \<Rightarrow> cmd list" where
  "guest_prepare e =
     [cd (ROOT e),
      echo ''Step 2: Stage deps (deps/site-packages/...)'',
      exec_or_true ''mkdir'' [TOOL_DIR e] (mkdir1 (TOOL_DIR e)),
      ifte (\<lambda>f. \<not> is_exec f (WASI_DIR e @ ''/bin/clang'')
                 \<or> \<not> is_dir f (TOOL_DIR e @ ''/py-headers-3.12''))
        [echo ''[guest] Building CPython/WASI toolchain via build_cpython.sh'',
         call (ROOT e @ ''/build_cpython.sh'') (build_cpython e)] []]"

text \<open>Lines 178 to 188: the prebuilt pydantic tarball, downloaded unless it is there, and its checksum.\<close>

definition guest_fetch :: "env \<Rightarrow> cmd list" where
  "guest_fetch e =
     [ifte (\<lambda>f. \<not> is_file f (PYDANTIC_TAR e))
        [echo (''Dowloading '' @ PYDANTIC_TAR e),
         curl e [''-fL'', PYDANTIC_WASI_WHEEL, ''-o'', PYDANTIC_TAR e]
           (PYDANTIC_TAR e) PYDANTIC_WASI_WHEEL]
        [echo (''Using cached '' @ PYDANTIC_TAR e)],
      echo ''Verifying checksum'',
      exec ''shasum'' [''-a'', ''256'', ''-c'', PYDANTIC_CHECKFILE e]
        (shasum_c e False (TOOL_DIR e) (PYDANTIC_CHECKFILE e))]"

text \<open>Lines 190 to 206: each extension stage runs unless its tarball is there.\<close>

definition guest_extensions :: "env \<Rightarrow> cmd list" where
  "guest_extensions e =
     [ifte (\<lambda>f. \<not> is_file f (MSGSPEC_TAR e))
        [echo ''[guest] Building msgspec-wasi.tar.gz via build_msgspec.sh'',
         call (ROOT e @ ''/build_msgspec.sh'') (build_msgspec e)]
        [echo (''Using cached '' @ MSGSPEC_TAR e)],
      ifte (\<lambda>f. \<not> is_file f (XXHASH_TAR e))
        [echo ''[guest] Building xxhash-wasi.tar.gz via build_xxhash.sh'',
         call (ROOT e @ ''/build_xxhash.sh'') (build_xxhash e)]
        [echo (''Using cached '' @ XXHASH_TAR e)]]"

text \<open>
  Lines 208 to 230.  The working directory is the guest directory, so \<^verbatim>\<open>.venv\<close> is
  \<open>GUEST_DIR e @ ''/.venv''\<close>, which is \<open>DEPS_DIR\<close> without its last four components; the
  \<^verbatim>\<open>cd ..\<close> of line 223 leads to the parent of \<open>ROOT\<close>.
\<close>

definition guest_componentize :: "env \<Rightarrow> guest \<Rightarrow> cmd list" where
  "guest_componentize e g =
     [echo ''Step 3: Componentize'',
      cd (GUEST_DIR e),
      exec ''rm'' [''-rf'', ''.venv''] (rm_rf (GUEST_DIR e @ ''/.venv'')),
      exec ''uv'' [''sync''] (uv_sync e (GUEST_DIR e)),
      source_file (GUEST_DIR e @ ''/.venv/bin/activate''),
      exec ''tar'' [''-xf'', PYDANTIC_TAR e, ''-C'', DEPS_DIR e]
        (tar_x e (butlast (DEPS_DIR e)) (PYDANTIC_TAR e)),
      exec ''tar'' [''-xf'', MSGSPEC_TAR e, ''-C'', DEPS_DIR e]
        (tar_x e (butlast (DEPS_DIR e)) (MSGSPEC_TAR e)),
      exec ''tar'' [''-xf'', XXHASH_TAR e, ''-C'', DEPS_DIR e]
        (tar_x e (butlast (DEPS_DIR e)) (XXHASH_TAR e)),
      exec ''uv'' [''run'', ''python'', ''generate_prelude.py'']
        (\<lambda>f. case generate_prelude g f of
                None \<Rightarrow> (1, f)
              | Some b \<Rightarrow> write_file (GUEST_DIR e @ ''/the_prelude.py'') (File b False) f),
      cd (ROOT e @ ''/..''),
      exec ''componentize-py''
        [''-d'', ROOT e @ ''/../wit'', ''-w'', ''env'', ''componentize'', ''guest.execenv'', ''-o'',
         ROOT e @ ''/../env.wasm'']
        (\<lambda>f. case componentize_py g f of
                None \<Rightarrow> (1, f)
              | Some b \<Rightarrow> write_file (ROOT e @ ''/../env.wasm'') (File b False) f)]"

definition build_guest :: "env \<Rightarrow> guest \<Rightarrow> cmd" where
  "build_guest e g =
     script (guest_prepare e @ guest_fetch e @ guest_extensions e @ guest_componentize e g)"

text \<open>
  The concrete environment with the prebuilt pydantic tarball on the network and its
  checksum file, and a guest whose tools succeed.
\<close>

definition guest_env :: env where
  "guest_env =
     demo_env
       \<lparr>curl_fetch := (\<lambda>u.
          if u = ''https://github.com/dicej/wasi-wheels/releases/download/latest/pydantic_core-wasi.tar.gz''
          then Some ''PD'' else curl_fetch demo_env u),
        checksum_lines := (\<lambda>p.
          if p = ''/r/pydantic.sha256sum'' then Some [(''#PD'', ''pydantic_core-wasi.tar.gz'')]
          else checksum_lines demo_env p),
        tar_members := (\<lambda>b.
          if b = ''PD''
          then Some [(''pydantic_core'', Dir), (''pydantic_core/__init__.py'', File ''pd'' False)]
          else tar_members demo_env b)\<rparr>"

text \<open>The five archives as the network serves them.\<close>

definition genuine_archives :: filesys where
  "genuine_archives =
     [(''/r/_tooling/xxhash-3.4.1-pypi.tar.gz'', File ''XX'' False),
      (''/r/_tooling/msgspec-0.19.0-github.tar.gz'', File ''MS'' False),
      (''/r/_tooling/wasi-sdk-27.0-x86_64-linux.tar.gz'', File ''SDK'' False),
      (''/r/_tooling/Python-3.12.0.tgz'', File ''PY'' False),
      (''/r/_tooling/pydantic_core-wasi.tar.gz'', File ''PD'' False)]"

definition demo_guest :: guest where
  "demo_guest = \<lparr>generate_prelude = (\<lambda>f. Some ''prelude''), componentize_py = (\<lambda>f. Some ''component'')\<rparr>"

section \<open>Lemmas on the shell model\<close>

lemma tick_stopped: "status s \<noteq> Running \<Longrightarrow> tick c s = s"
  by (simp add: tick_def)

lemma script_stopped: "status s \<noteq> Running \<Longrightarrow> script cs s = s"
  by (cases cs) simp_all

lemma script_append: "script (a @ b) s = script b (script a s)"
  by (induction a arbitrary: s) (simp_all add: script_stopped)

lemma script_running: "status (script cs s) = Running \<Longrightarrow> status s = Running"
  using script_stopped by fastforce

lemma keeps_tick: "keeps J c \<Longrightarrow> keeps J (tick c)"
  unfolding keeps_def tick_def
  apply (intro allI impI)
  subgoal for s
    apply (cases "fuel s")
     apply simp
    subgoal for n
      apply (cases n)
       apply simp
      subgoal for m
        apply (drule spec[where x="s\<lparr>fuel := Some m\<rparr>"])
        apply simp
        done
      done
    done
  done

lemma keeps_script: "list_all (keeps J) cs \<Longrightarrow> keeps J (script cs)"
proof (induction cs)
  case Nil
  then show ?case by (simp add: keeps_def)
next
  case (Cons c cs)
  then have c: "keeps J c" and cs: "keeps J (script cs)" by simp_all
  show ?case
    unfolding keeps_def
  proof (intro allI impI)
    fix s :: sh assume J: "J (fs s) (out s)"
    show "J (fs (script (c # cs) s)) (out (script (c # cs) s))"
    proof (cases "status s = Running")
      case True
      from c J have "J (fs (c s)) (out (c s))" by (simp add: keeps_def)
      with cs have "J (fs (script cs (c s))) (out (script cs (c s)))" by (simp add: keeps_def)
      with True show ?thesis by simp
    next
      case False
      with J show ?thesis by simp
    qed
  qed
qed

lemma keeps_ifte: "keeps J (script t) \<Longrightarrow> keeps J (script f) \<Longrightarrow> keeps J (ifte b t f)"
  unfolding ifte_def by (rule keeps_tick) (simp add: keeps_def)

lemma keeps_echo: "(\<And>f tr. J f tr \<Longrightarrow> J f (tr @ [Echo m])) \<Longrightarrow> keeps J (echo m)"
  unfolding echo_def by (rule keeps_tick) (simp add: keeps_def)

lemma keeps_exit: "keeps J (exit_sh rc)"
  unfolding exit_sh_def by (rule keeps_tick) (simp add: keeps_def)

lemma keeps_step_of:
  "(\<And>f tr. J f tr \<Longrightarrow> J (snd (a f)) (tr @ [Exec prog args])) \<Longrightarrow> keeps J (step_of b prog args a)"
  by (simp add: keeps_def step_of_def case_prod_beta)

lemma keeps_exec:
  "(\<And>f tr. J f tr \<Longrightarrow> J (snd (a f)) (tr @ [Exec prog args])) \<Longrightarrow> keeps J (exec prog args a)"
  unfolding exec_def by (rule keeps_tick) (rule keeps_step_of)

lemma keeps_exec_or_true:
  "(\<And>f tr. J f tr \<Longrightarrow> J (snd (a f)) (tr @ [Exec prog args])) \<Longrightarrow> keeps J (exec_or_true prog args a)"
  unfolding exec_or_true_def by (rule keeps_tick) (rule keeps_step_of)


lemma keeps_curl:
  assumes ev: "\<And>f tr. J f tr \<Longrightarrow> J f (tr @ [Exec ''curl'' args])"
    and wr: "\<And>f tr b. J f tr \<Longrightarrow> J (store file (File b False) f) tr"
  shows "keeps J (curl e args file url)"
  unfolding curl_def
  apply (rule keeps_script)
  apply (simp del: script.simps)
  apply (intro conjI keeps_tick)
   apply (auto simp: keeps_def Let_def write_file_def split: option.splits if_splits intro: ev wr)
  done

lemma keeps_tar_czf:
  assumes ev: "\<And>f tr. J f tr \<Longrightarrow> J f (tr @ [Exec ''tar'' args])"
    and wr: "\<And>f tr b. J f tr \<Longrightarrow> J (store outfile (File b False) f) tr"
  shows "keeps J (tar_czf e args dir outfile name)"
  unfolding tar_czf_def
  apply (rule keeps_script)
  apply (simp del: script.simps)
  apply (intro conjI keeps_tick)
   apply (auto simp: keeps_def Let_def write_file_def split: option.splits if_splits intro: ev wr)
  done

lemma keeps_cp_R_glob:
  assumes "\<And>f tr args. J f tr \<Longrightarrow> J (snd (cp_R (glob_ext f d ext) dst f)) (tr @ [Exec ''cp'' args])"
  shows "keeps J (cp_R_glob b d ext dst)"
  unfolding cp_R_glob_def
  apply (rule keeps_tick)
  apply (simp add: keeps_def Let_def step_of_def case_prod_beta assms)
  done

lemma keeps_redirect_to:
  assumes "\<And>f tr b. J f tr \<Longrightarrow> J (store file (File b False) f) tr"
  shows "keeps J (redirect_to file content)"
  unfolding redirect_to_def
  apply (rule keeps_tick)
  apply (auto simp: keeps_def write_file_def assms)
  done

lemma keeps_pushd: "keeps J (pushd d)"
  unfolding pushd_def by (rule keeps_tick) (simp add: keeps_def)

lemma keepsD: "keeps J c \<Longrightarrow> J (fs s) (out s) \<Longrightarrow> J (fs (c s)) (out (c s))"
  by (simp add: keeps_def)

lemma valid_tick:
  assumes "\<And>s. status s = Running \<Longrightarrow> P (fs s) (out s) \<Longrightarrow> status (c s) = Running
             \<Longrightarrow> Q (fs (c s)) (out (c s))"
  shows "valid P (tick c) Q"
  unfolding valid_def
proof (intro allI impI)
  fix s :: sh
  assume P: "P (fs s) (out s)" and r: "status (tick c s) = Running"
  have run: "status s = Running" using r by (auto simp: tick_def split: if_splits)
  show "Q (fs (tick c s)) (out (tick c s))"
  proof (cases "fuel s")
    case None
    with run r P assms[of s] show ?thesis by (simp add: tick_def)
  next
    case (Some n)
    show ?thesis
    proof (cases n)
      case 0
      with Some run r show ?thesis by (simp add: tick_def)
    next
      case (Suc m)
      with Some run r P assms[of "s\<lparr>fuel := Some m\<rparr>"] show ?thesis by (simp add: tick_def)
    qed
  qed
qed

lemma valid_script_Nil: "(\<And>f tr. P f tr \<Longrightarrow> Q f tr) \<Longrightarrow> valid P (script []) Q"
  by (simp add: valid_def)

lemma valid_script_Cons:
  assumes "valid P c R" and "valid R (script cs) Q"
  shows "valid P (script (c # cs)) Q"
  unfolding valid_def
proof (intro allI impI)
  fix s :: sh
  assume P: "P (fs s) (out s)" and r: "status (script (c # cs) s) = Running"
  have run: "status s = Running" using r script_running by blast
  then have eq: "script (c # cs) s = script cs (c s)" by simp
  with r have "status (c s) = Running" using script_running by metis
  with assms(1) P have "R (fs (c s)) (out (c s))" by (simp add: valid_def)
  with assms(2) r eq show "Q (fs (script (c # cs) s)) (out (script (c # cs) s))"
    by (simp add: valid_def)
qed

lemma valid_append:
  assumes "valid P (script a) R" and "valid R (script b) Q"
  shows "valid P (script (a @ b)) Q"
  unfolding valid_def
proof (intro allI impI)
  fix s :: sh
  assume P: "P (fs s) (out s)" and r: "status (script (a @ b) s) = Running"
  then have "status (script a s) = Running" using script_running by (metis script_append)
  with assms(1) P have "R (fs (script a s)) (out (script a s))" by (simp add: valid_def)
  with assms(2) r show "Q (fs (script (a @ b) s)) (out (script (a @ b) s))"
    by (simp add: valid_def script_append)
qed

lemma valid_keeps: "keeps J c \<Longrightarrow> valid J c J"
  by (simp add: valid_def keeps_def)

lemma valid_weaken:
  "valid P c Q \<Longrightarrow> (\<And>f tr. P' f tr \<Longrightarrow> P f tr) \<Longrightarrow> (\<And>f tr. Q f tr \<Longrightarrow> Q' f tr) \<Longrightarrow> valid P' c Q'"
  by (simp add: valid_def)

lemma valid_ifte:
  assumes "valid (\<lambda>f tr. P f tr \<and> b f) (script t) Q"
    and "valid (\<lambda>f tr. P f tr \<and> \<not> b f) (script e) Q"
  shows "valid P (ifte b t e) Q"
  unfolding ifte_def
  using assms by (intro valid_tick) (auto simp: valid_def split: if_splits)

lemma valid_echo: "(\<And>f tr. P f tr \<Longrightarrow> Q f (tr @ [Echo m])) \<Longrightarrow> valid P (echo m) Q"
  unfolding echo_def by (rule valid_tick) simp

lemma valid_exit: "valid P (exit_sh rc) Q"
  unfolding exit_sh_def by (rule valid_tick) simp

lemma valid_exec:
  "(\<And>f tr. P f tr \<Longrightarrow> fst (a f) = 0 \<Longrightarrow> Q (snd (a f)) (tr @ [Exec prog args]))
     \<Longrightarrow> valid P (exec prog args a) Q"
  unfolding exec_def
  by (rule valid_tick) (auto simp: step_of_def case_prod_beta split: if_splits)

lemma valid_exec_or_true:
  "(\<And>f tr. P f tr \<Longrightarrow> Q (snd (a f)) (tr @ [Exec prog args]))
     \<Longrightarrow> valid P (exec_or_true prog args a) Q"
  unfolding exec_or_true_def
  by (rule valid_tick) (auto simp: step_of_def case_prod_beta split: if_splits)

subsection \<open>Steps of an uninterrupted run\<close>

lemma tick_run: "status s = Running \<Longrightarrow> fuel s = None \<Longrightarrow> tick c s = c s"
  by (simp add: tick_def)

lemma echo_run:
  "status s = Running \<Longrightarrow> fuel s = None \<Longrightarrow> echo m s = s\<lparr>out := out s @ [Echo m]\<rparr>"
  by (simp add: echo_def tick_def)

lemma exit_run:
  "status s = Running \<Longrightarrow> fuel s = None \<Longrightarrow> exit_sh rc s = s\<lparr>status := Exited rc\<rparr>"
  by (simp add: exit_sh_def tick_def)

lemma ifte_run:
  "status s = Running \<Longrightarrow> fuel s = None \<Longrightarrow>
   ifte b t f s = (if b (fs s) then script t s else script f s)"
  by (simp add: ifte_def tick_def)

lemma exec_run:
  "status s = Running \<Longrightarrow> fuel s = None \<Longrightarrow>
   exec prog args a s =
     s\<lparr>fs := snd (a (fs s)), out := out s @ [Exec prog args],
       status := (if fst (a (fs s)) = 0 then Running else Exited (fst (a (fs s))))\<rparr>"
  by (simp add: exec_def tick_def step_of_def case_prod_beta)

lemma exec_or_true_run:
  "status s = Running \<Longrightarrow> fuel s = None \<Longrightarrow>
   exec_or_true prog args a s = s\<lparr>fs := snd (a (fs s)), out := out s @ [Exec prog args]\<rparr>"
  by (simp add: exec_or_true_def tick_def step_of_def case_prod_beta)

lemma mkdir_p1_noop: "is_dir f d \<Longrightarrow> mkdir_p1 d f = (0, f)"
  by (simp add: mkdir_p1_def)

lemmas run_simps = echo_run exit_run ifte_run exec_run exec_or_true_run script_stopped
  finish_def run_def

subsection \<open>What the commands leave untouched\<close>

lemma map_of_filter_key:
  "map_of (filter (\<lambda>(q, n). P q) f) p = (if P p then map_of f p else None)"
  by (induction f) auto

lemma map_of_store: "map_of (store p n f) q = (if q = p then Some n else map_of f q)"
  using map_of_filter_key[of "\<lambda>q. q \<noteq> p" f q] by (simp add: store_def)

lemma is_file_file_at: "is_file f p = (file_at f p \<noteq> None)"
  by (simp add: is_file_def file_at_def split: option.splits node.splits)

lemma file_at_store:
  "file_at (store p n f) q = (if q = p then (case n of File b x \<Rightarrow> Some (b, x) | Dir \<Rightarrow> None) else file_at f q)"
  by (simp add: file_at_def map_of_store)

lemma is_dir_store: "is_dir (store p n f) q = (if q = p then n = Dir else is_dir f q)"
  by (simp add: is_dir_def map_of_store)

lemma file_at_ensure_dir: "file_at (ensure_dir f d) q = file_at f q"
  by (auto simp: ensure_dir_def file_at_def map_of_store)

lemma is_dir_ensure_dir: "is_dir f q \<Longrightarrow> is_dir (ensure_dir f d) q"
  by (auto simp: ensure_dir_def is_dir_def map_of_store)

lemma file_at_foldl_ensure_dir: "file_at (foldl ensure_dir f ds) q = file_at f q"
  by (induction ds arbitrary: f) (simp_all add: file_at_ensure_dir)

lemma is_dir_foldl_ensure_dir: "is_dir f q \<Longrightarrow> is_dir (foldl ensure_dir f ds) q"
  by (induction ds arbitrary: f) (simp_all add: is_dir_ensure_dir)

lemma file_at_mkdir_p1: "file_at (snd (mkdir_p1 d f)) q = file_at f q"
  by (simp add: mkdir_p1_def file_at_foldl_ensure_dir file_at_ensure_dir)

lemma is_dir_mkdir_p1: "is_dir f q \<Longrightarrow> is_dir (snd (mkdir_p1 d f)) q"
  by (simp add: mkdir_p1_def is_dir_foldl_ensure_dir is_dir_ensure_dir)

lemma file_at_mkdir_p: "file_at (snd (mkdir_p ds f)) q = file_at f q"
  by (induction ds arbitrary: f) (simp_all add: case_prod_beta file_at_mkdir_p1)

lemma is_dir_mkdir_p: "is_dir f q \<Longrightarrow> is_dir (snd (mkdir_p ds f)) q"
  by (induction ds arbitrary: f) (simp_all add: case_prod_beta is_dir_mkdir_p1)

lemma mkdir_p_noop: "is_dir f d \<Longrightarrow> mkdir_p [d] f = (0, f)"
  by (simp add: mkdir_p1_def)

lemma file_at_rm_rf: "file_at (snd (rm_rf d f)) q = (if under d q then None else file_at f q)"
  using map_of_filter_key[of "\<lambda>q. \<not> under d q" f q] by (simp add: rm_rf_def file_at_def)

lemma is_dir_rm_rf: "is_dir (snd (rm_rf d f)) q = (\<not> under d q \<and> is_dir f q)"
  using map_of_filter_key[of "\<lambda>q. \<not> under d q" f q] by (simp add: rm_rf_def is_dir_def)

lemma file_at_rm_f: "file_at (snd (rm_f p f)) q = (if q = p then None else file_at f q)"
  using map_of_filter_key[of "\<lambda>q. q \<noteq> p" f q]
  by (auto simp: rm_f_def file_at_def is_dir_def)

lemma file_at_put:
  "file_at (put p n f) q = (if q = p then (case n of File b x \<Rightarrow> Some (b, x) | Dir \<Rightarrow> None) else file_at f q)"
  by (simp add: put_def file_at_store file_at_foldl_ensure_dir)

lemma file_at_foldl_put:
  "\<forall>(r, n) \<in> set ms. k r \<noteq> q \<Longrightarrow>
   file_at (foldl (\<lambda>g (r, n). put (k r) n g) f ms) q = file_at f q"
  by (induction ms arbitrary: f) (auto simp: file_at_put)

lemma file_at_write_file: "q \<noteq> p \<Longrightarrow> file_at (snd (write_file p n f)) q = file_at f q"
  by (simp add: write_file_def file_at_store)

lemma file_at_tool_output:
  "q \<noteq> p \<Longrightarrow> file_at (snd (tool_output prog produce p f)) q = file_at f q"
  by (simp add: tool_output_def file_at_write_file split: option.splits)

lemma file_at_tool_query: "file_at (snd (tool_query prog f)) q = file_at f q"
  by (simp add: tool_query_def)

lemma snd_shasum_c: "snd (shasum_c e ign dir chk f) = f"
  by (simp add: shasum_c_def Let_def split: option.splits)

lemma file_at_tar_x:
  "\<not> prefix (dest @ ''/'') q \<Longrightarrow> file_at (snd (tar_x e dest archive f)) q = file_at f q"
  by (auto simp: tar_x_def split: option.splits node.splits intro!: file_at_foldl_put)

lemma file_at_copy_tree:
  "\<not> prefix (dst @ ''/'') q \<Longrightarrow> file_at (copy_tree src dst f) q = file_at f q"
  unfolding copy_tree_def by (rule file_at_foldl_put) auto

lemma file_at_foldl_copy_tree:
  "\<not> prefix (dst @ ''/'') q \<Longrightarrow> file_at (foldl (\<lambda>g src. copy_tree src dst g) f srcs) q = file_at f q"
  by (induction srcs arbitrary: f) (simp_all add: file_at_copy_tree)

lemma file_at_cp_R:
  "\<not> prefix (dst @ ''/'') q \<Longrightarrow> file_at (snd (cp_R srcs dst f)) q = file_at f q"
  by (simp add: cp_R_def file_at_foldl_copy_tree)

lemma map_of_foldl_ensure_dir:
  "map_of (foldl ensure_dir f ds) q =
     (if q \<in> set ds \<and> map_of f q = None then Some Dir else map_of f q)"
  by (induction ds arbitrary: f) (auto simp: ensure_dir_def map_of_store)

lemma ancestors_from_prefix:
  "q \<in> set (ancestors_from acc cs) \<Longrightarrow> prefix q (acc @ cs)"
proof (induction cs arbitrary: acc)
  case Nil
  then show ?case by simp
next
  case (Cons c cs)
  then show ?case by (fastforce split: if_splits)
qed

lemma ancestors_prefix: "q \<in> set (ancestors p) \<Longrightarrow> prefix q p"
  using ancestors_from_prefix[of q "[]" p] by (simp add: ancestors_def)

lemma map_of_mkdir_p1:
  "\<not> prefix q d \<Longrightarrow> map_of (snd (mkdir_p1 d f)) q = map_of f q"
  using ancestors_prefix[of q d]
  by (auto simp: mkdir_p1_def map_of_foldl_ensure_dir ensure_dir_def map_of_store)

lemma map_of_mkdir_p:
  "\<forall>d \<in> set ds. \<not> prefix q d \<Longrightarrow> map_of (snd (mkdir_p ds f)) q = map_of f q"
  by (induction ds arbitrary: f) (simp_all add: case_prod_beta map_of_mkdir_p1)

lemma is_dir_mkdir_p_frame:
  "\<forall>d \<in> set ds. \<not> prefix q d \<Longrightarrow> is_dir (snd (mkdir_p ds f)) q = is_dir f q"
  by (simp add: is_dir_def map_of_mkdir_p)

lemma is_exec_mkdir_p_frame:
  "\<forall>d \<in> set ds. \<not> prefix q d \<Longrightarrow> is_exec (snd (mkdir_p ds f)) q = is_exec f q"
  by (simp add: is_exec_def map_of_mkdir_p)

lemma is_file_mkdir_p: "is_file (snd (mkdir_p ds f)) q = is_file f q"
  by (simp add: is_file_file_at file_at_mkdir_p)

declare mkdir_p.simps [simp del]

subsection \<open>The events of a script\<close>

lemma only_events_echo: "Q (Echo m) \<Longrightarrow> only_events Q (echo m)"
  unfolding only_events_def by (rule keeps_echo) simp

lemma only_events_exit: "only_events Q (exit_sh rc)"
  unfolding only_events_def by (rule keeps_exit)

lemma only_events_exec: "Q (Exec prog args) \<Longrightarrow> only_events Q (exec prog args a)"
  unfolding only_events_def by (rule keeps_exec) simp

lemma only_events_exec_or_true: "Q (Exec prog args) \<Longrightarrow> only_events Q (exec_or_true prog args a)"
  unfolding only_events_def by (rule keeps_exec_or_true) simp

lemma only_events_script: "list_all (only_events Q) cs \<Longrightarrow> only_events Q (script cs)"
  unfolding only_events_def by (rule keeps_script)

lemma only_events_ifte:
  "list_all (only_events Q) t \<Longrightarrow> list_all (only_events Q) f \<Longrightarrow> only_events Q (ifte b t f)"
  unfolding only_events_def by (intro keeps_ifte keeps_script)

lemma only_events_curl: "Q (Exec ''curl'' args) \<Longrightarrow> only_events Q (curl e args file url)"
  unfolding only_events_def by (rule keeps_curl) simp_all

lemma only_events_tar_czf: "Q (Exec ''tar'' args) \<Longrightarrow> only_events Q (tar_czf e args dir outfile name)"
  unfolding only_events_def by (rule keeps_tar_czf) simp_all

lemma only_events_cp_R_glob: "(\<And>args. Q (Exec ''cp'' args)) \<Longrightarrow> only_events Q (cp_R_glob b d ext dst)"
  unfolding only_events_def by (rule keeps_cp_R_glob) simp

lemma only_events_redirect_to: "only_events Q (redirect_to file content)"
  unfolding only_events_def by (rule keeps_redirect_to) simp

lemma only_events_pushd: "only_events Q (pushd d)"
  unfolding only_events_def by (rule keeps_pushd)

lemmas only_events_intros = only_events_echo only_events_exit only_events_exec
  only_events_exec_or_true only_events_ifte only_events_curl only_events_tar_czf
  only_events_cp_R_glob only_events_redirect_to only_events_pushd

lemma only_events_run: "only_events Q c \<Longrightarrow> list_all Q (out (run c f n))"
  by (simp add: only_events_def keeps_def run_def finish_def)

lemma only_events_filter:
  "only_events (\<lambda>ev. P ev \<longrightarrow> R ev) c \<Longrightarrow> list_all R (filter P (out (run c f n)))"
  using only_events_run[of "\<lambda>ev. P ev \<longrightarrow> R ev" c f n]
  by (simp add: list_all_iff)

lemma basename_tool [simp]:
  "basename (d @ ''/bin/clang'') = ''clang''"
  "basename (d @ ''/bin/wasm-ld'') = ''wasm-ld''"
  "basename ''mkdir'' = ''mkdir''" "basename ''rm'' = ''rm''" "basename ''cp'' = ''cp''"
  "basename ''curl'' = ''curl''" "basename ''shasum'' = ''shasum''" "basename ''tar'' = ''tar''"
  "basename ''mv'' = ''mv''" "basename ''uv'' = ''uv''" "basename ''uname'' = ''uname''"
  "basename ''./config.guess'' = ''config.guess''"
  "basename ''./Tools/wasm/wasi-env'' = ''wasi-env''"
  by (simp_all add: basename_def)

subsection \<open>Invariants of whole scripts\<close>

lemma keeps_tar_czf_event:
  assumes ev: "\<And>f tr. Exec ''tar'' args \<in> set tr \<Longrightarrow> J f tr"
  shows "keeps J (tar_czf e args dir outfile name)"
  unfolding keeps_def
proof (intro allI impI)
  fix s :: sh
  assume J: "J (fs s) (out s)"
  let ?s' = "tar_czf e args dir outfile name s"
  have "(fs ?s' = fs s \<and> out ?s' = out s) \<or> Exec ''tar'' args \<in> set (out ?s')"
    by (auto simp: tar_czf_def tick_def Let_def case_prod_beta split: option.splits nat.splits)
  then show "J (fs ?s') (out ?s')"
    using J ev by auto
qed

lemma keeps_script_Nil: "keeps J (script [])"
  by (simp add: keeps_def)

lemma keeps_script_Cons: "keeps J c \<Longrightarrow> keeps J (script cs) \<Longrightarrow> keeps J (script (c # cs))"
  using keeps_script[of J "c # cs"] keeps_script[of J cs]
  by (auto simp: keeps_def)

lemmas keeps_intros = keeps_script_Nil keeps_script_Cons keeps_exec keeps_exec_or_true
  keeps_ifte keeps_echo keeps_exit keeps_curl keeps_cp_R_glob keeps_redirect_to keeps_pushd

subsection \<open>Exit codes and the checksum gate\<close>

lemma nez_tick:
  "(\<And>s. status s = Running \<Longrightarrow> status (c s) \<noteq> Exited 0) \<Longrightarrow> never_exits_zero (tick c)"
  by (auto simp: never_exits_zero_def tick_def split: option.splits nat.splits)

lemma nez_script_Nil: "never_exits_zero (script [])"
  by (simp add: never_exits_zero_def)

lemma nez_script_Cons:
  "never_exits_zero c \<Longrightarrow> never_exits_zero (script cs) \<Longrightarrow> never_exits_zero (script (c # cs))"
  by (simp add: never_exits_zero_def)

lemma nez_script_append:
  "never_exits_zero (script a) \<Longrightarrow> never_exits_zero (script b) \<Longrightarrow> never_exits_zero (script (a @ b))"
  by (simp add: never_exits_zero_def script_append)

lemma nez_echo: "never_exits_zero (echo m)"
  unfolding echo_def by (rule nez_tick) simp

lemma nez_exit: "rc \<noteq> 0 \<Longrightarrow> never_exits_zero (exit_sh rc)"
  unfolding exit_sh_def by (rule nez_tick) simp

lemma nez_exec: "never_exits_zero (exec prog args a)"
  unfolding exec_def by (rule nez_tick) (simp add: step_of_def case_prod_beta)

lemma nez_exec_or_true: "never_exits_zero (exec_or_true prog args a)"
  unfolding exec_or_true_def by (rule nez_tick) (simp add: step_of_def case_prod_beta)

lemma nez_ifte:
  "never_exits_zero (script t) \<Longrightarrow> never_exits_zero (script f) \<Longrightarrow> never_exits_zero (ifte b t f)"
  unfolding ifte_def by (rule nez_tick) (simp add: never_exits_zero_def)

lemma nez_curl: "never_exits_zero (curl e args file url)"
  unfolding curl_def
  by (intro nez_script_Cons nez_script_Nil nez_tick)
    (auto simp: Let_def case_prod_beta split: option.splits)

lemma nez_tar_czf: "never_exits_zero (tar_czf e args dir outfile name)"
  unfolding tar_czf_def
  by (intro nez_script_Cons nez_script_Nil nez_tick)
    (auto simp: Let_def case_prod_beta split: option.splits)

lemma nez_cp_R_glob: "never_exits_zero (cp_R_glob b d ext dst)"
  unfolding cp_R_glob_def by (rule nez_tick) (simp add: step_of_def case_prod_beta Let_def)

lemma nez_redirect_to: "never_exits_zero (redirect_to file content)"
  unfolding redirect_to_def by (rule nez_tick) (simp add: case_prod_beta)

lemma nez_pushd: "never_exits_zero (pushd d)"
  unfolding pushd_def by (rule nez_tick) simp

lemmas nez_intros = nez_script_Nil nez_script_Cons nez_echo nez_exit nez_exec nez_exec_or_true
  nez_ifte nez_curl nez_tar_czf nez_cp_R_glob nez_redirect_to nez_pushd

lemma shasum_mismatch:
  assumes "checksum_lines e chk = Some ls" and "(h, name) \<in> set ls"
    and "file_at f (dir @ ''/'' @ name) = Some (b, x)" and "sha256 e b \<noteq> h"
  shows "fst (shasum_c e ign dir chk f) \<noteq> 0"
proof -
  have "check_line e ign dir f (h, name) = Failed"
    using assms(3,4) by (auto simp: check_line_def file_at_def split: option.splits node.splits)
  then have "Failed \<in> set (map (check_line e ign dir f) ls)"
    using assms(2) by force
  then show ?thesis
    using assms(1) by (simp add: shasum_c_def Let_def)
qed

lemma valid_curl:
  "valid P (curl e args file url)
     (\<lambda>f tr. \<exists>b. curl_fetch e url = Some b \<and> file_at f file = Some (b, False))"
  unfolding valid_def curl_def
  by (auto simp: tick_def Let_def case_prod_beta file_at_store
      split: option.splits nat.splits if_splits)

text \<open>The shape of every fetch: download unless cached, then verify.\<close>

lemma fetch_gate:
  assumes ls: "checksum_lines e chk = Some ls" and mem: "(h, name) \<in> set ls"
    and fl: "file = dir @ ''/'' @ name"
    and bytes: "archive_bytes e f0 file url = Some b" and bad: "sha256 e b \<noteq> h"
  shows "valid (\<lambda>f tr. file_at f file = file_at f0 file)
           (script [ifte (\<lambda>f. \<not> is_file f file) [echo m1, curl e args file url] [echo m2],
                    echo m3,
                    exec ''shasum'' sargs (shasum_c e ign dir chk)])
           (\<lambda>f tr. False)"
proof -
  let ?P = "\<lambda>f (tr :: event list). file_at f file = file_at f0 file"
  let ?R = "\<lambda>f (tr :: event list). \<exists>x. file_at f file = Some (b, x)"
  have dl: "valid (\<lambda>f tr. ?P f tr \<and> \<not> is_file f file) (script [echo m1, curl e args file url]) ?R"
  proof (rule valid_script_Cons[where R = "\<lambda>f tr. ?P f tr \<and> \<not> is_file f file"])
    show "valid (\<lambda>f tr. ?P f tr \<and> \<not> is_file f file) (echo m1)
            (\<lambda>f tr. ?P f tr \<and> \<not> is_file f file)"
      by (rule valid_echo) simp
    have "valid (\<lambda>f tr. ?P f tr \<and> \<not> is_file f file) (curl e args file url) ?R"
      unfolding valid_def
    proof (intro allI impI)
      fix s :: sh
      assume p: "file_at (fs s) file = file_at f0 file \<and> \<not> is_file (fs s) file"
        and r: "status (curl e args file url s) = Running"
      from p have "file_at f0 file = None"
        by (cases "file_at f0 file") (auto simp: is_file_file_at)
      with bytes have "curl_fetch e url = Some b" by (simp add: archive_bytes_def)
      moreover from valid_curl[of "\<lambda>f tr. True" e args "file" url] r
      obtain b' where "curl_fetch e url = Some b'"
        "file_at (fs (curl e args file url s)) file = Some (b', False)"
        by (auto simp: valid_def)
      ultimately show "\<exists>x. file_at (fs (curl e args file url s)) file = Some (b, x)" by auto
    qed
    then show "valid (\<lambda>f tr. ?P f tr \<and> \<not> is_file f file) (script [curl e args file url]) ?R"
      by (intro valid_script_Cons[where R = ?R] valid_script_Nil)
  qed
  have cached: "valid (\<lambda>f tr. ?P f tr \<and> \<not> \<not> is_file f file) (script [echo m2]) ?R"
  proof (intro valid_script_Cons[where R = ?R] valid_script_Nil valid_echo)
    fix f :: filesys and tr :: "event list"
    assume "file_at f file = file_at f0 file \<and> \<not> \<not> is_file f file"
    with bytes show "\<exists>x. file_at f file = Some (b, x)"
      by (auto simp: archive_bytes_def is_file_file_at split: option.splits)
  qed
  have check: "valid ?R (exec ''shasum'' sargs (shasum_c e ign dir chk)) (\<lambda>f tr. False)"
  proof (rule valid_exec)
    fix f :: filesys and tr :: "event list"
    assume "\<exists>x. file_at f file = Some (b, x)" and ok: "fst (shasum_c e ign dir chk f) = 0"
    then obtain x where "file_at f (dir @ ''/'' @ name) = Some (b, x)"
      using fl by auto
    from shasum_mismatch[OF ls mem this bad, of ign] ok show False by simp
  qed
  show ?thesis
  proof (rule valid_script_Cons[where R = ?R])
    show "valid ?P (ifte (\<lambda>f. \<not> is_file f file) [echo m1, curl e args file url] [echo m2]) ?R"
      by (rule valid_ifte[OF dl cached])
    show "valid ?R (script [echo m3, exec ''shasum'' sargs (shasum_c e ign dir chk)])
            (\<lambda>f tr. False)"
    proof (rule valid_script_Cons[where R = ?R])
      show "valid ?R (echo m3) ?R"
        by (rule valid_echo) simp
      show "valid ?R (script [exec ''shasum'' sargs (shasum_c e ign dir chk)]) (\<lambda>f tr. False)"
        by (rule valid_script_Cons[OF check]) (rule valid_script_Nil, simp)
    qed
  qed
qed

text \<open>Once the gate is closed, nothing of the rest of the script runs.\<close>

lemma gate_run:
  assumes pre: "keeps (\<lambda>f tr. file_at f file = file_at f0 file) (script pre)"
    and gate: "valid (\<lambda>f tr. file_at f file = file_at f0 file) (script fetch) (\<lambda>f tr. False)"
  shows "run (script (pre @ fetch @ rest)) f0 n
           = script (pre @ fetch) \<lparr>fs = f0, out = [], status = Running, fuel = n\<rparr>
         \<and> status (run (script (pre @ fetch @ rest)) f0 n) \<noteq> Running"
proof -
  let ?s0 = "\<lparr>fs = f0, out = [], status = Running, fuel = n\<rparr>"
  let ?s1 = "script pre ?s0"
  let ?s2 = "script fetch ?s1"
  have "file_at (fs ?s1) file = file_at f0 file"
    using keepsD[OF pre, of ?s0] by simp
  with gate have "status ?s2 \<noteq> Running"
    by (auto simp: valid_def)
  then show ?thesis
    by (simp add: run_def finish_def script_append script_stopped)
qed

lemma cache_check_miss:
  assumes "\<not> is_file (fs s) out_tar" and "status s \<noteq> Exited 0"
  shows "status (script [exec_or_true ''mkdir'' margs (mkdir_p ds),
                         ifte (\<lambda>f. is_file f out_tar) [echo m, exit_sh 0] []] s) \<noteq> Exited 0"
  using assms
  by (auto simp: exec_or_true_def ifte_def tick_def step_of_def case_prod_beta is_file_mkdir_p
      split: option.splits nat.splits)

subsection \<open>Triples\<close>

lemma triple_tick:
  assumes "\<And>f tr. P f tr \<Longrightarrow> A tr"
    and "\<And>s. status s = Running \<Longrightarrow> P (fs s) (out s) \<Longrightarrow>
           A (out (c s)) \<and> (status (c s) = Running \<longrightarrow> Q (fs (c s)) (out (c s)))"
  shows "triple P (tick c) Q A"
  unfolding triple_def
proof (intro allI impI)
  fix s :: sh
  assume run: "status s = Running" and P: "P (fs s) (out s)"
  show "A (out (tick c s)) \<and> (status (tick c s) = Running \<longrightarrow> Q (fs (tick c s)) (out (tick c s)))"
  proof (cases "fuel s")
    case None
    with run P assms(2)[of s] show ?thesis by (simp add: tick_def)
  next
    case (Some n)
    show ?thesis
    proof (cases n)
      case 0
      with Some run P assms(1) show ?thesis by (simp add: tick_def)
    next
      case (Suc m)
      with Some run P assms(2)[of "s\<lparr>fuel := Some m\<rparr>"] show ?thesis by (simp add: tick_def)
    qed
  qed
qed

lemma triple_Nil: "(\<And>f tr. P f tr \<Longrightarrow> Q f tr \<and> A tr) \<Longrightarrow> triple P (script []) Q A"
  by (simp add: triple_def)

lemma triple_Cons:
  assumes "triple P c R A" and "triple R (script cs) Q A"
  shows "triple P (script (c # cs)) Q A"
  unfolding triple_def
proof (intro allI impI)
  fix s :: sh
  assume run: "status s = Running" and P: "P (fs s) (out s)"
  from assms(1) run P have c: "A (out (c s))"
    "status (c s) = Running \<Longrightarrow> R (fs (c s)) (out (c s))"
    by (auto simp: triple_def)
  show "A (out (script (c # cs) s)) \<and>
        (status (script (c # cs) s) = Running \<longrightarrow>
           Q (fs (script (c # cs) s)) (out (script (c # cs) s)))"
  proof (cases "status (c s) = Running")
    case True
    with assms(2) c(2) run show ?thesis by (simp add: triple_def)
  next
    case False
    with c(1) run show ?thesis by (simp add: script_stopped)
  qed
qed

lemma triple_append:
  assumes "triple P (script a) R A" and "triple R (script b) Q A"
  shows "triple P (script (a @ b)) Q A"
  unfolding triple_def
proof (intro allI impI)
  fix s :: sh
  assume run: "status s = Running" and P: "P (fs s) (out s)"
  from assms(1) run P have a: "A (out (script a s))"
    "status (script a s) = Running \<Longrightarrow> R (fs (script a s)) (out (script a s))"
    by (auto simp: triple_def)
  show "A (out (script (a @ b) s)) \<and>
        (status (script (a @ b) s) = Running \<longrightarrow>
           Q (fs (script (a @ b) s)) (out (script (a @ b) s)))"
  proof (cases "status (script a s) = Running")
    case True
    with assms(2) a(2) show ?thesis by (simp add: triple_def script_append)
  next
    case False
    with a(1) show ?thesis by (simp add: script_append script_stopped)
  qed
qed

lemma triple_contra: "(\<And>f tr. P f tr \<Longrightarrow> False) \<Longrightarrow> triple P c Q A"
  by (auto simp: triple_def)

lemma triple_pre: "triple P c Q A \<Longrightarrow> (\<And>f tr. P' f tr \<Longrightarrow> P f tr) \<Longrightarrow> triple P' c Q A"
  by (simp add: triple_def)

lemma triple_ifte:
  assumes "\<And>f tr. P f tr \<Longrightarrow> A tr"
    and "triple (\<lambda>f tr. P f tr \<and> b f) (script t) Q A"
    and "triple (\<lambda>f tr. P f tr \<and> \<not> b f) (script e) Q A"
  shows "triple P (ifte b t e) Q A"
  unfolding ifte_def
  using assms by (intro triple_tick) (auto simp: triple_def)

lemma triple_echo:
  "(\<And>f tr. P f tr \<Longrightarrow> A tr \<and> A (tr @ [Echo m]) \<and> Q f (tr @ [Echo m]))
     \<Longrightarrow> triple P (echo m) Q A"
  unfolding echo_def by (rule triple_tick) auto

lemma triple_exit: "(\<And>f tr. P f tr \<Longrightarrow> A tr) \<Longrightarrow> triple P (exit_sh rc) Q A"
  unfolding exit_sh_def by (rule triple_tick) auto

lemma triple_exec:
  "(\<And>f tr. P f tr \<Longrightarrow> A tr \<and> A (tr @ [Exec prog args]) \<and>
        (fst (a f) = 0 \<longrightarrow> Q (snd (a f)) (tr @ [Exec prog args])))
     \<Longrightarrow> triple P (exec prog args a) Q A"
  unfolding exec_def
  by (rule triple_tick) (auto simp: step_of_def case_prod_beta split: if_splits)

lemma triple_exec_or_true:
  "(\<And>f tr. P f tr \<Longrightarrow> A tr \<and> A (tr @ [Exec prog args]) \<and>
        Q (snd (a f)) (tr @ [Exec prog args]))
     \<Longrightarrow> triple P (exec_or_true prog args a) Q A"
  unfolding exec_or_true_def
  by (rule triple_tick) (auto simp: step_of_def case_prod_beta split: if_splits)

lemma triple_curl:
  assumes "\<And>f tr. P f tr \<Longrightarrow> A tr \<and> A (tr @ [Exec ''curl'' args])"
    and "\<And>f tr b. P f tr \<Longrightarrow> curl_fetch e url = Some b \<Longrightarrow>
           Q (store file (File b False) (store file (File [] False) f)) (tr @ [Exec ''curl'' args])"
  shows "triple P (curl e args file url) Q A"
  unfolding triple_def curl_def
  using assms
  by (auto simp: tick_def Let_def case_prod_beta write_file_def
      split: option.splits nat.splits if_splits)

lemma triple_cp_R_glob:
  assumes "\<And>f tr args. P f tr \<Longrightarrow> A tr \<and> A (tr @ [Exec ''cp'' args]) \<and>
             Q (snd (cp_R (glob_ext f d ext) dst f)) (tr @ [Exec ''cp'' args])"
  shows "triple P (cp_R_glob b d ext dst) Q A"
  unfolding cp_R_glob_def
  using assms
  by (intro triple_tick) (auto simp: Let_def step_of_def case_prod_beta split: if_splits)

lemma triple_redirect_to:
  assumes "\<And>f tr b. P f tr \<Longrightarrow> A tr \<and> Q (store file (File b False) f) tr"
  shows "triple P (redirect_to file content) Q A"
  unfolding redirect_to_def
  using assms
  by (intro triple_tick) (auto simp: write_file_def split: if_splits)

lemma triple_pushd:
  "(\<And>f tr. P f tr \<Longrightarrow> A tr \<and> Q f tr) \<Longrightarrow> triple P (pushd d) Q A"
  unfolding pushd_def by (rule triple_tick) (auto split: if_splits)

lemmas triple_intros = triple_Nil triple_Cons triple_ifte triple_echo triple_exit triple_exec
  triple_exec_or_true triple_curl triple_cp_R_glob triple_redirect_to triple_pushd

lemma triple_run:
  "triple P c Q A \<Longrightarrow> P f [] \<Longrightarrow> A (out (run c f n))"
  by (auto simp: triple_def run_def finish_def)

lemma triple_Cons_inv:
  "triple P' c P A \<Longrightarrow> triple P (script cs) P A \<Longrightarrow> triple P' (script (c # cs)) P A"
  by (rule triple_Cons)

lemma triple_keeps:
  "keeps (\<lambda>f tr. A tr) c \<Longrightarrow> triple (\<lambda>f tr. A tr) c (\<lambda>f tr. A tr) A"
  by (simp add: triple_def keeps_def)

lemmas triple_inv_intros = triple_Nil triple_Cons_inv triple_ifte triple_echo triple_exit
  triple_exec triple_exec_or_true triple_curl triple_cp_R_glob triple_redirect_to triple_pushd

subsection \<open>Verification before work\<close>

lemma valid_True: "valid P c (\<lambda>f tr. True)"
  by (simp add: valid_def)

lemma valid_last_exec:
  "valid P (script (cs @ [exec prog args a])) (\<lambda>f tr. \<exists>tr'. tr = tr' @ [Exec prog args])"
proof (rule valid_append[OF valid_True])
  show "valid (\<lambda>f tr. True) (script [exec prog args a]) (\<lambda>f tr. \<exists>tr'. tr = tr' @ [Exec prog args])"
    by (intro valid_script_Cons[where R = "\<lambda>f tr. \<exists>tr'. tr = tr' @ [Exec prog args]"]
        valid_exec valid_script_Nil) simp_all
qed

lemma triple_from_valid_events:
  assumes "valid P c Q" and "only_events E c"
  shows "triple (\<lambda>f tr. P f tr \<and> list_all E tr) c (\<lambda>f tr. Q f tr \<and> list_all E tr) (list_all E)"
  using assms by (auto simp: triple_def valid_def only_events_def keeps_def)

lemma triple_only_events:
  "only_events E c \<Longrightarrow> triple (\<lambda>f tr. list_all E tr) c (\<lambda>f tr. list_all E tr) (list_all E)"
  by (auto simp: triple_def only_events_def keeps_def)

lemma verified_first_all: "list_all (\<lambda>ev. \<not> W ev) tr \<Longrightarrow> verified_first W m tr"
  unfolding verified_first_def list_all_iff by (meson set_takeWhileD)

lemma verified_first_after:
  assumes "list_all (\<lambda>ev. \<not> W ev) (tr' @ [m])"
  shows "verified_first W m ((tr' @ [m]) @ ext)"
proof -
  have "takeWhile (\<lambda>ev. ev \<noteq> m) ((tr' @ [m]) @ ext) = takeWhile (\<lambda>ev. ev \<noteq> m) (tr' @ [m])"
    by (rule takeWhile_append1[of m]) simp_all
  then show ?thesis
    using verified_first_all[OF assms, of m] by (simp add: verified_first_def)
qed

lemma verify_first_from:
  assumes ev: "only_events (\<lambda>ev. \<not> W ev) (script pf)"
    and last: "valid (\<lambda>f tr. True) (script pf) (\<lambda>f tr. \<exists>tr'. tr = tr' @ [m])"
    and grows: "\<And>t0. keeps (\<lambda>f tr. prefix t0 tr) (script rest)"
    and start: "list_all (\<lambda>ev. \<not> W ev) (out s)"
  shows "verified_first W m (out (script (pf @ rest) s))"
proof -
  let ?s2 = "script pf s"
  have nw: "list_all (\<lambda>ev. \<not> W ev) (out ?s2)"
    using ev start by (simp add: only_events_def keeps_def)
  show ?thesis
  proof (cases "status ?s2 = Running")
    case False
    then show ?thesis
      using nw by (simp add: script_append script_stopped verified_first_all)
  next
    case True
    with last obtain tr' where tr': "out ?s2 = tr' @ [m]"
      by (auto simp: valid_def)
    have "prefix (out ?s2) (out (script rest ?s2))"
      using keepsD[OF grows[of "out ?s2"], of ?s2] by simp
    then obtain ext where "out (script rest ?s2) = (tr' @ [m]) @ ext"
      unfolding tr' by (auto simp: prefix_def)
    then show ?thesis
      using verified_first_after[of W tr' m ext] nw tr' by (simp add: script_append)
  qed
qed

lemma verify_first_run:
  assumes "only_events (\<lambda>ev. \<not> W ev) (script pf)"
    and "valid (\<lambda>f tr. True) (script pf) (\<lambda>f tr. \<exists>tr'. tr = tr' @ [m])"
    and "\<And>t0. keeps (\<lambda>f tr. prefix t0 tr) (script rest)"
  shows "verified_first W m (out (run (script (pf @ rest)) f n))"
  using verify_first_from[OF assms, of "\<lparr>fs = f, out = [], status = Running, fuel = n\<rparr>"]
  by (simp add: run_def finish_def)

lemma prefix_snoc: "prefix t tr \<Longrightarrow> prefix t (tr @ [ev])"
  by simp

section \<open>Platform resolution\<close>

lemma detect_linux:
  "prefix ''linux-gnu'' (OSTYPE e) \<Longrightarrow>
   detect_platform e = Inr ((if uname_m e = ''aarch64'' then ''arm64'' else uname_m e) @ ''-linux'')"
  by (simp add: detect_platform_def)

lemma not_both: "prefix ''darwin'' s \<Longrightarrow> \<not> prefix ''linux-gnu'' s"
  by (cases s) auto

text \<open>
  Claim C3, as the script has it.  The operating system is read from \<^verbatim>\<open>OSTYPE\<close>
  (\<^verbatim>\<open>linux-gnu*\<close> for Linux, \<^verbatim>\<open>darwin*\<close> for macOS), the architecture from
  \<^verbatim>\<open>uname -m\<close>.  The four supported pairs give the four platform tags, and an
  operating system that is neither of the two is refused with the message
  \<^verbatim>\<open>Unsupported OS\<close>.  The architecture is not checked: on a recognised operating
  system every architecture gives a tag, \<^verbatim>\<open>aarch64\<close> being renamed to \<^verbatim>\<open>arm64\<close> on
  Linux only.
\<close>

theorem platform_resolution:
  "(prefix ''linux-gnu'' (OSTYPE e) \<and> uname_m e = ''x86_64'' \<longrightarrow> detect_platform e = Inr ''x86_64-linux'') \<and>
   (prefix ''linux-gnu'' (OSTYPE e) \<and> uname_m e = ''aarch64'' \<longrightarrow> detect_platform e = Inr ''arm64-linux'') \<and>
   (prefix ''darwin'' (OSTYPE e) \<and> uname_m e = ''x86_64'' \<longrightarrow> detect_platform e = Inr ''x86_64-macos'') \<and>
   (prefix ''darwin'' (OSTYPE e) \<and> uname_m e = ''arm64'' \<longrightarrow> detect_platform e = Inr ''arm64-macos'') \<and>
   (\<not> prefix ''linux-gnu'' (OSTYPE e) \<and> \<not> prefix ''darwin'' (OSTYPE e)
      \<longrightarrow> detect_platform e = Inl (''Unsupported OS: '' @ OSTYPE e)) \<and>
   (prefix ''linux-gnu'' (OSTYPE e) \<and> uname_m e \<noteq> ''aarch64''
      \<longrightarrow> detect_platform e = Inr (uname_m e @ ''-linux'')) \<and>
   (prefix ''darwin'' (OSTYPE e) \<longrightarrow> detect_platform e = Inr (uname_m e @ ''-macos''))"
  using not_both[of "OSTYPE e"] by (auto simp: detect_platform_def)

theorem platform_resolution_witness:
  "detect_platform demo_env = Inr ''x86_64-linux'' \<and>
   detect_platform (demo_env\<lparr>uname_m := ''aarch64''\<rparr>) = Inr ''arm64-linux'' \<and>
   detect_platform (demo_env\<lparr>OSTYPE := ''darwin23''\<rparr>) = Inr ''x86_64-macos'' \<and>
   detect_platform (demo_env\<lparr>OSTYPE := ''darwin23'', uname_m := ''arm64''\<rparr>) = Inr ''arm64-macos'' \<and>
   detect_platform (demo_env\<lparr>OSTYPE := ''freebsd14.0''\<rparr>) = Inl ''Unsupported OS: freebsd14.0'' \<and>
   detect_platform (demo_env\<lparr>uname_m := ''riscv64''\<rparr>) = Inr ''riscv64-linux'' \<and>
   detect_platform (demo_env\<lparr>OSTYPE := ''darwin23'', uname_m := ''aarch64''\<rparr>) = Inr ''aarch64-macos''"
  using platform_resolution[of demo_env]
    platform_resolution[of "demo_env\<lparr>uname_m := ''aarch64''\<rparr>"]
    platform_resolution[of "demo_env\<lparr>OSTYPE := ''darwin23''\<rparr>"]
    platform_resolution[of "demo_env\<lparr>OSTYPE := ''darwin23'', uname_m := ''arm64''\<rparr>"]
    platform_resolution[of "demo_env\<lparr>OSTYPE := ''freebsd14.0''\<rparr>"]
    platform_resolution[of "demo_env\<lparr>uname_m := ''riscv64''\<rparr>"]
    platform_resolution[of "demo_env\<lparr>OSTYPE := ''darwin23'', uname_m := ''aarch64''\<rparr>"]
  by (simp add: demo_env_def)

text \<open>
  Claim C3 as stated asks for an error on every other input: Linux on \<^verbatim>\<open>riscv64\<close> is
  not one of the four inputs, and it is given the tag \<^verbatim>\<open>riscv64-linux\<close>.
\<close>

theorem platform_unknown_arch_counterexample:
  "(OSTYPE (demo_env\<lparr>uname_m := ''riscv64''\<rparr>), uname_m (demo_env\<lparr>uname_m := ''riscv64''\<rparr>))
     = (''linux-gnu'', ''riscv64'') \<and>
   detect_platform (demo_env\<lparr>uname_m := ''riscv64''\<rparr>) = Inr ''riscv64-linux''"
  by (simp add: demo_env_def detect_platform_def)

section \<open>Runs that stop in the first lines of an extension stage\<close>

lemma xxhash_cache_hit:
  assumes "is_file f (xx_OUT_TAR e)" and "is_dir f (TOOL_DIR e)"
  shows "run (build_xxhash e) f None =
    \<lparr>fs = f,
     out = [Exec ''mkdir'' [''-p'', TOOL_DIR e],
            Echo (''[xxhash] Cache hit: '' @ xx_OUT_TAR e @ '' already exists; skipping build'')],
     status = Exited 0, fuel = None\<rparr>"
  using assms by (simp add: build_xxhash_def xxhash_prepare_def xxhash_cache_check_def xxhash_prereqs_def run_simps mkdir_p_noop)

lemma msgspec_cache_hit:
  assumes "is_file f (ms_OUT_TAR e)" and "is_dir f (TOOL_DIR e)"
  shows "run (build_msgspec e) f None =
    \<lparr>fs = f,
     out = [Exec ''mkdir'' [''-p'', TOOL_DIR e],
            Echo (''[msgspec] Cache hit: '' @ ms_OUT_TAR e @ '' already exists; skipping build'')],
     status = Exited 0, fuel = None\<rparr>"
  using assms by (simp add: build_msgspec_def msgspec_prepare_def msgspec_cache_check_def msgspec_prereqs_def run_simps mkdir_p_noop)

lemma prepare_frame:
  "is_dir (snd (mkdir_p [TOOL_DIR e] f)) (PY_HEADERS_312_DIR e) = is_dir f (PY_HEADERS_312_DIR e)"
  "is_exec (snd (mkdir_p [TOOL_DIR e] f)) (WASI_SDK e @ ''/bin/clang'')
     = is_exec f (WASI_SDK e @ ''/bin/clang'')"
  by (simp_all add: is_dir_mkdir_p_frame is_exec_mkdir_p_frame PY_HEADERS_312_DIR_def
      WASI_SDK_def WASI_DIR_def)

lemma xxhash_no_headers:
  assumes "\<not> is_file f (xx_OUT_TAR e)" and "\<not> is_dir f (PY_HEADERS_312_DIR e)"
  shows "status (run (build_xxhash e) f None) = Exited 1 \<and>
    out (run (build_xxhash e) f None) =
      [Exec ''mkdir'' [''-p'', TOOL_DIR e],
       Echo (if is_exec f (WASI_SDK e @ ''/bin/clang'')
             then ''[xxhash] Error: Python 3.12 headers not found; run build_cpython.sh first''
             else ''[xxhash] Error: WASI SDK not found; run build_cpython.sh first'')]"
  using assms
  by (simp add: build_xxhash_def xxhash_prepare_def xxhash_cache_check_def xxhash_prereqs_def run_simps is_file_mkdir_p prepare_frame)

lemma msgspec_no_headers:
  assumes "\<not> is_file f (ms_OUT_TAR e)" and "\<not> is_dir f (PY_HEADERS_312_DIR e)"
  shows "status (run (build_msgspec e) f None) = Exited 1 \<and>
    out (run (build_msgspec e) f None) =
      [Exec ''mkdir'' [''-p'', TOOL_DIR e],
       Echo (if is_exec f (WASI_SDK e @ ''/bin/clang'')
             then ''[msgspec] Error: Python 3.12 headers not found; run build_cpython.sh first''
             else ''[msgspec] Error: WASI SDK not found; run build_cpython.sh first'')]"
  using assms
  by (simp add: build_msgspec_def msgspec_prepare_def msgspec_cache_check_def msgspec_prereqs_def run_simps is_file_mkdir_p prepare_frame)

section \<open>Runs in the concrete environment\<close>

text \<open>Each of these is computed from the definitions, step by step.\<close>

lemma xx_demo_run:
  "probe (run (build_xxhash demo_env) demo_fs None) [xx_OUT_TAR demo_env] =
     (Exited 0, [Exec ''mkdir'' [''-p'', ''/r/_tooling''],
      Exec ''/r/_tooling/wasi-sdk-27.0/bin/clang'' [''--print-resource-dir''],
      Exec ''rm'' [''-rf'', ''/r/_tooling/build-xxhash''],
      Exec ''mkdir'' [''-p'', ''/r/_tooling/build-xxhash'', ''/r/_tooling/build-xxhash/pkg''],
      Echo ''[xxhash] Downloading https://files.pythonhosted.org/packages/source/x/xxhash/xxhash-3.4.1.tar.gz'',
      Exec ''curl'' [''-fL'', ''-o'', ''/r/_tooling/xxhash-3.4.1-pypi.tar.gz'',
         ''https://files.pythonhosted.org/packages/source/x/xxhash/xxhash-3.4.1.tar.gz''],
      Echo ''[xxhash] Verifying checksum'',
      Exec ''shasum'' [''-a'', ''256'', ''-c'', ''/r/xxhash.sha256sum''],
      Echo ''[xxhash] Unpacking /r/_tooling/xxhash-3.4.1-pypi.tar.gz'',
      Exec ''tar'' [''-C'', ''/r/_tooling/build-xxhash'', ''-xf'',
         ''/r/_tooling/xxhash-3.4.1-pypi.tar.gz''],
      Exec ''mkdir'' [''-p'', ''/r/_tooling/build-xxhash/pkg/xxhash''],
      Exec ''cp'' [''-R'', ''/r/_tooling/build-xxhash/xxhash-3.4.1/xxhash/__init__.py'',
         ''/r/_tooling/build-xxhash/pkg/xxhash/''],
      Exec ''cp'' [''-R'', ''/r/_tooling/build-xxhash/xxhash-3.4.1/xxhash/*.pyi'',
         ''/r/_tooling/build-xxhash/pkg/xxhash/''],
      Echo ''[xxhash] Compiling C extension for WASI'',
      Exec ''mkdir'' [''-p'', ''/r/_tooling/build-xxhash/obj''],
      Exec ''/r/_tooling/wasi-sdk-27.0/bin/clang'' [''--target=wasm32-wasi'',
         ''--sysroot=/r/_tooling/wasi-sdk-27.0/share/wasi-sysroot'',
         ''-I/r/_tooling/py-headers-3.12'', ''-I/r/_tooling/py-headers-3.12/cpython'',
         ''-I/r/_tooling/build-xxhash/xxhash-3.4.1/src'',
         ''-I/r/_tooling/build-xxhash/xxhash-3.4.1/xxhash'',
         ''-I/r/_tooling/build-xxhash/xxhash-3.4.1/deps/xxhash'', ''-O3'', ''-DNDEBUG'',
         ''-fPIC'', ''-std=c99'', ''-fvisibility=default'', ''-DSSIZE_MAX=2147483647'', ''-c'',
         ''/r/_tooling/build-xxhash/xxhash-3.4.1/src/_xxhash.c'', ''-o'',
         ''/r/_tooling/build-xxhash/obj/_xxhash.o''],
      Exec ''/r/_tooling/wasi-sdk-27.0/bin/clang'' [''--target=wasm32-wasi'',
         ''--sysroot=/r/_tooling/wasi-sdk-27.0/share/wasi-sysroot'',
         ''-I/r/_tooling/build-xxhash/xxhash-3.4.1/src'',
         ''-I/r/_tooling/build-xxhash/xxhash-3.4.1/xxhash'',
         ''-I/r/_tooling/build-xxhash/xxhash-3.4.1/deps/xxhash'', ''-O3'', ''-DNDEBUG'',
         ''-fPIC'', ''-std=c99'', ''-fvisibility=default'', ''-DSSIZE_MAX=2147483647'', ''-c'',
         ''/r/_tooling/build-xxhash/xxhash-3.4.1/deps/xxhash/xxhash.c'', ''-o'',
         ''/r/_tooling/build-xxhash/obj/xxhash_core.o''],
      Exec ''/r/_tooling/wasi-sdk-27.0/bin/wasm-ld'' [''--no-entry'', ''--shared'',
         ''--export-dynamic'', ''--allow-undefined'', ''--export=PyInit__xxhash'',
         ''-L/r/_tooling/wasi-sdk-27.0/lib/clang/19/lib/wasm32-unknown-wasi'', ''-o'',
         ''/r/_tooling/build-xxhash/pkg/xxhash/_xxhash.cpython-312-wasm32-wasi.so'',
         ''/r/_tooling/build-xxhash/obj/_xxhash.o'',
         ''/r/_tooling/build-xxhash/obj/xxhash_core.o'',
         ''/r/_tooling/wasi-sdk-27.0/lib/clang/19/lib/wasm32-unknown-wasi/libclang_rt.builtins.a''],
      Echo ''[xxhash] Built: /r/_tooling/build-xxhash/pkg/xxhash/_xxhash.cpython-312-wasm32-wasi.so'',
      Echo ''[xxhash] Creating tarball: /r/_tooling/xxhash-wasi.tar.gz'',
      Exec ''rm'' [''-f'', ''/r/_tooling/xxhash-wasi.tar.gz''],
      Exec ''tar'' [''-C'', ''/r/_tooling/build-xxhash/pkg'', ''-czf'',
         ''/r/_tooling/xxhash-wasi.tar.gz'', ''xxhash''],
      Echo ''[xxhash] Done''],
         [Some (File ''xxhash/_xxhash.cpython-312-wasm32-wasi.soxxhash/__init__.pyxxhash'' False)])"
  by code_simp

lemma ms_demo_run:
  "probe (run (build_msgspec demo_env) demo_fs None) [ms_OUT_TAR demo_env] =
     (Exited 0, [Exec ''mkdir'' [''-p'', ''/r/_tooling''],
      Exec ''/r/_tooling/wasi-sdk-27.0/bin/clang'' [''--print-resource-dir''],
      Exec ''rm'' [''-rf'', ''/r/_tooling/build-msgspec''],
      Exec ''mkdir'' [''-p'', ''/r/_tooling/build-msgspec'', ''/r/_tooling/build-msgspec/pkg''],
      Echo ''[msgspec] Downloading https://github.com/jcrist/msgspec/archive/refs/tags/0.19.0.tar.gz'',
      Exec ''curl'' [''-fL'', ''-o'', ''/r/_tooling/msgspec-0.19.0-github.tar.gz'',
         ''https://github.com/jcrist/msgspec/archive/refs/tags/0.19.0.tar.gz''],
      Echo ''[msgspec] Verifying checksum'',
      Exec ''shasum'' [''-a'', ''256'', ''-c'', ''/r/msgspec.sha256sum''],
      Echo ''[msgspec] Unpacking /r/_tooling/msgspec-0.19.0-github.tar.gz'',
      Exec ''tar'' [''-C'', ''/r/_tooling/build-msgspec'', ''-xf'',
         ''/r/_tooling/msgspec-0.19.0-github.tar.gz''],
      Exec ''mkdir'' [''-p'', ''/r/_tooling/build-msgspec/pkg/msgspec''],
      Exec ''cp'' [''-R'', ''/r/_tooling/build-msgspec/msgspec-0.19.0/msgspec/__init__.py'',
         ''/r/_tooling/build-msgspec/pkg/msgspec/''],
      Exec ''cp'' [''-R'', ''/r/_tooling/build-msgspec/msgspec-0.19.0/msgspec/*.pyi'',
         ''/r/_tooling/build-msgspec/pkg/msgspec/''],
      Exec ''cp'' [''-R'', ''/r/_tooling/build-msgspec/msgspec-0.19.0/msgspec/py.typed'',
         ''/r/_tooling/build-msgspec/pkg/msgspec/''],
      Echo ''[msgspec] Compiling C extension (_core) for WASI'',
      Exec ''mkdir'' [''-p'', ''/r/_tooling/build-msgspec/obj''],
      Exec ''/r/_tooling/wasi-sdk-27.0/bin/clang'' [''--target=wasm32-wasi'',
         ''--sysroot=/r/_tooling/wasi-sdk-27.0/share/wasi-sysroot'',
         ''-I/r/_tooling/py-headers-3.12'', ''-I/r/_tooling/py-headers-3.12/cpython'', ''-O3'',
         ''-DNDEBUG'', ''-fPIC'', ''-std=c99'', ''-DSSIZE_MAX=2147483647'', ''-c'',
         ''/r/_tooling/build-msgspec/msgspec-0.19.0/msgspec/_core.c'', ''-o'',
         ''/r/_tooling/build-msgspec/obj/_core.o''],
      Exec ''/r/_tooling/wasi-sdk-27.0/bin/wasm-ld'' [''--no-entry'', ''--shared'',
         ''--export-dynamic'', ''--allow-undefined'',
         ''-L/r/_tooling/wasi-sdk-27.0/lib/clang/19/lib/wasm32-unknown-wasi'', ''-o'',
         ''/r/_tooling/build-msgspec/pkg/msgspec/_core.cpython-312-wasm32-wasi.so'',
         ''/r/_tooling/build-msgspec/obj/_core.o'',
         ''/r/_tooling/wasi-sdk-27.0/lib/clang/19/lib/wasm32-unknown-wasi/libclang_rt.builtins.a''],
      Echo ''[msgspec] Built: /r/_tooling/build-msgspec/pkg/msgspec/_core.cpython-312-wasm32-wasi.so'',
      Echo ''[msgspec] Creating tarball: /r/_tooling/msgspec-wasi.tar.gz'',
      Exec ''rm'' [''-f'', ''/r/_tooling/msgspec-wasi.tar.gz''],
      Exec ''tar'' [''-C'', ''/r/_tooling/build-msgspec/pkg'', ''-czf'',
         ''/r/_tooling/msgspec-wasi.tar.gz'', ''msgspec''],
      Echo ''[msgspec] Done''],
         [Some (File ''msgspec/_core.cpython-312-wasm32-wasi.somsgspec/__init__.pymsgspec'' False)])"
  by code_simp

lemma xx_demo_crash:
  "probe (run (build_xxhash demo_env) demo_fs (Some 31)) [xx_OUT_TAR demo_env, TOOL_DIR demo_env] =
     (Killed, [Exec ''mkdir'' [''-p'', ''/r/_tooling''],
      Exec ''/r/_tooling/wasi-sdk-27.0/bin/clang'' [''--print-resource-dir''],
      Exec ''rm'' [''-rf'', ''/r/_tooling/build-xxhash''],
      Exec ''mkdir'' [''-p'', ''/r/_tooling/build-xxhash'', ''/r/_tooling/build-xxhash/pkg''],
      Echo ''[xxhash] Downloading https://files.pythonhosted.org/packages/source/x/xxhash/xxhash-3.4.1.tar.gz'',
      Exec ''curl'' [''-fL'', ''-o'', ''/r/_tooling/xxhash-3.4.1-pypi.tar.gz'',
         ''https://files.pythonhosted.org/packages/source/x/xxhash/xxhash-3.4.1.tar.gz''],
      Echo ''[xxhash] Verifying checksum'',
      Exec ''shasum'' [''-a'', ''256'', ''-c'', ''/r/xxhash.sha256sum''],
      Echo ''[xxhash] Unpacking /r/_tooling/xxhash-3.4.1-pypi.tar.gz'',
      Exec ''tar'' [''-C'', ''/r/_tooling/build-xxhash'', ''-xf'',
         ''/r/_tooling/xxhash-3.4.1-pypi.tar.gz''],
      Exec ''mkdir'' [''-p'', ''/r/_tooling/build-xxhash/pkg/xxhash''],
      Exec ''cp'' [''-R'', ''/r/_tooling/build-xxhash/xxhash-3.4.1/xxhash/__init__.py'',
         ''/r/_tooling/build-xxhash/pkg/xxhash/''],
      Exec ''cp'' [''-R'', ''/r/_tooling/build-xxhash/xxhash-3.4.1/xxhash/*.pyi'',
         ''/r/_tooling/build-xxhash/pkg/xxhash/''],
      Echo ''[xxhash] Compiling C extension for WASI'',
      Exec ''mkdir'' [''-p'', ''/r/_tooling/build-xxhash/obj''],
      Exec ''/r/_tooling/wasi-sdk-27.0/bin/clang'' [''--target=wasm32-wasi'',
         ''--sysroot=/r/_tooling/wasi-sdk-27.0/share/wasi-sysroot'',
         ''-I/r/_tooling/py-headers-3.12'', ''-I/r/_tooling/py-headers-3.12/cpython'',
         ''-I/r/_tooling/build-xxhash/xxhash-3.4.1/src'',
         ''-I/r/_tooling/build-xxhash/xxhash-3.4.1/xxhash'',
         ''-I/r/_tooling/build-xxhash/xxhash-3.4.1/deps/xxhash'', ''-O3'', ''-DNDEBUG'',
         ''-fPIC'', ''-std=c99'', ''-fvisibility=default'', ''-DSSIZE_MAX=2147483647'', ''-c'',
         ''/r/_tooling/build-xxhash/xxhash-3.4.1/src/_xxhash.c'', ''-o'',
         ''/r/_tooling/build-xxhash/obj/_xxhash.o''],
      Exec ''/r/_tooling/wasi-sdk-27.0/bin/clang'' [''--target=wasm32-wasi'',
         ''--sysroot=/r/_tooling/wasi-sdk-27.0/share/wasi-sysroot'',
         ''-I/r/_tooling/build-xxhash/xxhash-3.4.1/src'',
         ''-I/r/_tooling/build-xxhash/xxhash-3.4.1/xxhash'',
         ''-I/r/_tooling/build-xxhash/xxhash-3.4.1/deps/xxhash'', ''-O3'', ''-DNDEBUG'',
         ''-fPIC'', ''-std=c99'', ''-fvisibility=default'', ''-DSSIZE_MAX=2147483647'', ''-c'',
         ''/r/_tooling/build-xxhash/xxhash-3.4.1/deps/xxhash/xxhash.c'', ''-o'',
         ''/r/_tooling/build-xxhash/obj/xxhash_core.o''],
      Exec ''/r/_tooling/wasi-sdk-27.0/bin/wasm-ld'' [''--no-entry'', ''--shared'',
         ''--export-dynamic'', ''--allow-undefined'', ''--export=PyInit__xxhash'',
         ''-L/r/_tooling/wasi-sdk-27.0/lib/clang/19/lib/wasm32-unknown-wasi'', ''-o'',
         ''/r/_tooling/build-xxhash/pkg/xxhash/_xxhash.cpython-312-wasm32-wasi.so'',
         ''/r/_tooling/build-xxhash/obj/_xxhash.o'',
         ''/r/_tooling/build-xxhash/obj/xxhash_core.o'',
         ''/r/_tooling/wasi-sdk-27.0/lib/clang/19/lib/wasm32-unknown-wasi/libclang_rt.builtins.a''],
      Echo ''[xxhash] Built: /r/_tooling/build-xxhash/pkg/xxhash/_xxhash.cpython-312-wasm32-wasi.so'',
      Echo ''[xxhash] Creating tarball: /r/_tooling/xxhash-wasi.tar.gz'',
      Exec ''rm'' [''-f'', ''/r/_tooling/xxhash-wasi.tar.gz''],
      Exec ''tar'' [''-C'', ''/r/_tooling/build-xxhash/pkg'', ''-czf'',
         ''/r/_tooling/xxhash-wasi.tar.gz'', ''xxhash'']], [Some (File [] False), Some Dir])"
  by code_simp

lemma cpython_demo_run:
  "probe (run (build_cpython demo_env) demo_fs None) [] =
     (Exited 0, [Echo ''Step 1: Build CPython for WASI'',
      Exec ''mkdir'' [''-p'', ''/r/_tooling''],
      Exec ''uname'' [''-m''],
      Echo ''Platform Detected: x86_64-linux'',
      Echo ''[wasi-sdk] Downloading https://github.com/WebAssembly/wasi-sdk/releases/download/wasi-sdk-27/wasi-sdk-27.0-x86_64-linux.tar.gz'',
      Exec ''curl'' [''-fL'', ''-o'', ''/r/_tooling/wasi-sdk-27.0-x86_64-linux.tar.gz'',
         ''https://github.com/WebAssembly/wasi-sdk/releases/download/wasi-sdk-27/wasi-sdk-27.0-x86_64-linux.tar.gz''],
      Echo ''[wasi-sdk] Verifying checksum'',
      Exec ''shasum'' [''-a'', ''256'', ''-c'', ''/r/wasi-sdk.sha256sum'',
         ''--ignore-missing''],
      Echo ''[wasi-sdk] Using existing /r/_tooling/wasi-sdk-27.0'',
      Exec ''/r/_tooling/wasi-sdk-27.0/bin/clang'' [''--print-resource-dir'']], [])"
  by code_simp

lemma demo_links:
  "xx_ld_args demo_env =
     [''--no-entry'', ''--shared'', ''--export-dynamic'', ''--allow-undefined'',
      ''--export=PyInit__xxhash'',
      ''-L/r/_tooling/wasi-sdk-27.0/lib/clang/19/lib/wasm32-unknown-wasi'', ''-o'',
      ''/r/_tooling/build-xxhash/pkg/xxhash/_xxhash.cpython-312-wasm32-wasi.so'',
      ''/r/_tooling/build-xxhash/obj/_xxhash.o'',
      ''/r/_tooling/build-xxhash/obj/xxhash_core.o'',
      ''/r/_tooling/wasi-sdk-27.0/lib/clang/19/lib/wasm32-unknown-wasi/libclang_rt.builtins.a'']"
  "ms_ld_args demo_env =
     [''--no-entry'', ''--shared'', ''--export-dynamic'', ''--allow-undefined'',
      ''-L/r/_tooling/wasi-sdk-27.0/lib/clang/19/lib/wasm32-unknown-wasi'', ''-o'',
      ''/r/_tooling/build-msgspec/pkg/msgspec/_core.cpython-312-wasm32-wasi.so'',
      ''/r/_tooling/build-msgspec/obj/_core.o'',
      ''/r/_tooling/wasi-sdk-27.0/lib/clang/19/lib/wasm32-unknown-wasi/libclang_rt.builtins.a'']"
  by (simp_all add: xx_ld_args_def ms_ld_args_def xx_PKG_DIR_def xx_BUILD_DIR_def xx_OBJ_DIR_def
      ms_PKG_DIR_def ms_BUILD_DIR_def ms_OBJ_DIR_def xx_EXT_NAME_def xx_EXT_BASENAME_def
      ms_EXT_NAME_def CPYTHON_TAG_def RT_DIR_def TOOL_DIR_def demo_env_def)

section \<open>The events of the extension stages\<close>

lemma xxhash_only_events:
  assumes "\<And>m. Q (Echo m)"
    and "\<And>args. Q (Exec ''mkdir'' args)" and "\<And>args. Q (Exec ''rm'' args)"
    and "\<And>args. Q (Exec ''cp'' args)" and "\<And>args. Q (Exec ''curl'' args)"
    and "\<And>args. Q (Exec ''shasum'' args)"
    and "Q (Exec ''tar'' [''-C'', xx_BUILD_DIR e, ''-xf'', xx_ARCHIVE_FILE e])"
    and "Q (Exec ''tar'' (xx_tar_args e))"
    and "Q (Exec (WASI_SDK e @ ''/bin/clang'') [''--print-resource-dir''])"
    and "\<And>w. Q (Exec (WASI_SDK e @ ''/bin/clang'') (xx_cc_wrap_args e w))"
    and "Q (Exec (WASI_SDK e @ ''/bin/clang'') (xx_cc_core_args e))"
    and "Q (Exec (WASI_SDK e @ ''/bin/wasm-ld'') (xx_ld_args e))"
  shows "only_events Q (build_xxhash e)"
  unfolding build_xxhash_def
  apply (rule only_events_script)
  apply (simp add: xxhash_prepare_def xxhash_cache_check_def xxhash_prereqs_def xxhash_fetch_def xxhash_build_def xxhash_package_def
      xxhash_compile_link_def only_events_intros assms)
  done

lemma msgspec_only_events:
  assumes "\<And>m. Q (Echo m)"
    and "\<And>args. Q (Exec ''mkdir'' args)" and "\<And>args. Q (Exec ''rm'' args)"
    and "\<And>args. Q (Exec ''cp'' args)" and "\<And>args. Q (Exec ''curl'' args)"
    and "\<And>args. Q (Exec ''shasum'' args)"
    and "Q (Exec ''tar'' [''-C'', ms_BUILD_DIR e, ''-xf'', ms_ARCHIVE_FILE e])"
    and "Q (Exec ''tar'' (ms_tar_args e))"
    and "Q (Exec (WASI_SDK e @ ''/bin/clang'') [''--print-resource-dir''])"
    and "Q (Exec (WASI_SDK e @ ''/bin/clang'') (ms_cc_args e))"
    and "Q (Exec (WASI_SDK e @ ''/bin/wasm-ld'') (ms_ld_args e))"
  shows "only_events Q (build_msgspec e)"
  unfolding build_msgspec_def
  apply (rule only_events_script)
  apply (simp add: msgspec_prepare_def msgspec_cache_check_def msgspec_prereqs_def msgspec_fetch_def msgspec_build_def msgspec_package_def
      only_events_intros assms)
  done

lemma xxhash_link_events:
  "list_all (\<lambda>ev. ev = Exec (WASI_SDK e @ ''/bin/wasm-ld'') (xx_ld_args e))
     (filter is_link (out (run (build_xxhash e) f n)))"
  by (rule only_events_filter, rule xxhash_only_events) (simp_all add: is_link_def)

lemma msgspec_link_events:
  "list_all (\<lambda>ev. ev = Exec (WASI_SDK e @ ''/bin/wasm-ld'') (ms_ld_args e))
     (filter is_link (out (run (build_msgspec e) f n)))"
  by (rule only_events_filter, rule msgspec_only_events) (simp_all add: is_link_def)

lemma xx_module_tags:
  "module_tags_of (Exec (WASI_SDK e @ ''/bin/wasm-ld'') (xx_ld_args e)) = Some (''cpython-312'', ''wasm32-wasi'')"
  by (simp add: module_tags_of_def link_output_def xx_ld_args_def module_tags_def basename_def
      xx_EXT_NAME_def xx_EXT_BASENAME_def CPYTHON_TAG_def)

lemma ms_module_tags:
  "module_tags_of (Exec (WASI_SDK e @ ''/bin/wasm-ld'') (ms_ld_args e)) = Some (''cpython-312'', ''wasm32-wasi'')"
  by (simp add: module_tags_of_def link_output_def ms_ld_args_def module_tags_def basename_def
      ms_EXT_NAME_def CPYTHON_TAG_def)

section \<open>The checksum gate of each stage\<close>

lemma valid_run_stops:
  assumes "valid P (script pf) (\<lambda>f tr. False)" and "P f0 []"
  shows "run (script (pf @ rest)) f0 n
           = script pf \<lparr>fs = f0, out = [], status = Running, fuel = n\<rparr>"
    and "status (script pf \<lparr>fs = f0, out = [], status = Running, fuel = n\<rparr>) \<noteq> Running"
proof -
  let ?s0 = "\<lparr>fs = f0, out = [], status = Running, fuel = n\<rparr>"
  show r: "status (script pf ?s0) \<noteq> Running"
    using assms by (auto simp: valid_def)
  then show "run (script (pf @ rest)) f0 n = script pf ?s0"
    by (simp add: run_def finish_def script_append script_stopped)
qed

lemma only_events_state:
  "only_events Q c \<Longrightarrow> list_all Q (out (c \<lparr>fs = f0, out = [], status = Running, fuel = n\<rparr>))"
  by (simp add: only_events_def keeps_def)

lemma no_work_simps [simp]:
  "\<not> is_work (Echo m)"
  "\<not> is_work (Exec ''mkdir'' args)" "\<not> is_work (Exec ''rm'' args)"
  "\<not> is_work (Exec ''curl'' args)" "\<not> is_work (Exec ''shasum'' args)"
  "\<not> is_work (Exec ''uname'' args)" "\<not> is_work (Exec ''cp'' args)"
  "\<not> is_work (Exec (d @ ''/bin/clang'') [''--print-resource-dir''])"
  by (simp_all add: is_work_def is_extract_def is_configure_def is_compile_def is_link_def)

subsection \<open>xxhash\<close>

lemma xx_archive_frame:
  "keeps (\<lambda>f tr. file_at f (xx_ARCHIVE_FILE e) = v) (script (xxhash_prepare e))"
  unfolding xxhash_prepare_def xxhash_cache_check_def xxhash_prereqs_def
  apply (simp only: append.simps)
  apply (intro keeps_intros)
  apply (simp_all add: file_at_mkdir_p file_at_rm_rf file_at_tool_query under_def
      xx_ARCHIVE_FILE_def xx_ARCHIVE_NAME_def xx_BUILD_DIR_def)
  done

lemma xx_fetch_events: "only_events (\<lambda>ev. \<not> is_work ev) (script (xxhash_prepare e @ xxhash_fetch e))"
  unfolding xxhash_prepare_def xxhash_cache_check_def xxhash_prereqs_def xxhash_fetch_def
  apply (rule only_events_script)
  apply (simp add: only_events_intros)
  done

lemma xx_fetch_nez:
  "never_exits_zero (script (xxhash_prereqs e @ xxhash_fetch e))"
  unfolding xxhash_prereqs_def xxhash_fetch_def
  apply (simp only: append.simps)
  apply (intro nez_intros)
  apply simp_all
  done

lemma xx_gate:
  assumes "checksum_lines e (xx_CHECKFILE e) = Some ls" and "(h, xx_ARCHIVE_NAME e) \<in> set ls"
    and "archive_bytes e f (xx_ARCHIVE_FILE e) (xx_ARCHIVE_URL e) = Some b"
    and "sha256 e b \<noteq> h"
  shows "filter is_work (out (run (build_xxhash e) f n)) = []"
    and "\<not> is_file f (xx_OUT_TAR e) \<Longrightarrow> status (run (build_xxhash e) f n) \<noteq> Exited 0"
proof -
  let ?A = "xx_ARCHIVE_FILE e"
  let ?s0 = "\<lparr>fs = f, out = [], status = Running, fuel = n\<rparr>"
  let ?P = "\<lambda>f' (tr :: event list). file_at f' ?A = file_at f ?A"
  have "valid ?P (script (xxhash_fetch e)) (\<lambda>f tr. False)"
    unfolding xxhash_fetch_def
    by (rule fetch_gate[OF assms(1,2) _ assms(3,4)]) (simp add: xx_ARCHIVE_FILE_def)
  then have v: "valid ?P (script (xxhash_prepare e @ xxhash_fetch e)) (\<lambda>f tr. False)"
    by (rule valid_append[OF valid_keeps[OF xx_archive_frame]])
  have b: "build_xxhash e
             = script ((xxhash_prepare e @ xxhash_fetch e) @ (xxhash_build e @ xxhash_package e))"
    by (simp add: build_xxhash_def)
  have r: "run (build_xxhash e) f n = script (xxhash_prepare e @ xxhash_fetch e) ?s0"
    unfolding b by (rule valid_run_stops(1)[OF v]) simp
  have nr: "status (script (xxhash_prepare e @ xxhash_fetch e) ?s0) \<noteq> Running"
    by (rule valid_run_stops(2)[OF v]) simp
  show "filter is_work (out (run (build_xxhash e) f n)) = []"
    unfolding r using only_events_state[OF xx_fetch_events, of e f n]
    by (simp add: filter_empty_conv list_all_iff)
  show "status (run (build_xxhash e) f n) \<noteq> Exited 0" if "\<not> is_file f (xx_OUT_TAR e)"
  proof -
    have "status (script (xxhash_cache_check e) ?s0) \<noteq> Exited 0"
      unfolding xxhash_cache_check_def by (rule cache_check_miss) (use that in simp_all)
    then have "status (script (xxhash_prereqs e @ xxhash_fetch e)
                 (script (xxhash_cache_check e) ?s0)) \<noteq> Exited 0"
      using xx_fetch_nez[of e] by (simp add: never_exits_zero_def)
    then show ?thesis
      unfolding r by (simp add: xxhash_prepare_def script_append)
  qed
qed


subsection \<open>msgspec\<close>

lemma ms_archive_frame:
  "keeps (\<lambda>f tr. file_at f (ms_ARCHIVE_FILE e) = v) (script (msgspec_prepare e))"
  unfolding msgspec_prepare_def msgspec_cache_check_def msgspec_prereqs_def
  apply (simp only: append.simps)
  apply (intro keeps_intros)
  apply (simp_all add: file_at_mkdir_p file_at_rm_rf file_at_tool_query under_def
      ms_ARCHIVE_FILE_def ms_ARCHIVE_NAME_def ms_BUILD_DIR_def)
  done

lemma ms_fetch_events: "only_events (\<lambda>ev. \<not> is_work ev) (script (msgspec_prepare e @ msgspec_fetch e))"
  unfolding msgspec_prepare_def msgspec_cache_check_def msgspec_prereqs_def msgspec_fetch_def
  apply (rule only_events_script)
  apply (simp add: only_events_intros)
  done

lemma ms_fetch_nez:
  "never_exits_zero (script (msgspec_prereqs e @ msgspec_fetch e))"
  unfolding msgspec_prereqs_def msgspec_fetch_def
  apply (simp only: append.simps)
  apply (intro nez_intros)
  apply simp_all
  done

lemma ms_gate:
  assumes "checksum_lines e (ms_CHECKFILE e) = Some ls" and "(h, ms_ARCHIVE_NAME e) \<in> set ls"
    and "archive_bytes e f (ms_ARCHIVE_FILE e) (ms_ARCHIVE_URL e) = Some b"
    and "sha256 e b \<noteq> h"
  shows "filter is_work (out (run (build_msgspec e) f n)) = []"
    and "\<not> is_file f (ms_OUT_TAR e) \<Longrightarrow> status (run (build_msgspec e) f n) \<noteq> Exited 0"
proof -
  let ?A = "ms_ARCHIVE_FILE e"
  let ?s0 = "\<lparr>fs = f, out = [], status = Running, fuel = n\<rparr>"
  let ?P = "\<lambda>f' (tr :: event list). file_at f' ?A = file_at f ?A"
  have "valid ?P (script (msgspec_fetch e)) (\<lambda>f tr. False)"
    unfolding msgspec_fetch_def
    by (rule fetch_gate[OF assms(1,2) _ assms(3,4)]) (simp add: ms_ARCHIVE_FILE_def)
  then have v: "valid ?P (script (msgspec_prepare e @ msgspec_fetch e)) (\<lambda>f tr. False)"
    by (rule valid_append[OF valid_keeps[OF ms_archive_frame]])
  have b: "build_msgspec e
             = script ((msgspec_prepare e @ msgspec_fetch e) @ (msgspec_build e @ msgspec_package e))"
    by (simp add: build_msgspec_def)
  have r: "run (build_msgspec e) f n = script (msgspec_prepare e @ msgspec_fetch e) ?s0"
    unfolding b by (rule valid_run_stops(1)[OF v]) simp
  show "filter is_work (out (run (build_msgspec e) f n)) = []"
    unfolding r using only_events_state[OF ms_fetch_events, of e f n]
    by (simp add: filter_empty_conv list_all_iff)
  show "status (run (build_msgspec e) f n) \<noteq> Exited 0" if "\<not> is_file f (ms_OUT_TAR e)"
  proof -
    have "status (script (msgspec_cache_check e) ?s0) \<noteq> Exited 0"
      unfolding msgspec_cache_check_def by (rule cache_check_miss) (use that in simp_all)
    then have "status (script (msgspec_prereqs e @ msgspec_fetch e)
                 (script (msgspec_cache_check e) ?s0)) \<noteq> Exited 0"
      using ms_fetch_nez[of e] by (simp add: never_exits_zero_def)
    then show ?thesis
      unfolding r by (simp add: msgspec_prepare_def script_append)
  qed
qed

subsection \<open>The toolchain\<close>

lemma build_cpython_split:
  "detect_platform e = Inr P \<Longrightarrow>
   build_cpython e = script ((cpython_until_sdk_check e P @ cpython_sdk_fetch e P)
                              @ (cpython_sdk_install e P @ cpython_headers e))"
  by (simp add: build_cpython_def cpython_until_sdk_check_def cpython_toolchain_def)

lemma sdk_archive_frame:
  "keeps (\<lambda>f tr. file_at f (WASI_TARBALL e P) = v) (script (cpython_until_sdk_check e P))"
  unfolding cpython_until_sdk_check_def
  apply (intro keeps_intros)
  apply (simp_all add: file_at_mkdir_p)
  done

lemma sdk_fetch_events:
  "only_events (\<lambda>ev. \<not> is_work ev) (script (cpython_until_sdk_check e P @ cpython_sdk_fetch e P))"
  unfolding cpython_until_sdk_check_def cpython_sdk_fetch_def
  apply (rule only_events_script)
  apply (simp add: only_events_intros)
  done

lemma sdk_fetch_nez:
  "never_exits_zero (script (cpython_until_sdk_check e P @ cpython_sdk_fetch e P))"
  unfolding cpython_until_sdk_check_def cpython_sdk_fetch_def
  apply (simp only: append.simps)
  apply (intro nez_intros)
  done

lemma sdk_gate:
  assumes "detect_platform e = Inr P"
    and "checksum_lines e (WASI_CHECKFILE e) = Some ls" and "(h, WASI_TARBALL_NAME P) \<in> set ls"
    and "archive_bytes e f (WASI_TARBALL e P) (WASI_URL P) = Some b"
    and "sha256 e b \<noteq> h"
  shows "filter is_work (out (run (build_cpython e) f n)) = []"
    and "status (run (build_cpython e) f n) \<noteq> Exited 0"
proof -
  let ?A = "WASI_TARBALL e P"
  let ?s0 = "\<lparr>fs = f, out = [], status = Running, fuel = n\<rparr>"
  let ?P = "\<lambda>f' (tr :: event list). file_at f' ?A = file_at f ?A"
  let ?pf = "cpython_until_sdk_check e P @ cpython_sdk_fetch e P"
  have "valid ?P (script (cpython_sdk_fetch e P)) (\<lambda>f tr. False)"
    unfolding cpython_sdk_fetch_def
    by (rule fetch_gate[OF assms(2,3) _ assms(4,5)]) (simp add: WASI_TARBALL_def)
  then have v: "valid ?P (script ?pf) (\<lambda>f tr. False)"
    by (rule valid_append[OF valid_keeps[OF sdk_archive_frame]])
  have r: "run (build_cpython e) f n = script ?pf ?s0"
    unfolding build_cpython_split[OF assms(1)] by (rule valid_run_stops(1)[OF v]) simp
  show "filter is_work (out (run (build_cpython e) f n)) = []"
    unfolding r using only_events_state[OF sdk_fetch_events, of e P f n]
    by (simp add: filter_empty_conv list_all_iff)
  show "status (run (build_cpython e) f n) \<noteq> Exited 0"
    unfolding r using sdk_fetch_nez[of e P] by (simp add: never_exits_zero_def)
qed

subsection \<open>No work before the checksum\<close>

lemma xx_rest_grows: "keeps (\<lambda>f tr. prefix t0 tr) (script (xxhash_build e @ xxhash_package e))"
  unfolding xxhash_build_def xxhash_package_def xxhash_compile_link_def
  apply (simp only: append.simps)
  apply (intro keeps_intros keeps_tar_czf)
  apply simp_all
  done

lemma ms_rest_grows: "keeps (\<lambda>f tr. prefix t0 tr) (script (msgspec_build e @ msgspec_package e))"
  unfolding msgspec_build_def msgspec_package_def
  apply (simp only: append.simps)
  apply (intro keeps_intros keeps_tar_czf)
  apply simp_all
  done

lemma xx_verify_first:
  "verified_first is_work (xx_shasum e) (out (run (build_xxhash e) f n))"
proof -
  have b: "build_xxhash e
             = script ((xxhash_prepare e @ xxhash_fetch e) @ (xxhash_build e @ xxhash_package e))"
    by (simp add: build_xxhash_def)
  have l: "valid (\<lambda>f tr. True) (script (xxhash_prepare e @ xxhash_fetch e))
             (\<lambda>f tr. \<exists>tr'. tr = tr' @ [xx_shasum e])"
    using valid_last_exec[of "\<lambda>f tr. True"
        "xxhash_prepare e @ butlast (xxhash_fetch e)" "''shasum''"
        "[''-a'', ''256'', ''-c'', xx_CHECKFILE e]" "shasum_c e False (TOOL_DIR e) (xx_CHECKFILE e)"]
    by (simp add: xxhash_fetch_def xx_shasum_def)
  show ?thesis
    unfolding b by (rule verify_first_run[OF xx_fetch_events l xx_rest_grows])
qed

lemma ms_verify_first:
  "verified_first is_work (ms_shasum e) (out (run (build_msgspec e) f n))"
proof -
  have b: "build_msgspec e
             = script ((msgspec_prepare e @ msgspec_fetch e) @ (msgspec_build e @ msgspec_package e))"
    by (simp add: build_msgspec_def)
  have l: "valid (\<lambda>f tr. True) (script (msgspec_prepare e @ msgspec_fetch e))
             (\<lambda>f tr. \<exists>tr'. tr = tr' @ [ms_shasum e])"
    using valid_last_exec[of "\<lambda>f tr. True"
        "msgspec_prepare e @ butlast (msgspec_fetch e)" "''shasum''"
        "[''-a'', ''256'', ''-c'', ms_CHECKFILE e]" "shasum_c e False (TOOL_DIR e) (ms_CHECKFILE e)"]
    by (simp add: msgspec_fetch_def ms_shasum_def)
  show ?thesis
    unfolding b by (rule verify_first_run[OF ms_fetch_events l ms_rest_grows])
qed

subsection \<open>The runtime source\<close>

lemma build_cpython_split2:
  "detect_platform e = Inr P \<Longrightarrow>
   build_cpython e = script (cpython_sdk_part e P @ cpython_headers e)"
  by (simp add: build_cpython_def cpython_until_sdk_check_def cpython_toolchain_def
      cpython_sdk_part_def)

lemma py_paths:
  "\<not> prefix (HEADERS_OUT e) (TOOL_DIR e)"
  "HEADERS_OUT e \<noteq> WASI_TARBALL e P" "WASI_TARBALL e P \<noteq> HEADERS_OUT e"
  "PY_TARBALL e \<noteq> WASI_TARBALL e P" "WASI_TARBALL e P \<noteq> PY_TARBALL e"
  "WASI_DIR e \<noteq> WASI_TARBALL e P" "WASI_TARBALL e P \<noteq> WASI_DIR e"
  by (auto simp: HEADERS_OUT_def WASI_TARBALL_def WASI_TARBALL_NAME_def PY_TARBALL_def
      PY_TARBALL_NAME_def WASI_DIR_def)

lemma py_src_fetch_events:
  "only_events (\<lambda>ev. \<not> is_work ev) (script (cpython_src_fetch e))"
  unfolding cpython_src_fetch_def
  by (rule only_events_script) (simp add: only_events_intros)

lemma cpython_nez: "never_exits_zero (build_cpython e)"
  unfolding build_cpython_def cpython_toolchain_def cpython_sdk_fetch_def cpython_sdk_install_def
    cpython_headers_def cpython_headers_body_def cpython_src_fetch_def cpython_configure_def
  apply (cases "detect_platform e")
   apply (simp_all only: sum.case append.simps)
   apply (intro nez_intros; simp)
  apply (intro nez_intros; simp)
  done

subsection \<open>A cached archive is not downloaded again\<close>

lemma fetch_cached:
  assumes J: "\<And>tr. J tr \<Longrightarrow> J (tr @ [Echo m2])" "\<And>tr. J tr \<Longrightarrow> J (tr @ [Echo m3])"
    "\<And>tr. J tr \<Longrightarrow> J (tr @ [Exec ''shasum'' sargs])"
  shows "triple (\<lambda>f tr. is_file f file \<and> J tr)
           (script [ifte (\<lambda>f. \<not> is_file f file) [echo m1, curl e args file url] [echo m2],
                    echo m3,
                    exec ''shasum'' sargs act])
           (\<lambda>f tr. J tr) J"
proof (rule triple_Cons[where R = "\<lambda>f tr. J tr"])
  have x: "triple (\<lambda>f tr. (is_file f file \<and> J tr) \<and> \<not> is_file f file)
             (script [echo m1, curl e args file url]) (\<lambda>f tr. J tr) J"
    by (rule triple_contra) blast
  have y: "triple (\<lambda>f tr. (is_file f file \<and> J tr) \<and> \<not> \<not> is_file f file)
             (script [echo m2]) (\<lambda>f tr. J tr) J"
    by (intro triple_Cons[where R = "\<lambda>f tr. J tr"] triple_echo triple_Nil)
      (simp_all add: J)
  show "triple (\<lambda>f tr. is_file f file \<and> J tr)
          (ifte (\<lambda>f. \<not> is_file f file) [echo m1, curl e args file url] [echo m2])
          (\<lambda>f tr. J tr) J"
    by (rule triple_ifte[OF _ x y]) simp
  show "triple (\<lambda>f tr. J tr) (script [echo m3, exec ''shasum'' sargs act]) (\<lambda>f tr. J tr) J"
    by (intro triple_inv_intros) (simp_all add: J)
qed

lemma no_download_simps [simp]:
  "\<not> is_download (Echo m)"
  "\<not> is_download (Exec ''mkdir'' args)" "\<not> is_download (Exec ''rm'' args)"
  "\<not> is_download (Exec ''tar'' args)" "\<not> is_download (Exec ''shasum'' args)"
  "\<not> is_download (Exec ''cp'' args)"
  "\<not> is_download (Exec (d @ ''/bin/clang'') args)"
  "\<not> is_download (Exec (d @ ''/bin/wasm-ld'') args)"
  by (simp_all add: is_download_def)

lemma xx_prepare_no_download:
  "only_events (\<lambda>ev. \<not> is_download ev) (script (xxhash_prepare e))"
  unfolding xxhash_prepare_def xxhash_cache_check_def xxhash_prereqs_def
  by (rule only_events_script) (simp add: only_events_intros)

lemma xx_rest_no_download:
  "only_events (\<lambda>ev. \<not> is_download ev) (script (xxhash_build e @ xxhash_package e))"
  unfolding xxhash_build_def xxhash_package_def xxhash_compile_link_def
  by (rule only_events_script) (simp add: only_events_intros)

lemma ms_prepare_no_download:
  "only_events (\<lambda>ev. \<not> is_download ev) (script (msgspec_prepare e))"
  unfolding msgspec_prepare_def msgspec_cache_check_def msgspec_prereqs_def
  by (rule only_events_script) (simp add: only_events_intros)

lemma ms_rest_no_download:
  "only_events (\<lambda>ev. \<not> is_download ev) (script (msgspec_build e @ msgspec_package e))"
  unfolding msgspec_build_def msgspec_package_def
  by (rule only_events_script) (simp add: only_events_intros)

lemma xx_cached_no_download:
  assumes "is_file f (xx_ARCHIVE_FILE e)"
  shows "filter is_download (out (run (build_xxhash e) f n)) = []"
proof -
  let ?E = "\<lambda>ev. \<not> is_download ev"
  let ?I = "\<lambda>f' tr. file_at f' (xx_ARCHIVE_FILE e) = file_at f (xx_ARCHIVE_FILE e) \<and> list_all ?E tr"
  have p: "triple ?I (script (xxhash_prepare e)) ?I (list_all ?E)"
    by (rule triple_from_valid_events[OF valid_keeps[OF xx_archive_frame] xx_prepare_no_download])
  have f: "triple ?I (script (xxhash_fetch e)) (\<lambda>f tr. list_all ?E tr) (list_all ?E)"
    unfolding xxhash_fetch_def
    by (rule triple_pre[OF fetch_cached]) (use assms in \<open>simp_all add: is_file_file_at\<close>)
  have "triple ?I (build_xxhash e) (\<lambda>f tr. list_all ?E tr) (list_all ?E)"
    unfolding build_xxhash_def
    by (intro triple_append[OF p] triple_append[OF f] triple_only_events xx_rest_no_download)
  from triple_run[OF this, of f n] show ?thesis
    by (simp add: filter_empty_conv list_all_iff)
qed

lemma ms_cached_no_download:
  assumes "is_file f (ms_ARCHIVE_FILE e)"
  shows "filter is_download (out (run (build_msgspec e) f n)) = []"
proof -
  let ?E = "\<lambda>ev. \<not> is_download ev"
  let ?I = "\<lambda>f' tr. file_at f' (ms_ARCHIVE_FILE e) = file_at f (ms_ARCHIVE_FILE e) \<and> list_all ?E tr"
  have p: "triple ?I (script (msgspec_prepare e)) ?I (list_all ?E)"
    by (rule triple_from_valid_events[OF valid_keeps[OF ms_archive_frame] ms_prepare_no_download])
  have f: "triple ?I (script (msgspec_fetch e)) (\<lambda>f tr. list_all ?E tr) (list_all ?E)"
    unfolding msgspec_fetch_def
    by (rule triple_pre[OF fetch_cached]) (use assms in \<open>simp_all add: is_file_file_at\<close>)
  have "triple ?I (build_msgspec e) (\<lambda>f tr. list_all ?E tr) (list_all ?E)"
    unfolding build_msgspec_def
    by (intro triple_append[OF p] triple_append[OF f] triple_only_events ms_rest_no_download)
  from triple_run[OF this, of f n] show ?thesis
    by (simp add: filter_empty_conv list_all_iff)
qed

subsection \<open>The toolchain stage: verification before work\<close>

lemma cpython_rest_prefix:
  "keeps (\<lambda>f tr. prefix t0 tr) (script (cpython_sdk_install e P @ cpython_headers e))"
  unfolding cpython_sdk_install_def cpython_headers_def cpython_headers_body_def
    cpython_src_fetch_def cpython_configure_def
  apply (simp only: append.simps)
  apply (intro keeps_intros)
  apply simp_all
  done

lemma cpython_configure_prefix:
  "keeps (\<lambda>f tr. prefix t0 tr) (script (cpython_configure e))"
  unfolding cpython_configure_def
  apply (intro keeps_intros)
  apply simp_all
  done

lemma sdk_verify_first:
  assumes "detect_platform e = Inr P"
  shows "verified_first is_work (sdk_shasum e) (out (run (build_cpython e) f n))"
proof -
  have l: "valid (\<lambda>f tr. True) (script (cpython_until_sdk_check e P @ cpython_sdk_fetch e P))
             (\<lambda>f tr. \<exists>tr'. tr = tr' @ [sdk_shasum e])"
    using valid_last_exec[of "\<lambda>f tr. True"
        "cpython_until_sdk_check e P @ butlast (cpython_sdk_fetch e P)" "''shasum''"
        "[''-a'', ''256'', ''-c'', WASI_CHECKFILE e, ''--ignore-missing'']"
        "shasum_c e True (TOOL_DIR e) (WASI_CHECKFILE e)"]
    by (simp add: cpython_sdk_fetch_def sdk_shasum_def)
  show ?thesis
    unfolding build_cpython_split[OF assms]
    by (rule verify_first_run[OF sdk_fetch_events l cpython_rest_prefix])
qed

lemma no_py_work_simps [simp]:
  "\<not> py_work e (Echo m)"
  "\<not> py_work e (Exec ''mkdir'' args)" "\<not> py_work e (Exec ''rm'' args)"
  "\<not> py_work e (Exec ''curl'' args)" "\<not> py_work e (Exec ''shasum'' args)"
  "\<not> py_work e (Exec ''uname'' args)" "\<not> py_work e (Exec ''mv'' args)"
  "\<not> py_work e (Exec (d @ ''/bin/clang'') args)"
  "\<not> py_work e (Exec ''tar'' [''-C'', TOOL_DIR e, ''-xf'', WASI_TARBALL e P])"
  by (simp_all add: py_work_def is_configure_def py_paths)

lemma sdk_part_no_py_work:
  "only_events (\<lambda>ev. \<not> py_work e ev) (script (cpython_sdk_part e P))"
  unfolding cpython_sdk_part_def cpython_until_sdk_check_def cpython_sdk_fetch_def
    cpython_sdk_install_def
  by (rule only_events_script) (simp add: only_events_intros)

lemma py_src_fetch_no_work:
  "only_events (\<lambda>ev. \<not> py_work e ev) (script (cpython_src_fetch e))"
  unfolding cpython_src_fetch_def
  by (rule only_events_script) (simp add: only_events_intros)

lemma verified_first_ifte:
  assumes "\<And>s. list_all (\<lambda>ev. \<not> W ev) (out s) \<Longrightarrow> verified_first W m (out (script t s))"
    and "list_all (\<lambda>ev. \<not> W ev) (out s)"
  shows "verified_first W m (out (script [ifte b t []] s))"
  using assms
  by (auto simp: ifte_def tick_def verified_first_all split: option.splits nat.splits)

lemma py_verify_first:
  "verified_first (py_work e) (py_shasum e) (out (run (build_cpython e) f n))"
proof (cases "detect_platform e")
  case (Inl msg)
  have "only_events (\<lambda>ev. \<not> py_work e ev) (build_cpython e)"
    unfolding build_cpython_def Inl
    by (rule only_events_script) (simp add: only_events_intros)
  from verified_first_all[OF only_events_run[OF this]] show ?thesis .
next
  case (Inr P)
  let ?s0 = "\<lparr>fs = f, out = [], status = Running, fuel = n\<rparr>"
  have l: "valid (\<lambda>f tr. True) (script (cpython_src_fetch e))
             (\<lambda>f tr. \<exists>tr'. tr = tr' @ [py_shasum e])"
    using valid_last_exec[of "\<lambda>f tr. True" "butlast (cpython_src_fetch e)" "''shasum''"
        "[''-a'', ''256'', ''-c'', PY_CHECKFILE e]"
        "shasum_c e False (TOOL_DIR e) (PY_CHECKFILE e)"]
    by (simp add: cpython_src_fetch_def py_shasum_def)
  have a: "list_all (\<lambda>ev. \<not> py_work e ev) (out (script (cpython_sdk_part e P) ?s0))"
    by (rule only_events_state[OF sdk_part_no_py_work])
  have "verified_first (py_work e) (py_shasum e)
          (out (script (cpython_headers e) (script (cpython_sdk_part e P) ?s0)))"
    unfolding cpython_headers_def cpython_headers_body_def
    by (rule verified_first_ifte[OF verify_first_from[OF py_src_fetch_no_work l
            cpython_configure_prefix] a])
  then show ?thesis
    by (simp add: build_cpython_split2[OF Inr] run_def finish_def script_append)
qed

section \<open>Runs that are not interrupted\<close>

lemma steady_tick:
  "(\<And>s. fuel s = None \<Longrightarrow> status s = Running \<Longrightarrow> fuel (c s) = None \<and> status (c s) \<noteq> Killed)
     \<Longrightarrow> steady (tick c)"
  by (auto simp: steady_def tick_def)

lemma steady_script_Nil: "steady (script [])"
  by (simp add: steady_def)

lemma steady_script_Cons: "steady c \<Longrightarrow> steady (script cs) \<Longrightarrow> steady (script (c # cs))"
  by (simp add: steady_def)

lemma steady_script_append:
  "steady (script a) \<Longrightarrow> steady (script b) \<Longrightarrow> steady (script (a @ b))"
  by (simp add: steady_def script_append)

lemma steady_echo: "steady (echo m)"
  unfolding echo_def by (rule steady_tick) simp

lemma steady_exit: "steady (exit_sh rc)"
  unfolding exit_sh_def by (rule steady_tick) simp

lemma steady_exec: "steady (exec prog args a)"
  unfolding exec_def by (rule steady_tick) (simp add: step_of_def case_prod_beta)

lemma steady_exec_or_true: "steady (exec_or_true prog args a)"
  unfolding exec_or_true_def by (rule steady_tick) (simp add: step_of_def case_prod_beta)

lemma steady_ifte: "steady (script t) \<Longrightarrow> steady (script f) \<Longrightarrow> steady (ifte b t f)"
  unfolding ifte_def by (rule steady_tick) (simp add: steady_def)

lemma steady_curl: "steady (curl e args file url)"
  unfolding curl_def
  by (intro steady_script_Cons steady_script_Nil steady_tick)
    (auto simp: Let_def case_prod_beta split: option.splits)

lemma steady_tar_czf: "steady (tar_czf e args dir outfile name)"
  unfolding tar_czf_def
  by (intro steady_script_Cons steady_script_Nil steady_tick)
    (auto simp: Let_def case_prod_beta split: option.splits)

lemma steady_cp_R_glob: "steady (cp_R_glob b d ext dst)"
  unfolding cp_R_glob_def by (rule steady_tick) (simp add: step_of_def case_prod_beta Let_def)

lemma steady_redirect_to: "steady (redirect_to file content)"
  unfolding redirect_to_def by (rule steady_tick) (simp add: case_prod_beta)

lemma steady_pushd: "steady (pushd d)"
  unfolding pushd_def by (rule steady_tick) simp

lemmas steady_intros = steady_script_Nil steady_script_Cons steady_echo steady_exit steady_exec
  steady_exec_or_true steady_ifte steady_curl steady_tar_czf steady_cp_R_glob steady_redirect_to
  steady_pushd

lemma steady_fails:
  assumes "steady c" and "status (run c f None) \<noteq> Exited 0"
  shows "fails (run c f None)"
proof -
  let ?s0 = "\<lparr>fs = f, out = [], status = Running, fuel = None\<rparr>"
  have "status (c ?s0) \<noteq> Killed"
    using assms(1) by (simp add: steady_def)
  with assms(2) show ?thesis
    by (cases "status (c ?s0)") (auto simp: fails_def run_def finish_def)
qed

lemma xxhash_steady: "steady (build_xxhash e)"
  unfolding build_xxhash_def xxhash_prepare_def xxhash_cache_check_def xxhash_prereqs_def
    xxhash_fetch_def xxhash_build_def xxhash_package_def xxhash_compile_link_def
  apply (simp only: append.simps)
  apply (intro steady_intros)
  done

lemma msgspec_steady: "steady (build_msgspec e)"
  unfolding build_msgspec_def msgspec_prepare_def msgspec_cache_check_def msgspec_prereqs_def
    msgspec_fetch_def msgspec_build_def msgspec_package_def
  apply (simp only: append.simps)
  apply (intro steady_intros)
  done

lemma cpython_headers_steady: "steady (script (cpython_headers e))"
  unfolding cpython_headers_def cpython_headers_body_def cpython_src_fetch_def
    cpython_configure_def
  apply (simp only: append.simps)
  apply (intro steady_intros)
  done

lemma cpython_steady: "steady (build_cpython e)"
  unfolding build_cpython_def cpython_toolchain_def cpython_sdk_fetch_def cpython_sdk_install_def
    cpython_headers_def cpython_headers_body_def cpython_src_fetch_def cpython_configure_def
  apply (cases "detect_platform e")
   apply (simp_all only: sum.case append.simps)
   apply (intro steady_intros)
  apply (intro steady_intros)
  done

section \<open>The gate of a fetch, from any state\<close>

lemma pinned_mismatchD:
  assumes "pinned_mismatch e f chk name file url"
  obtains ls h b where "checksum_lines e chk = Some ls" and "(h, name) \<in> set ls"
    and "archive_bytes e f file url = Some b" and "sha256 e b \<noteq> h"
  using assms
  by (auto simp: pinned_mismatch_def list_ex_iff split: option.splits)

lemma fetch_adds:
  assumes W: "\<And>m. \<not> W (Echo m)" "\<And>a. \<not> W (Exec ''curl'' a)" "\<And>a. \<not> W (Exec ''shasum'' a)"
  shows "keeps (\<lambda>f tr. filter W tr = k)
           (script [ifte b [echo m1, curl e args file url] [echo m2],
                    echo m3,
                    exec ''shasum'' sargs act])"
  by (intro keeps_intros keeps_ifte keeps_echo keeps_curl) (simp_all add: W)

lemma fetch_nez:
  "never_exits_zero (script [ifte b [echo m1, curl e args file url] [echo m2],
                             echo m3,
                             exec ''shasum'' sargs act])"
  by (intro nez_intros)

lemma fetch_stage_gate:
  fixes m1 m2 m3 :: string and args sargs :: "string list" and ign :: bool
  assumes mm: "pinned_mismatch e (fs s) chk name file url" and fl: "file = dir @ ''/'' @ name"
    and W: "\<And>m. \<not> W (Echo m)" "\<And>a. \<not> W (Exec ''curl'' a)" "\<And>a. \<not> W (Exec ''shasum'' a)"
  defines "fetch \<equiv> [ifte (\<lambda>f. \<not> is_file f file) [echo m1, curl e args file url] [echo m2],
                    echo m3,
                    exec ''shasum'' sargs (shasum_c e ign dir chk)]"
  shows "filter W (out (script (fetch @ rest) s)) = filter W (out s)"
    and "status (script (fetch @ rest) s) \<noteq> Running"
    and "status s \<noteq> Exited 0 \<Longrightarrow> status (script (fetch @ rest) s) \<noteq> Exited 0"
proof -
  from mm obtain ls h b where ls: "checksum_lines e chk = Some ls" and mem: "(h, name) \<in> set ls"
    and bytes: "archive_bytes e (fs s) file url = Some b" and bad: "sha256 e b \<noteq> h"
    by (rule pinned_mismatchD)
  have g: "valid (\<lambda>f tr. file_at f file = file_at (fs s) file) (script fetch) (\<lambda>f tr. False)"
    unfolding fetch_def by (rule fetch_gate[OF ls mem fl bytes bad])
  have nr: "status (script fetch s) \<noteq> Running"
    using g by (cases "status s = Running") (auto simp: valid_def script_stopped)
  then have r: "script (fetch @ rest) s = script fetch s"
    by (simp add: script_append script_stopped)
  show "filter W (out (script (fetch @ rest) s)) = filter W (out s)"
    unfolding r using keepsD[OF fetch_adds[of W _ "\<lambda>f. \<not> is_file f file", OF W], of s]
    by (simp add: fetch_def)
  show "status (script (fetch @ rest) s) \<noteq> Running"
    unfolding r by (rule nr)
  show "status (script (fetch @ rest) s) \<noteq> Exited 0" if "status s \<noteq> Exited 0"
    unfolding r using fetch_nez that by (simp add: never_exits_zero_def fetch_def)
qed

lemma ifte_enter:
  assumes "status s = Running" and "b (fs s)"
  shows "script [ifte b t []] s = s\<lparr>status := Killed\<rparr>
         \<or> (\<exists>s'. fs s' = fs s \<and> out s' = out s \<and> status s' = Running
                 \<and> script [ifte b t []] s = script t s')"
proof (cases "fuel s")
  case None
  then show ?thesis
    using assms by (auto simp: ifte_def tick_def intro!: exI[of _ s])
next
  case (Some k)
  show ?thesis
  proof (cases k)
    case 0
    then show ?thesis
      using assms Some by (simp add: ifte_def tick_def)
  next
    case (Suc m)
    have "script [ifte b t []] s = script t (s\<lparr>fuel := Some m\<rparr>)"
      using assms Some Suc by (simp add: ifte_def tick_def)
    then show ?thesis
      using assms by (intro disjI2 exI[of _ "s\<lparr>fuel := Some m\<rparr>"]) simp
  qed
qed

lemma py_stage_gate:
  assumes mm: "pinned_mismatch e (fs s) (PY_CHECKFILE e) PY_TARBALL_NAME (PY_TARBALL e) PY_URL"
    and run: "status s = Running" and hdr: "\<not> is_dir (fs s) (HEADERS_OUT e)"
  shows "filter is_work (out (script (cpython_headers e) s)) = filter is_work (out s)"
    and "status (script (cpython_headers e) s) \<noteq> Running"
    and "status (script (cpython_headers e) s) \<noteq> Exited 0"
proof -
  let ?c = "script (cpython_headers e) s"
  have "filter is_work (out ?c) = filter is_work (out s) \<and> status ?c \<noteq> Running
        \<and> status ?c \<noteq> Exited 0"
    using ifte_enter[of s "\<lambda>f. \<not> is_dir f (HEADERS_OUT e)" "cpython_headers_body e", OF run hdr]
  proof (elim disjE exE conjE)
    assume "script [ifte (\<lambda>f. \<not> is_dir f (HEADERS_OUT e)) (cpython_headers_body e) []] s
            = s\<lparr>status := Killed\<rparr>"
    then show ?thesis by (simp add: cpython_headers_def)
  next
    fix s' :: sh
    assume s': "fs s' = fs s" "out s' = out s" "status s' = Running"
      and eq: "script [ifte (\<lambda>f. \<not> is_dir f (HEADERS_OUT e)) (cpython_headers_body e) []] s
               = script (cpython_headers_body e) s'"
    have mm': "pinned_mismatch e (fs s') (PY_CHECKFILE e) PY_TARBALL_NAME (PY_TARBALL e) PY_URL"
      using mm s' by simp
    have fl: "PY_TARBALL e = TOOL_DIR e @ ''/'' @ PY_TARBALL_NAME"
      by (simp add: PY_TARBALL_def)
    let ?b = "script (cpython_src_fetch e @ cpython_configure e) s'"
    have g1: "filter is_work (out ?b) = filter is_work (out s')"
      unfolding cpython_src_fetch_def by (rule fetch_stage_gate(1)[OF mm' fl]) simp_all
    have g2: "status ?b \<noteq> Running"
      unfolding cpython_src_fetch_def by (rule fetch_stage_gate(2)[OF mm' fl, where W = is_work]) simp_all
    have g3: "status ?b \<noteq> Exited 0"
      unfolding cpython_src_fetch_def
      by (rule fetch_stage_gate(3)[OF mm' fl, where W = is_work]) (simp_all add: s')
    have e2: "script (cpython_headers e) s = ?b"
      unfolding cpython_headers_def cpython_headers_body_def[symmetric] by (rule eq)
    show ?thesis
      unfolding e2 using g1 g2 g3 s' by simp
  qed
  then show "filter is_work (out ?c) = filter is_work (out s)"
    and "status ?c \<noteq> Running" and "status ?c \<noteq> Exited 0"
    by simp_all
qed

section \<open>A cached archive is verified\<close>

lemma fetch_checks:
  assumes "status s = Running" and "fuel s = None" and "is_file (fs s) file"
    and rest: "keeps (\<lambda>f tr. Exec ''shasum'' sargs \<in> set tr) (script rest)"
  shows "Exec ''shasum'' sargs \<in> set (out (script
           ([ifte (\<lambda>f. \<not> is_file f file) [echo m1, curl e args file url] [echo m2],
             echo m3,
             exec ''shasum'' sargs act] @ rest) s))"
proof -
  let ?fetch = "[ifte (\<lambda>f. \<not> is_file f file) [echo m1, curl e args file url] [echo m2],
                 echo m3, exec ''shasum'' sargs act]"
  have "Exec ''shasum'' sargs \<in> set (out (script ?fetch s))"
    using assms(1-3) by (simp add: run_simps)
  then have "Exec ''shasum'' sargs \<in> set (out (script rest (script ?fetch s)))"
    using keepsD[OF rest] by blast
  then show ?thesis
    by (simp only: script_append)
qed

lemma steadyD: "steady c \<Longrightarrow> fuel s = None \<Longrightarrow> fuel (c s) = None"
  by (simp add: steady_def)

lemma xx_prepare_steady: "steady (script (xxhash_prepare e))"
  unfolding xxhash_prepare_def xxhash_cache_check_def xxhash_prereqs_def
  apply (simp only: append.simps)
  apply (intro steady_intros)
  done

lemma ms_prepare_steady: "steady (script (msgspec_prepare e))"
  unfolding msgspec_prepare_def msgspec_cache_check_def msgspec_prereqs_def
  apply (simp only: append.simps)
  apply (intro steady_intros)
  done

lemma xx_rest_keeps_event:
  "keeps (\<lambda>f tr. ev \<in> set tr) (script (xxhash_build e @ xxhash_package e))"
  unfolding xxhash_build_def xxhash_package_def xxhash_compile_link_def
  apply (simp only: append.simps)
  apply (intro keeps_intros keeps_tar_czf)
  apply simp_all
  done

lemma ms_rest_keeps_event:
  "keeps (\<lambda>f tr. ev \<in> set tr) (script (msgspec_build e @ msgspec_package e))"
  unfolding msgspec_build_def msgspec_package_def
  apply (simp only: append.simps)
  apply (intro keeps_intros keeps_tar_czf)
  apply simp_all
  done

lemma xx_check_runs:
  assumes "is_file f (xx_ARCHIVE_FILE e)" and "passes (xxhash_prepare e) f"
  shows "xx_shasum e \<in> set (out (run (build_xxhash e) f None))"
proof -
  let ?s0 = "\<lparr>fs = f, out = [], status = Running, fuel = None\<rparr>"
  let ?s1 = "script (xxhash_prepare e) ?s0"
  have r: "status ?s1 = Running"
    using assms(2) by (simp add: passes_def)
  have fu: "fuel ?s1 = None"
    by (rule steadyD[OF xx_prepare_steady]) simp
  have "file_at (fs ?s1) (xx_ARCHIVE_FILE e) = file_at f (xx_ARCHIVE_FILE e)"
    using keepsD[OF xx_archive_frame[where v = "file_at f (xx_ARCHIVE_FILE e)"], of ?s0]
    by simp
  then have fi: "is_file (fs ?s1) (xx_ARCHIVE_FILE e)"
    using assms(1) by (simp add: is_file_file_at)
  have "xx_shasum e \<in> set (out (script (xxhash_fetch e @ xxhash_build e @ xxhash_package e) ?s1))"
    unfolding xxhash_fetch_def xx_shasum_def
    by (rule fetch_checks[OF r fu fi xx_rest_keeps_event])
  then show ?thesis
    by (simp add: build_xxhash_def run_def finish_def script_append)
qed

lemma ms_check_runs:
  assumes "is_file f (ms_ARCHIVE_FILE e)" and "passes (msgspec_prepare e) f"
  shows "ms_shasum e \<in> set (out (run (build_msgspec e) f None))"
proof -
  let ?s0 = "\<lparr>fs = f, out = [], status = Running, fuel = None\<rparr>"
  let ?s1 = "script (msgspec_prepare e) ?s0"
  have r: "status ?s1 = Running"
    using assms(2) by (simp add: passes_def)
  have fu: "fuel ?s1 = None"
    by (rule steadyD[OF ms_prepare_steady]) simp
  have "file_at (fs ?s1) (ms_ARCHIVE_FILE e) = file_at f (ms_ARCHIVE_FILE e)"
    using keepsD[OF ms_archive_frame[where v = "file_at f (ms_ARCHIVE_FILE e)"], of ?s0]
    by simp
  then have fi: "is_file (fs ?s1) (ms_ARCHIVE_FILE e)"
    using assms(1) by (simp add: is_file_file_at)
  have "ms_shasum e \<in> set (out (script (msgspec_fetch e @ msgspec_build e @ msgspec_package e) ?s1))"
    unfolding msgspec_fetch_def ms_shasum_def
    by (rule fetch_checks[OF r fu fi ms_rest_keeps_event])
  then show ?thesis
    by (simp add: build_msgspec_def run_def finish_def script_append)
qed

lemma cpython_configure_keeps_event:
  "keeps (\<lambda>f tr. ev \<in> set tr) (script (cpython_configure e))"
  unfolding cpython_configure_def
  apply (intro keeps_intros)
  apply simp_all
  done

lemma py_check_runs:
  assumes "status s = Running" and "fuel s = None" and "\<not> is_dir (fs s) (HEADERS_OUT e)"
    and "is_file (fs s) (PY_TARBALL e)"
  shows "py_shasum e \<in> set (out (script (cpython_headers e) s))"
proof -
  have "py_shasum e \<in> set (out (script (cpython_src_fetch e @ cpython_configure e) s))"
    unfolding cpython_src_fetch_def py_shasum_def
    by (rule fetch_checks[OF assms(1,2,4) cpython_configure_keeps_event])
  then show ?thesis
    using assms(1-3) by (simp add: cpython_headers_def cpython_headers_body_def ifte_run)
qed

section \<open>The runtime source and the toolchain archive, when cached\<close>

lemma no_download_more [simp]:
  "\<not> is_download (Exec ''uv'' args)" "\<not> is_download (Exec ''./config.guess'' args)"
  "\<not> is_download (Exec ''./Tools/wasm/wasi-env'' args)"
  by (simp_all add: is_download_def)

lemma cpython_configure_no_download:
  "keeps (\<lambda>f tr. filter is_download tr = k) (script (cpython_configure e))"
  unfolding cpython_configure_def
  apply (intro keeps_intros)
  apply simp_all
  done

lemma py_stage_cached:
  assumes "is_file (fs s) (PY_TARBALL e)"
  shows "filter is_download (out (script (cpython_headers e) s)) = filter is_download (out s)"
proof (cases "status s = Running")
  case False
  then show ?thesis by (simp add: script_stopped)
next
  case True
  let ?k = "filter is_download (out s)"
  let ?J = "\<lambda>tr. filter is_download tr = ?k"
  have fc: "triple (\<lambda>f tr. is_file f (PY_TARBALL e) \<and> ?J tr) (script (cpython_src_fetch e))
              (\<lambda>f tr. ?J tr) ?J"
    unfolding cpython_src_fetch_def by (rule fetch_cached) simp_all
  have body: "triple (\<lambda>f tr. is_file f (PY_TARBALL e) \<and> ?J tr) (script (cpython_headers_body e))
                (\<lambda>f tr. ?J tr) ?J"
    unfolding cpython_headers_body_def
    by (rule triple_append[OF fc triple_keeps[OF cpython_configure_no_download]])
  have "triple (\<lambda>f tr. is_file f (PY_TARBALL e) \<and> ?J tr) (script (cpython_headers e))
          (\<lambda>f tr. ?J tr) ?J"
    unfolding cpython_headers_def
  proof (intro triple_Cons[where R = "\<lambda>f tr. ?J tr"] triple_ifte)
    show "triple (\<lambda>f tr. (is_file f (PY_TARBALL e) \<and> ?J tr) \<and> \<not> is_dir f (HEADERS_OUT e))
            (script (cpython_headers_body e)) (\<lambda>f tr. ?J tr) ?J"
      by (rule triple_pre[OF body]) simp
    show "triple (\<lambda>f tr. (is_file f (PY_TARBALL e) \<and> ?J tr) \<and> \<not> \<not> is_dir f (HEADERS_OUT e))
            (script []) (\<lambda>f tr. ?J tr) ?J"
      by (rule triple_Nil) simp
    show "\<And>f tr. is_file f (PY_TARBALL e) \<and> ?J tr \<Longrightarrow> ?J tr"
      by simp
    show "triple (\<lambda>f tr. ?J tr) (script []) (\<lambda>f tr. ?J tr) ?J"
      by (rule triple_Nil) simp
  qed
  with True assms show ?thesis
    by (auto simp: triple_def)
qed

lemma sdk_rest_no_sdk_curl:
  "only_events (\<lambda>ev. ev \<noteq> sdk_curl e P) (script (cpython_sdk_install e P @ cpython_headers e))"
  unfolding cpython_sdk_install_def cpython_headers_def cpython_headers_body_def
    cpython_src_fetch_def cpython_configure_def
  by (rule only_events_script) (simp add: only_events_intros sdk_curl_def py_paths)

lemma sdk_until_check_no_curl:
  "only_events (\<lambda>ev. ev \<noteq> sdk_curl e P) (script (cpython_until_sdk_check e P))"
  unfolding cpython_until_sdk_check_def
  by (rule only_events_script) (simp add: only_events_intros sdk_curl_def)

lemma sdk_cached_no_download:
  assumes "detect_platform e = Inr P" and "is_file f (WASI_TARBALL e P)"
  shows "sdk_curl e P \<notin> set (out (run (build_cpython e) f n))"
proof -
  let ?E = "\<lambda>ev. ev \<noteq> sdk_curl e P"
  let ?A = "WASI_TARBALL e P"
  let ?I = "\<lambda>f' tr. file_at f' ?A = file_at f ?A \<and> list_all ?E tr"
  have p: "triple ?I (script (cpython_until_sdk_check e P)) ?I (list_all ?E)"
    by (rule triple_from_valid_events[OF valid_keeps[OF sdk_archive_frame]
          sdk_until_check_no_curl])
  have fc: "triple ?I (script (cpython_sdk_fetch e P)) (\<lambda>f tr. list_all ?E tr) (list_all ?E)"
    unfolding cpython_sdk_fetch_def
    by (rule triple_pre[OF fetch_cached])
      (use assms(2) in \<open>simp_all add: is_file_file_at sdk_curl_def\<close>)
  have "triple ?I (build_cpython e) (\<lambda>f tr. list_all ?E tr) (list_all ?E)"
    unfolding build_cpython_split[OF assms(1)]
    by (intro triple_append[OF triple_append[OF p fc]] triple_only_events sdk_rest_no_sdk_curl)
  from triple_run[OF this, of f n] show ?thesis
    by (auto simp: list_all_iff)
qed

section \<open>The driver\<close>

lemma steady_cd: "steady (cd d)"
  unfolding cd_def by (rule steady_tick) simp

lemma steady_source_file: "steady (source_file p)"
  unfolding source_file_def by (rule steady_tick) simp

lemma steady_call: "steady c \<Longrightarrow> steady (call prog c)"
  unfolding call_def
  by (rule steady_tick) (auto simp: steady_def Let_def split: status.splits)

lemma guest_rest_steady:
  "steady (script (guest_fetch e @ guest_extensions e @ guest_componentize e g))"
  unfolding guest_fetch_def guest_extensions_def guest_componentize_def
  apply (simp only: append.simps)
  apply (intro steady_intros steady_cd steady_source_file steady_call xxhash_steady msgspec_steady)
  done

lemma pydantic_stage_gate:
  assumes mm: "pinned_mismatch e (fs s) (PYDANTIC_CHECKFILE e) PYDANTIC_NAME (PYDANTIC_TAR e)
                 PYDANTIC_WASI_WHEEL"
  shows "filter is_work (out (script (guest_fetch e @ rest) s)) = filter is_work (out s)"
    and "status (script (guest_fetch e @ rest) s) \<noteq> Running"
    and "status s \<noteq> Exited 0 \<Longrightarrow> status (script (guest_fetch e @ rest) s) \<noteq> Exited 0"
proof -
  have fl: "PYDANTIC_TAR e = TOOL_DIR e @ ''/'' @ PYDANTIC_NAME"
    by (simp add: PYDANTIC_TAR_def)
  show "filter is_work (out (script (guest_fetch e @ rest) s)) = filter is_work (out s)"
    unfolding guest_fetch_def by (rule fetch_stage_gate(1)[OF mm fl]) simp_all
  show "status (script (guest_fetch e @ rest) s) \<noteq> Running"
    unfolding guest_fetch_def by (rule fetch_stage_gate(2)[OF mm fl, where W = is_work]) simp_all
  show "status (script (guest_fetch e @ rest) s) \<noteq> Exited 0" if "status s \<noteq> Exited 0"
    unfolding guest_fetch_def
    by (rule fetch_stage_gate(3)[OF mm fl, where W = is_work]) (simp_all add: that)
qed

lemma build_guest_split:
  "build_guest e g s =
     script (guest_fetch e @ guest_extensions e @ guest_componentize e g)
       (script (guest_prepare e) s)"
  by (simp add: build_guest_def script_append)

section \<open>What the checksum verification checks\<close>

lemma check_line_verified:
  "check_line e ign dir f (h, n) = Verified
     \<longleftrightarrow> (\<exists>b x. file_at f (dir @ ''/'' @ n) = Some (b, x) \<and> sha256 e b = h)"
  by (auto simp: check_line_def file_at_def split: option.splits node.splits)

lemma check_line_strict:
  "check_line e False dir f (h, n) \<noteq> Failed
     \<longleftrightarrow> (\<exists>b x. file_at f (dir @ ''/'' @ n) = Some (b, x) \<and> sha256 e b = h)"
  by (auto simp: check_line_def file_at_def split: option.splits node.splits)

lemma check_line_ignore:
  "check_line e True dir f (h, n) \<noteq> Failed
     \<longleftrightarrow> map_of f (dir @ ''/'' @ n) = None
         \<or> (\<exists>b x. file_at f (dir @ ''/'' @ n) = Some (b, x) \<and> sha256 e b = h)"
  by (auto simp: check_line_def file_at_def split: option.splits node.splits)

lemma verdict_in_map:
  "v \<in> set (map g ls) \<longleftrightarrow> (\<exists>l \<in> set ls. g l = v)"
  by auto

lemma shasum_c_ok:
  "fst (shasum_c e ign dir chk f) = 0 \<longleftrightarrow>
     is_dir f dir \<and>
     (\<exists>ls. checksum_lines e chk = Some ls \<and> ls \<noteq> [] \<and>
        (\<forall>l \<in> set ls. check_line e ign dir f l \<noteq> Failed) \<and>
        (ign \<longrightarrow> (\<exists>l \<in> set ls. check_line e ign dir f l = Verified)))"
proof (cases "checksum_lines e chk")
  case None
  then show ?thesis by (simp add: shasum_c_def)
next
  case (Some ls)
  then show ?thesis
    unfolding shasum_c_def Let_def verdict_in_map by (cases ign) simp_all
qed

lemma shasum_c_strict:
  "fst (shasum_c e False dir chk f) = 0 \<longleftrightarrow>
     is_dir f dir \<and>
     (\<exists>ls. checksum_lines e chk = Some ls \<and> ls \<noteq> [] \<and>
        (\<forall>(h, n) \<in> set ls. \<exists>b x. file_at f (dir @ ''/'' @ n) = Some (b, x) \<and> sha256 e b = h))"
proof -
  have "(\<forall>l \<in> set ls. check_line e False dir f l \<noteq> Failed) \<longleftrightarrow>
        (\<forall>(h, n) \<in> set ls. \<exists>b x. file_at f (dir @ ''/'' @ n) = Some (b, x) \<and> sha256 e b = h)"
    for ls
    using check_line_strict[of e dir f] by (simp add: split_beta del: not_ex) (metis prod.collapse)
  then show ?thesis
    unfolding shasum_c_ok by simp
qed

lemma shasum_c_ignore:
  "fst (shasum_c e True dir chk f) = 0 \<longleftrightarrow>
     is_dir f dir \<and>
     (\<exists>ls. checksum_lines e chk = Some ls \<and>
        (\<forall>(h, n) \<in> set ls. map_of f (dir @ ''/'' @ n) = None \<or>
           (\<exists>b x. file_at f (dir @ ''/'' @ n) = Some (b, x) \<and> sha256 e b = h)) \<and>
        (\<exists>(h, n) \<in> set ls. \<exists>b x. file_at f (dir @ ''/'' @ n) = Some (b, x) \<and> sha256 e b = h))"
proof -
  have a: "(\<forall>l \<in> set ls. check_line e True dir f l \<noteq> Failed) \<longleftrightarrow>
        (\<forall>(h, n) \<in> set ls. map_of f (dir @ ''/'' @ n) = None \<or>
           (\<exists>b x. file_at f (dir @ ''/'' @ n) = Some (b, x) \<and> sha256 e b = h))" for ls
    using check_line_ignore[of e dir f] by (simp add: split_beta del: not_ex) (metis prod.collapse)
  have b: "(\<exists>l \<in> set ls. check_line e True dir f l = Verified) \<longleftrightarrow>
        (\<exists>(h, n) \<in> set ls. \<exists>b x. file_at f (dir @ ''/'' @ n) = Some (b, x) \<and> sha256 e b = h)"
    for ls
    using check_line_verified[of e True dir f] by (simp add: split_beta) (metis prod.collapse)
  have c: "ls \<noteq> []"
    if "\<exists>(h, n) \<in> set ls. \<exists>b x. file_at f (dir @ ''/'' @ n) = Some (b, x) \<and> sha256 e b = h"
    for ls :: "(string \<times> string) list"
    using that by auto
  show ?thesis
    unfolding shasum_c_ok a b using c by (simp del: not_ex) blast
qed

lemma shasum_c_unlisted:
  assumes "\<not> listed e chk name"
  shows "fst (shasum_c e ign dir chk (store (dir @ ''/'' @ name) (File b x) f))
           = fst (shasum_c e ign dir chk f)"
proof (cases "checksum_lines e chk")
  case None
  then show ?thesis by (simp add: shasum_c_def)
next
  case (Some ls)
  let ?g = "store (dir @ ''/'' @ name) (File b x) f"
  have "check_line e ign dir ?g l = check_line e ign dir f l" if "l \<in> set ls" for l
  proof -
    from that assms Some have "snd l \<noteq> name"
      by (auto simp: listed_def)
    then show ?thesis
      by (simp add: check_line_def map_of_store)
  qed
  then have m: "map (check_line e ign dir ?g) ls = map (check_line e ign dir f) ls"
    by simp
  have d: "is_dir ?g dir = is_dir f dir"
    by (simp add: is_dir_store)
  show ?thesis
    unfolding shasum_c_def Let_def Some option.case m d by (cases ign) simp_all
qed

subsection \<open>A stage that goes on has verified\<close>

lemma fetch_verified:
  assumes "status (script (cs @ [exec ''shasum'' sargs (shasum_c e ign dir chk)]) s) = Running"
  shows "fst (shasum_c e ign dir chk
           (fs (script (cs @ [exec ''shasum'' sargs (shasum_c e ign dir chk)]) s))) = 0"
proof -
  let ?c = "script (cs @ [exec ''shasum'' sargs (shasum_c e ign dir chk)])"
  let ?Q = "\<lambda>f (tr :: event list). fst (shasum_c e ign dir chk f) = 0"
  have "valid (\<lambda>f tr. True) (script [exec ''shasum'' sargs (shasum_c e ign dir chk)]) ?Q"
    by (intro valid_script_Cons[where R = ?Q] valid_exec valid_script_Nil)
      (simp_all add: snd_shasum_c)
  then have v: "valid (\<lambda>f tr. True) ?c ?Q"
    by (rule valid_append[OF valid_True])
  have "status s = Running"
    using assms by (cases "status s = Running") (simp_all add: script_stopped)
  with v assms show ?thesis
    by (simp add: valid_def)
qed

lemma xx_fetch_verified:
  "status (script (xxhash_fetch e) s) = Running \<Longrightarrow>
   fst (shasum_c e False (TOOL_DIR e) (xx_CHECKFILE e) (fs (script (xxhash_fetch e) s))) = 0"
  using fetch_verified[of "butlast (xxhash_fetch e)" "[''-a'', ''256'', ''-c'', xx_CHECKFILE e]"
      e False "TOOL_DIR e" "xx_CHECKFILE e" s]
  by (simp add: xxhash_fetch_def)

lemma ms_fetch_verified:
  "status (script (msgspec_fetch e) s) = Running \<Longrightarrow>
   fst (shasum_c e False (TOOL_DIR e) (ms_CHECKFILE e) (fs (script (msgspec_fetch e) s))) = 0"
  using fetch_verified[of "butlast (msgspec_fetch e)" "[''-a'', ''256'', ''-c'', ms_CHECKFILE e]"
      e False "TOOL_DIR e" "ms_CHECKFILE e" s]
  by (simp add: msgspec_fetch_def)

lemma py_fetch_verified:
  "status (script (cpython_src_fetch e) s) = Running \<Longrightarrow>
   fst (shasum_c e False (TOOL_DIR e) (PY_CHECKFILE e) (fs (script (cpython_src_fetch e) s))) = 0"
  using fetch_verified[of "butlast (cpython_src_fetch e)"
      "[''-a'', ''256'', ''-c'', PY_CHECKFILE e]" e False "TOOL_DIR e" "PY_CHECKFILE e" s]
  by (simp add: cpython_src_fetch_def)

lemma guest_fetch_verified:
  "status (script (guest_fetch e) s) = Running \<Longrightarrow>
   fst (shasum_c e False (TOOL_DIR e) (PYDANTIC_CHECKFILE e) (fs (script (guest_fetch e) s))) = 0"
  using fetch_verified[of "butlast (guest_fetch e)"
      "[''-a'', ''256'', ''-c'', PYDANTIC_CHECKFILE e]" e False "TOOL_DIR e"
      "PYDANTIC_CHECKFILE e" s]
  by (simp add: guest_fetch_def)

lemma sdk_fetch_verified:
  "status (script (cpython_sdk_fetch e P) s) = Running \<Longrightarrow>
   fst (shasum_c e True (TOOL_DIR e) (WASI_CHECKFILE e) (fs (script (cpython_sdk_fetch e P) s))) = 0"
  using fetch_verified[of "butlast (cpython_sdk_fetch e P)"
      "[''-a'', ''256'', ''-c'', WASI_CHECKFILE e, ''--ignore-missing'']" e True "TOOL_DIR e"
      "WASI_CHECKFILE e" s]
  by (simp add: cpython_sdk_fetch_def)

section \<open>The toolchain stage when the toolchain is already extracted\<close>

lemma wasi_paths:
  "WASI_TARBALL e P \<noteq> WASI_DIR e" "WASI_DIR e \<noteq> WASI_TARBALL e P"
  "PY_TARBALL e \<noteq> WASI_TARBALL e P"
  by (auto simp: WASI_TARBALL_def WASI_TARBALL_NAME_def WASI_DIR_def PY_TARBALL_def
      PY_TARBALL_NAME_def)

lemma rerun_until_check:
  "triple (rerun_state e P c) (script (cpython_until_sdk_check e P))
     (rerun_state e P c) (list_all (rerun_event e P c))"
  unfolding cpython_until_sdk_check_def
  apply (intro triple_inv_intros)
  apply (simp_all add: rerun_state_def rerun_event_def sdk_untar_def sdk_mv_def sdk_curl_def
      is_dir_mkdir_p is_file_mkdir_p)
  done

lemma rerun_fetch:
  "triple (rerun_state e P c) (script (cpython_sdk_fetch e P))
     (rerun_state e P c) (list_all (rerun_event e P c))"
  unfolding cpython_sdk_fetch_def
proof (rule triple_Cons_inv)
  let ?R = "\<lambda>f tr. rerun_state e P c f tr \<and> \<not> is_file f (WASI_TARBALL e P)"
  have dl: "triple ?R
          (script [echo (''[wasi-sdk] Downloading '' @ WASI_URL P),
                   curl e [''-fL'', ''-o'', WASI_TARBALL e P, WASI_URL P] (WASI_TARBALL e P)
                     (WASI_URL P)])
          (rerun_state e P c) (list_all (rerun_event e P c))"
    apply (rule triple_Cons[where R = ?R])
     apply (rule triple_echo)
     apply (auto simp: rerun_state_def rerun_event_def sdk_untar_def sdk_mv_def sdk_curl_def)[1]
    apply (rule triple_Cons_inv)
     apply (rule triple_curl)
      apply (auto simp: rerun_state_def rerun_event_def sdk_untar_def sdk_mv_def sdk_curl_def
        is_dir_store is_file_file_at file_at_store wasi_paths)[2]
    apply (rule triple_Nil)
    apply (simp add: rerun_state_def)
    done
  have cached: "triple (\<lambda>f tr. rerun_state e P c f tr \<and> \<not> \<not> is_file f (WASI_TARBALL e P))
          (script [echo (''[wasi-sdk] Using existing '' @ WASI_TARBALL e P)])
          (rerun_state e P c) (list_all (rerun_event e P c))"
    by (intro triple_inv_intros)
      (auto simp: rerun_state_def rerun_event_def sdk_untar_def sdk_mv_def sdk_curl_def)
  show "triple (rerun_state e P c)
          (ifte (\<lambda>f. \<not> is_file f (WASI_TARBALL e P))
             [echo (''[wasi-sdk] Downloading '' @ WASI_URL P),
              curl e [''-fL'', ''-o'', WASI_TARBALL e P, WASI_URL P] (WASI_TARBALL e P)
                (WASI_URL P)]
             [echo (''[wasi-sdk] Using existing '' @ WASI_TARBALL e P)])
          (rerun_state e P c) (list_all (rerun_event e P c))"
    by (rule triple_ifte[OF _ dl cached]) (simp add: rerun_state_def)
  show "triple (rerun_state e P c)
          (script [echo ''[wasi-sdk] Verifying checksum'',
                   exec ''shasum'' [''-a'', ''256'', ''-c'', WASI_CHECKFILE e, ''--ignore-missing'']
                     (shasum_c e True (TOOL_DIR e) (WASI_CHECKFILE e))])
          (rerun_state e P c) (list_all (rerun_event e P c))"
    by (intro triple_inv_intros)
      (auto simp: rerun_state_def rerun_event_def sdk_untar_def sdk_mv_def sdk_curl_def
        snd_shasum_c)
qed

lemma rerun_install:
  "triple (rerun_state e P c) (script (cpython_sdk_install e P))
     (rerun_state e P c) (list_all (rerun_event e P c))"
  unfolding cpython_sdk_install_def
proof (rule triple_Cons_inv)
  have x: "triple (\<lambda>f tr. rerun_state e P c f tr \<and> \<not> is_dir f (WASI_DIR e))
          (script [echo (''[wasi-sdk] Extracting to '' @ WASI_DIR e),
                   exec_or_true ''rm'' [''-rf'', WASI_DIR e] (rm_rf (WASI_DIR e)),
                   exec ''tar'' [''-C'', TOOL_DIR e, ''-xf'', WASI_TARBALL e P]
                     (tar_x e (TOOL_DIR e) (WASI_TARBALL e P)),
                   exec ''mv'' [WASI_DIR e @ ''-'' @ P, WASI_DIR e]
                     (mv (WASI_DIR e @ ''-'' @ P) (WASI_DIR e))])
          (rerun_state e P c) (list_all (rerun_event e P c))"
    by (rule triple_contra) (auto simp: rerun_state_def)
  have y: "triple (\<lambda>f tr. rerun_state e P c f tr \<and> \<not> \<not> is_dir f (WASI_DIR e))
          (script [echo (''[wasi-sdk] Using existing '' @ WASI_DIR e)])
          (rerun_state e P c) (list_all (rerun_event e P c))"
    by (intro triple_inv_intros)
      (auto simp: rerun_state_def rerun_event_def sdk_untar_def sdk_mv_def sdk_curl_def)
  show "triple (rerun_state e P c)
          (ifte (\<lambda>f. \<not> is_dir f (WASI_DIR e))
             [echo (''[wasi-sdk] Extracting to '' @ WASI_DIR e),
              exec_or_true ''rm'' [''-rf'', WASI_DIR e] (rm_rf (WASI_DIR e)),
              exec ''tar'' [''-C'', TOOL_DIR e, ''-xf'', WASI_TARBALL e P]
                (tar_x e (TOOL_DIR e) (WASI_TARBALL e P)),
              exec ''mv'' [WASI_DIR e @ ''-'' @ P, WASI_DIR e]
                (mv (WASI_DIR e @ ''-'' @ P) (WASI_DIR e))]
             [echo (''[wasi-sdk] Using existing '' @ WASI_DIR e)])
          (rerun_state e P c) (list_all (rerun_event e P c))"
    by (rule triple_ifte[OF _ x y]) (simp add: rerun_state_def)
  show "triple (rerun_state e P c)
          (script
            [ifte (\<lambda>f. \<not> is_exec f (WASI_SDK e @ ''/bin/clang''))
               [echo (''Error: clang not found at '' @ WASI_SDK e @ ''/bin/clang''),
                exit_sh 1] [],
             exec (WASI_SDK e @ ''/bin/clang'') [''--print-resource-dir'']
               (tool_query (WASI_SDK e @ ''/bin/clang'')),
             ifte (\<lambda>f. \<not> is_file f (RT_BUILTINS e))
               [echo (''Error: compiler-rt builtins not found at: '' @ RT_BUILTINS e),
                echo (''Ensure you're using the official wasi-sdk '' @ WASI_VER @ '' macOS tarball.''),
                exit_sh 1] []])
          (rerun_state e P c) (list_all (rerun_event e P c))"
    by (intro triple_inv_intros)
      (auto simp: rerun_state_def rerun_event_def sdk_untar_def sdk_mv_def sdk_curl_def
        tool_query_def)
qed

lemma rerun_headers:
  "only_events (rerun_event e P c) (script (cpython_headers e))"
  unfolding cpython_headers_def cpython_headers_body_def cpython_src_fetch_def
    cpython_configure_def
  apply (rule only_events_script)
  apply (simp add: only_events_intros rerun_event_def sdk_untar_def sdk_mv_def sdk_curl_def
      wasi_paths)
  done

lemma rerun_events:
  assumes "detect_platform e = Inr P" and "is_dir f (WASI_DIR e)"
    and "c \<longrightarrow> is_file f (WASI_TARBALL e P)"
  shows "list_all (rerun_event e P c) (out (run (build_cpython e) f n))"
proof -
  have h: "triple (\<lambda>f tr. list_all (rerun_event e P c) tr) (script (cpython_headers e))
             (\<lambda>f tr. list_all (rerun_event e P c) tr) (list_all (rerun_event e P c))"
    using rerun_headers[of e P c] by (intro triple_keeps) (simp add: only_events_def)
  have i: "triple (rerun_state e P c) (script (cpython_sdk_install e P))
             (\<lambda>f tr. list_all (rerun_event e P c) tr) (list_all (rerun_event e P c))"
    using rerun_install[of e P c] by (auto simp: triple_def rerun_state_def)
  have "triple (rerun_state e P c) (build_cpython e)
          (\<lambda>f tr. list_all (rerun_event e P c) tr) (list_all (rerun_event e P c))"
    unfolding build_cpython_split[OF assms(1)]
    by (intro triple_append[OF triple_append[OF rerun_until_check rerun_fetch]]
        triple_append[OF i h])
  from triple_run[OF this, of f n] assms(2,3) show ?thesis
    by (simp add: rerun_state_def)
qed

lemma curl_run:
  "status s = Running \<Longrightarrow> fuel s = None \<Longrightarrow>
   out (curl e args file url s) = out s @ [Exec ''curl'' args]"
  by (auto simp: curl_def tick_def Let_def case_prod_beta split: option.splits)

lemma cpython_rest_grows:
  "keeps (\<lambda>f tr. ev \<in> set tr) (script (cpython_sdk_install e P @ cpython_headers e))"
  unfolding cpython_sdk_install_def cpython_headers_def cpython_headers_body_def
    cpython_src_fetch_def cpython_configure_def
  apply (simp only: append.simps)
  apply (intro keeps_intros)
  apply simp_all
  done

lemma sdk_check_runs:
  assumes "detect_platform e = Inr P" and "is_dir f (TOOL_DIR e)"
    and "is_file f (WASI_TARBALL e P)"
  shows "sdk_shasum e \<in> set (out (run (build_cpython e) f None))"
proof -
  let ?s0 = "\<lparr>fs = f, out = [], status = Running, fuel = None\<rparr>"
  let ?pf = "cpython_until_sdk_check e P @ cpython_sdk_fetch e P"
  have "sdk_shasum e \<in> set (out (script ?pf ?s0))"
    using assms(2,3)
    by (simp add: cpython_until_sdk_check_def cpython_sdk_fetch_def run_simps mkdir_p_noop
        sdk_shasum_def snd_shasum_c)
  then have "sdk_shasum e \<in> set (out (script (cpython_sdk_install e P @ cpython_headers e)
                                        (script ?pf ?s0)))"
    using keepsD[OF cpython_rest_grows] by blast
  then show ?thesis
    by (simp add: build_cpython_split[OF assms(1)] run_def finish_def script_append)
qed

lemma sdk_download_runs:
  assumes "detect_platform e = Inr P" and "is_dir f (TOOL_DIR e)"
    and "\<not> is_file f (WASI_TARBALL e P)"
  shows "sdk_curl e P \<in> set (out (run (build_cpython e) f None))"
proof -
  let ?s0 = "\<lparr>fs = f, out = [], status = Running, fuel = None\<rparr>"
  let ?pre = "cpython_until_sdk_check e P"
  define s1 where "s1 = script ?pre ?s0"
  have s1: "status s1 = Running" "fuel s1 = None" "fs s1 = f"
    unfolding s1_def using assms(2)
    by (simp_all add: cpython_until_sdk_check_def run_simps mkdir_p_noop)
  define s2 where "s2 = ifte (\<lambda>f. \<not> is_file f (WASI_TARBALL e P))
             [echo (''[wasi-sdk] Downloading '' @ WASI_URL P),
              curl e [''-fL'', ''-o'', WASI_TARBALL e P, WASI_URL P] (WASI_TARBALL e P)
                (WASI_URL P)]
             [echo (''[wasi-sdk] Using existing '' @ WASI_TARBALL e P)] s1"
  have "sdk_curl e P \<in> set (out s2)"
    unfolding s2_def using s1 assms(3)
    by (simp add: ifte_run echo_run curl_run sdk_curl_def)
  moreover have "keeps (\<lambda>f tr. sdk_curl e P \<in> set tr)
     (script ([echo ''[wasi-sdk] Verifying checksum'',
               exec ''shasum'' [''-a'', ''256'', ''-c'', WASI_CHECKFILE e, ''--ignore-missing'']
                 (shasum_c e True (TOOL_DIR e) (WASI_CHECKFILE e))]
              @ cpython_sdk_install e P @ cpython_headers e))"
    unfolding cpython_sdk_install_def cpython_headers_def cpython_headers_body_def
      cpython_src_fetch_def cpython_configure_def
    apply (simp only: append.simps)
    apply (intro keeps_intros)
    apply simp_all
    done
  ultimately have "sdk_curl e P \<in> set (out (script ([echo ''[wasi-sdk] Verifying checksum'',
               exec ''shasum'' [''-a'', ''256'', ''-c'', WASI_CHECKFILE e, ''--ignore-missing'']
                 (shasum_c e True (TOOL_DIR e) (WASI_CHECKFILE e))]
              @ cpython_sdk_install e P @ cpython_headers e) s2))"
    by (rule keepsD[rotated])
  moreover have "run (build_cpython e) f None
     = finish (script ([echo ''[wasi-sdk] Verifying checksum'',
               exec ''shasum'' [''-a'', ''256'', ''-c'', WASI_CHECKFILE e, ''--ignore-missing'']
                 (shasum_c e True (TOOL_DIR e) (WASI_CHECKFILE e))]
              @ cpython_sdk_install e P @ cpython_headers e) s2)"
    unfolding build_cpython_split[OF assms(1)] run_def s2_def s1_def cpython_sdk_fetch_def
    using s1(1)[unfolded s1_def]
    by (simp only: script_append script.simps append.simps if_True)
      (simp add: script_stopped)
  ultimately show ?thesis
    by (simp add: finish_def)
qed

section \<open>Cache hits\<close>

text \<open>
  Claim C4.  When the output tarball of an extension stage is already in the tool cache
  (and the tool cache is the directory that holds it), a run of the stage ends with
  exit code 0 right after the existence check: it starts no program but the
  \<^verbatim>\<open>mkdir -p\<close> of the first line, so it downloads, compiles and links nothing, and it
  leaves the whole file system, the tarball included, as it was.
\<close>

theorem cache_hit_skips_stage:
  assumes "is_dir f (TOOL_DIR e)"
  shows "(is_file f (xx_OUT_TAR e) \<longrightarrow>
            status (run (build_xxhash e) f None) = Exited 0 \<and>
            fs (run (build_xxhash e) f None) = f \<and>
            out (run (build_xxhash e) f None) =
              [Exec ''mkdir'' [''-p'', TOOL_DIR e],
               Echo (''[xxhash] Cache hit: '' @ xx_OUT_TAR e @ '' already exists; skipping build'')] \<and>
            filter (\<lambda>ev. is_download ev \<or> is_compile ev \<or> is_link ev)
              (out (run (build_xxhash e) f None)) = []) \<and>
         (is_file f (ms_OUT_TAR e) \<longrightarrow>
            status (run (build_msgspec e) f None) = Exited 0 \<and>
            fs (run (build_msgspec e) f None) = f \<and>
            out (run (build_msgspec e) f None) =
              [Exec ''mkdir'' [''-p'', TOOL_DIR e],
               Echo (''[msgspec] Cache hit: '' @ ms_OUT_TAR e @ '' already exists; skipping build'')] \<and>
            filter (\<lambda>ev. is_download ev \<or> is_compile ev \<or> is_link ev)
              (out (run (build_msgspec e) f None)) = [])"
  using assms
  by (simp add: xxhash_cache_hit msgspec_cache_hit is_download_def is_compile_def is_link_def
      basename_def)

theorem cache_hit_skips_stage_witness:
  "is_dir cached_fs (TOOL_DIR demo_env) \<and>
   is_file cached_fs (xx_OUT_TAR demo_env) \<and>
   is_file cached_fs (ms_OUT_TAR demo_env) \<and>
   status (run (build_xxhash demo_env) cached_fs None) = Exited 0 \<and>
   fs (run (build_xxhash demo_env) cached_fs None) = cached_fs \<and>
   filter (\<lambda>ev. is_download ev \<or> is_compile ev \<or> is_link ev)
     (out (run (build_xxhash demo_env) cached_fs None)) = [] \<and>
   status (run (build_msgspec demo_env) cached_fs None) = Exited 0 \<and>
   fs (run (build_msgspec demo_env) cached_fs None) = cached_fs \<and>
   filter (\<lambda>ev. is_download ev \<or> is_compile ev \<or> is_link ev)
     (out (run (build_msgspec demo_env) cached_fs None)) = []"
proof -
  have d: "is_dir cached_fs (TOOL_DIR demo_env)"
    by (simp add: is_dir_def cached_fs_def TOOL_DIR_def demo_env_def)
  have x: "is_file cached_fs (xx_OUT_TAR demo_env)"
    by (simp add: is_file_def cached_fs_def xx_OUT_TAR_def TOOL_DIR_def demo_env_def)
  have m: "is_file cached_fs (ms_OUT_TAR demo_env)"
    by (simp add: is_file_def cached_fs_def ms_OUT_TAR_def TOOL_DIR_def demo_env_def)
  from cache_hit_skips_stage[OF d] d x m show ?thesis by blast
qed

section \<open>The prerequisite gate\<close>

text \<open>
  Claim C7, as the scripts have it.  When the header bundle is absent and the output
  tarball is not cached, an extension stage ends with exit code 1 before it starts the
  compiler or the linker, and the one line it prints names \<^verbatim>\<open>build_cpython.sh\<close> as the
  script to run first: the line on the missing headers when the toolchain's compiler is
  there, the line on the missing toolchain when it is not.
\<close>

theorem missing_headers_fail_fast:
  assumes "\<not> is_dir f (PY_HEADERS_312_DIR e)"
  shows "(\<not> is_file f (xx_OUT_TAR e) \<longrightarrow>
            status (run (build_xxhash e) f None) = Exited 1 \<and>
            out (run (build_xxhash e) f None) =
              [Exec ''mkdir'' [''-p'', TOOL_DIR e],
               Echo (if is_exec f (WASI_SDK e @ ''/bin/clang'')
                     then ''[xxhash] Error: Python 3.12 headers not found; run build_cpython.sh first''
                     else ''[xxhash] Error: WASI SDK not found; run build_cpython.sh first'')] \<and>
            filter (\<lambda>ev. is_compile ev \<or> is_link ev) (out (run (build_xxhash e) f None)) = []) \<and>
         (\<not> is_file f (ms_OUT_TAR e) \<longrightarrow>
            status (run (build_msgspec e) f None) = Exited 1 \<and>
            out (run (build_msgspec e) f None) =
              [Exec ''mkdir'' [''-p'', TOOL_DIR e],
               Echo (if is_exec f (WASI_SDK e @ ''/bin/clang'')
                     then ''[msgspec] Error: Python 3.12 headers not found; run build_cpython.sh first''
                     else ''[msgspec] Error: WASI SDK not found; run build_cpython.sh first'')] \<and>
            filter (\<lambda>ev. is_compile ev \<or> is_link ev) (out (run (build_msgspec e) f None)) = []) \<and>
         sublist ''build_cpython.sh''
           ''[xxhash] Error: Python 3.12 headers not found; run build_cpython.sh first'' \<and>
         sublist ''build_cpython.sh''
           ''[xxhash] Error: WASI SDK not found; run build_cpython.sh first'' \<and>
         sublist ''build_cpython.sh''
           ''[msgspec] Error: Python 3.12 headers not found; run build_cpython.sh first'' \<and>
         sublist ''build_cpython.sh''
           ''[msgspec] Error: WASI SDK not found; run build_cpython.sh first''"
  using assms xxhash_no_headers[of f e] msgspec_no_headers[of f e]
  by (simp add: is_compile_def is_link_def basename_def sublist_Cons_right)

theorem missing_headers_fail_fast_witness:
  "\<not> is_dir bare_fs (PY_HEADERS_312_DIR demo_env) \<and>
   \<not> is_file bare_fs (xx_OUT_TAR demo_env) \<and>
   \<not> is_file bare_fs (ms_OUT_TAR demo_env) \<and>
   status (run (build_xxhash demo_env) bare_fs None) = Exited 1 \<and>
   out (run (build_xxhash demo_env) bare_fs None) =
     [Exec ''mkdir'' [''-p'', ''/r/_tooling''],
      Echo ''[xxhash] Error: WASI SDK not found; run build_cpython.sh first''] \<and>
   status (run (build_msgspec demo_env) bare_fs None) = Exited 1 \<and>
   out (run (build_msgspec demo_env) bare_fs None) =
     [Exec ''mkdir'' [''-p'', ''/r/_tooling''],
      Echo ''[msgspec] Error: WASI SDK not found; run build_cpython.sh first'']"
proof -
  have h: "\<not> is_dir bare_fs (PY_HEADERS_312_DIR demo_env)"
    by (simp add: is_dir_def bare_fs_def PY_HEADERS_312_DIR_def TOOL_DIR_def demo_env_def)
  have x: "\<not> is_file bare_fs (xx_OUT_TAR demo_env)"
    by (simp add: is_file_def bare_fs_def xx_OUT_TAR_def TOOL_DIR_def demo_env_def)
  have m: "\<not> is_file bare_fs (ms_OUT_TAR demo_env)"
    by (simp add: is_file_def bare_fs_def ms_OUT_TAR_def TOOL_DIR_def demo_env_def)
  have c: "\<not> is_exec bare_fs (WASI_SDK demo_env @ ''/bin/clang'')"
    by (simp add: is_exec_def bare_fs_def WASI_SDK_def WASI_DIR_def WASI_VER_def TOOL_DIR_def
        demo_env_def)
  have t: "TOOL_DIR demo_env = ''/r/_tooling''"
    by (simp add: TOOL_DIR_def demo_env_def)
  from missing_headers_fail_fast[OF h] h x m c t show ?thesis by simp
qed

text \<open>
  Claim C7 as stated has no exception for a cached output.  With both tarballs cached
  and no header bundle, the stage does not fail: it reports a cache hit and ends with
  exit code 0.
\<close>

theorem missing_headers_cache_hit_counterexample:
  "\<not> is_dir cached_fs (PY_HEADERS_312_DIR demo_env) \<and>
   status (run (build_xxhash demo_env) cached_fs None) = Exited 0 \<and>
   out (run (build_xxhash demo_env) cached_fs None) =
     [Exec ''mkdir'' [''-p'', ''/r/_tooling''],
      Echo ''[xxhash] Cache hit: /r/_tooling/xxhash-wasi.tar.gz already exists; skipping build'']"
proof -
  have d: "is_dir cached_fs (TOOL_DIR demo_env)"
    by (simp add: is_dir_def cached_fs_def TOOL_DIR_def demo_env_def)
  have x: "is_file cached_fs (xx_OUT_TAR demo_env)"
    by (simp add: is_file_def cached_fs_def xx_OUT_TAR_def TOOL_DIR_def demo_env_def)
  have h: "\<not> is_dir cached_fs (PY_HEADERS_312_DIR demo_env)"
    by (simp add: is_dir_def cached_fs_def PY_HEADERS_312_DIR_def TOOL_DIR_def demo_env_def)
  have t: "TOOL_DIR demo_env = ''/r/_tooling''" "xx_OUT_TAR demo_env = ''/r/_tooling/xxhash-wasi.tar.gz''"
    by (simp_all add: TOOL_DIR_def xx_OUT_TAR_def demo_env_def)
  from xxhash_cache_hit[OF x d] h t show ?thesis by simp
qed

section \<open>The names of the compiled modules\<close>

text \<open>
  Claim C8.  In every run of the two extension stages, whatever the environment, the file
  system and the point of interruption, the module that a link step writes is named
  with the ABI tag \<^verbatim>\<open>cpython-312\<close> and the target triple \<^verbatim>\<open>wasm32-wasi\<close>; so for
  every pair of modules, one of each stage, the two tags and the two triples are equal.
\<close>

theorem module_names_share_tags:
  "list_all (\<lambda>ev. module_tags_of ev = Some (CPYTHON_TAG, ''wasm32-wasi''))
     (filter is_link (out (run (build_xxhash e) f n))) \<and>
   list_all (\<lambda>ev. module_tags_of ev = Some (CPYTHON_TAG, ''wasm32-wasi''))
     (filter is_link (out (run (build_msgspec e') f' n'))) \<and>
   list_all (\<lambda>ev. list_all (\<lambda>ev'. module_tags_of ev = module_tags_of ev')
                      (filter is_link (out (run (build_msgspec e') f' n'))))
     (filter is_link (out (run (build_xxhash e) f n)))"
proof -
  have x: "module_tags_of ev = Some (CPYTHON_TAG, ''wasm32-wasi'')"
    if "ev \<in> set (filter is_link (out (run (build_xxhash e) f n)))" for ev
    using that xxhash_link_events[of e f n]
    by (auto simp: list_all_iff xx_module_tags CPYTHON_TAG_def)
  have m: "module_tags_of ev = Some (CPYTHON_TAG, ''wasm32-wasi'')"
    if "ev \<in> set (filter is_link (out (run (build_msgspec e') f' n')))" for ev
    using that msgspec_link_events[of e' f' n']
    by (auto simp: list_all_iff ms_module_tags CPYTHON_TAG_def)
  show ?thesis
    unfolding list_all_iff using x m by simp
qed

theorem module_names_share_tags_witness:
  "filter is_link (out (run (build_xxhash demo_env) demo_fs None)) =
     [Exec ''/r/_tooling/wasi-sdk-27.0/bin/wasm-ld'' (xx_ld_args demo_env)] \<and>
   filter is_link (out (run (build_msgspec demo_env) demo_fs None)) =
     [Exec ''/r/_tooling/wasi-sdk-27.0/bin/wasm-ld'' (ms_ld_args demo_env)] \<and>
   link_output (Exec ''/r/_tooling/wasi-sdk-27.0/bin/wasm-ld'' (xx_ld_args demo_env)) =
     Some ''/r/_tooling/build-xxhash/pkg/xxhash/_xxhash.cpython-312-wasm32-wasi.so'' \<and>
   link_output (Exec ''/r/_tooling/wasi-sdk-27.0/bin/wasm-ld'' (ms_ld_args demo_env)) =
     Some ''/r/_tooling/build-msgspec/pkg/msgspec/_core.cpython-312-wasm32-wasi.so'' \<and>
   module_tags_of (Exec ''/r/_tooling/wasi-sdk-27.0/bin/wasm-ld'' (xx_ld_args demo_env)) =
     Some (''cpython-312'', ''wasm32-wasi'') \<and>
   module_tags_of (Exec ''/r/_tooling/wasi-sdk-27.0/bin/wasm-ld'' (ms_ld_args demo_env)) =
     Some (''cpython-312'', ''wasm32-wasi'')"
proof -
  have x: "filter is_link (out (run (build_xxhash demo_env) demo_fs None)) =
     [Exec ''/r/_tooling/wasi-sdk-27.0/bin/wasm-ld'' (xx_ld_args demo_env)]"
    using xx_demo_run by (simp add: probe_def is_link_def basename_def demo_links)
  have m: "filter is_link (out (run (build_msgspec demo_env) demo_fs None)) =
     [Exec ''/r/_tooling/wasi-sdk-27.0/bin/wasm-ld'' (ms_ld_args demo_env)]"
    using ms_demo_run by (simp add: probe_def is_link_def basename_def demo_links)
  from module_names_share_tags[of demo_env demo_fs None demo_env demo_fs None] x m
  show ?thesis by (simp add: CPYTHON_TAG_def link_output_def demo_links)
qed

section \<open>The exports of the link step\<close>

text \<open>
  Claim C6, as the scripts have it.  In every run the link step of the xxhash stage is
  the one command of lines 138 to 144, which names the entry symbol of the module in
  its one \<^verbatim>\<open>--export\<close> option, \<^verbatim>\<open>--export=PyInit__xxhash\<close> (the scripts' directory and
  the compiler's resource directory being absolute paths, no other argument is read as
  such an option).  The link steps of both stages pass \<^verbatim>\<open>--export-dynamic\<close>,
  \<^verbatim>\<open>--shared\<close> and \<^verbatim>\<open>--no-entry\<close>.
\<close>

theorem link_exports:
  assumes "prefix ''/'' (ROOT e)" and "prefix ''/'' (clang_resource_dir e)"
  shows "list_all (\<lambda>ev. ev = Exec (WASI_SDK e @ ''/bin/wasm-ld'') (xx_ld_args e))
           (filter is_link (out (run (build_xxhash e) f n))) \<and>
         explicit_exports (xx_ld_args e) = [''PyInit__xxhash''] \<and>
         list_all (\<lambda>ev. ev = Exec (WASI_SDK e @ ''/bin/wasm-ld'') (ms_ld_args e))
           (filter is_link (out (run (build_msgspec e) f n))) \<and>
         list_all (\<lambda>a. a \<in> set (xx_ld_args e) \<and> a \<in> set (ms_ld_args e))
           [''--no-entry'', ''--shared'', ''--export-dynamic'', ''--allow-undefined'']"
proof -
  obtain r where r: "ROOT e = CHR ''/'' # r"
    using assms(1) by (cases "ROOT e") auto
  obtain c where c: "clang_resource_dir e = CHR ''/'' # c"
    using assms(2) by (cases "clang_resource_dir e") auto
  have "explicit_exports (xx_ld_args e) = [''PyInit__xxhash'']"
    by (simp add: explicit_exports_def xx_ld_args_def xx_PKG_DIR_def xx_BUILD_DIR_def
        xx_OBJ_DIR_def RT_DIR_def TOOL_DIR_def r c)
  moreover have "list_all (\<lambda>a. a \<in> set (xx_ld_args e) \<and> a \<in> set (ms_ld_args e))
           [''--no-entry'', ''--shared'', ''--export-dynamic'', ''--allow-undefined'']"
    by (simp add: xx_ld_args_def ms_ld_args_def)
  ultimately show ?thesis
    using xxhash_link_events[of e f n] msgspec_link_events[of e f n] by simp
qed

theorem link_exports_witness:
  "prefix ''/'' (ROOT demo_env) \<and> prefix ''/'' (clang_resource_dir demo_env) \<and>
   filter is_link (out (run (build_xxhash demo_env) demo_fs None)) =
     [Exec ''/r/_tooling/wasi-sdk-27.0/bin/wasm-ld'' (xx_ld_args demo_env)] \<and>
   explicit_exports (xx_ld_args demo_env) = [''PyInit__xxhash''] \<and>
   ''--export-dynamic'' \<in> set (xx_ld_args demo_env) \<and>
   ''--export-dynamic'' \<in> set (ms_ld_args demo_env)"
proof -
  have a: "prefix ''/'' (ROOT demo_env)" "prefix ''/'' (clang_resource_dir demo_env)"
    by (simp_all add: demo_env_def)
  have x: "filter is_link (out (run (build_xxhash demo_env) demo_fs None)) =
     [Exec ''/r/_tooling/wasi-sdk-27.0/bin/wasm-ld'' (xx_ld_args demo_env)]"
    using xx_demo_run by (simp add: probe_def is_link_def basename_def demo_links)
  from link_exports[OF a, of demo_fs None] a x show ?thesis by simp
qed

text \<open>
  Claim C6 as stated holds of no link step that leaves the export out.  The link step
  of the msgspec stage (lines 115 to 120 of its script) is run without any
  \<^verbatim>\<open>--export\<close> option: \<^verbatim>\<open>PyInit__core\<close> is not named.
\<close>

theorem msgspec_link_export_counterexample:
  "filter is_link (out (run (build_msgspec demo_env) demo_fs None)) =
     [Exec ''/r/_tooling/wasi-sdk-27.0/bin/wasm-ld'' (ms_ld_args demo_env)] \<and>
   ''--export=PyInit__core'' \<notin> set (ms_ld_args demo_env) \<and>
   explicit_exports (ms_ld_args demo_env) = []"
  using ms_demo_run
  by (simp add: probe_def is_link_def basename_def demo_links explicit_exports_def)

section \<open>The tarball of an extension stage and crashes\<close>

lemma lit_neq:
  "v @ ''-pypi.tar.gz'' \<noteq> ''wasi.tar.gz''" "''wasi.tar.gz'' \<noteq> v @ ''-pypi.tar.gz''"
  "v @ ''-github.tar.gz'' \<noteq> ''wasi.tar.gz''" "''wasi.tar.gz'' \<noteq> v @ ''-github.tar.gz''"
  by (auto dest: arg_cong[where f = rev])

lemma xxhash_keeps_absent:
  "keeps (final_absent (xx_tar_args e) (xx_OUT_TAR e)) (build_xxhash e)"
  unfolding build_xxhash_def xxhash_prepare_def xxhash_cache_check_def xxhash_prereqs_def xxhash_fetch_def xxhash_build_def
    xxhash_package_def xxhash_compile_link_def
  apply (simp only: append.simps)
  apply (intro keeps_intros keeps_tar_czf_event)
  apply (simp_all add: final_absent_def is_file_file_at file_at_mkdir_p file_at_rm_rf file_at_rm_f
      file_at_store file_at_tool_query file_at_tool_output file_at_tar_x file_at_cp_R
      snd_shasum_c xx_ARCHIVE_FILE_def xx_ARCHIVE_NAME_def xx_OUT_TAR_def xx_BUILD_DIR_def
      xx_PKG_DIR_def xx_OBJ_DIR_def xx_EXT_NAME_def xx_EXT_BASENAME_def lit_neq)
  done

lemma msgspec_keeps_absent:
  "keeps (final_absent (ms_tar_args e) (ms_OUT_TAR e)) (build_msgspec e)"
  unfolding build_msgspec_def msgspec_prepare_def msgspec_cache_check_def msgspec_prereqs_def msgspec_fetch_def msgspec_build_def
    msgspec_package_def
  apply (simp only: append.simps)
  apply (intro keeps_intros keeps_tar_czf_event)
  apply (simp_all add: final_absent_def is_file_file_at file_at_mkdir_p file_at_rm_rf file_at_rm_f
      file_at_store file_at_tool_query file_at_tool_output file_at_tar_x file_at_cp_R
      snd_shasum_c ms_ARCHIVE_FILE_def ms_ARCHIVE_NAME_def ms_OUT_TAR_def ms_BUILD_DIR_def
      ms_PKG_DIR_def ms_OBJ_DIR_def ms_EXT_NAME_def lit_neq)
  done

lemma keeps_run:
  "keeps J c \<Longrightarrow> J f [] \<Longrightarrow> J (fs (run c f n)) (out (run c f n))"
  by (simp add: keeps_def run_def finish_def)

text \<open>
  Claim C1, as the scripts have it.  An extension stage builds its package in the build
  subtree and writes the tarball with its last program, \<^verbatim>\<open>tar -czf\<close>, straight to the
  final path.  When no file is at the final path at the start, then wherever the run is
  interrupted there is no file at the final path, unless that \<^verbatim>\<open>tar\<close> has been
  started: a crash before the packaging step leaves nothing that a rerun would take for
  the artifact.
\<close>

theorem tarball_absent_until_packaging:
  "(\<not> is_file f (xx_OUT_TAR e) \<longrightarrow>
      final_absent (xx_tar_args e) (xx_OUT_TAR e)
        (fs (run (build_xxhash e) f n)) (out (run (build_xxhash e) f n))) \<and>
   (\<not> is_file f (ms_OUT_TAR e) \<longrightarrow>
      final_absent (ms_tar_args e) (ms_OUT_TAR e)
        (fs (run (build_msgspec e) f n)) (out (run (build_msgspec e) f n)))"
  using keeps_run[OF xxhash_keeps_absent, of e f n] keeps_run[OF msgspec_keeps_absent, of e f n]
  by (simp add: final_absent_def)

theorem tarball_absent_until_packaging_witness:
  "\<not> is_file demo_fs (xx_OUT_TAR demo_env) \<and>
   \<not> is_file demo_fs (ms_OUT_TAR demo_env) \<and>
   final_absent (xx_tar_args demo_env) (xx_OUT_TAR demo_env)
     (fs (run (build_xxhash demo_env) demo_fs (Some 30)))
     (out (run (build_xxhash demo_env) demo_fs (Some 30))) \<and>
   final_absent (ms_tar_args demo_env) (ms_OUT_TAR demo_env)
     (fs (run (build_msgspec demo_env) demo_fs (Some 30)))
     (out (run (build_msgspec demo_env) demo_fs (Some 30)))"
proof -
  have x: "\<not> is_file demo_fs (xx_OUT_TAR demo_env)"
    by (simp add: is_file_def demo_fs_def xx_OUT_TAR_def TOOL_DIR_def demo_env_def)
  have m: "\<not> is_file demo_fs (ms_OUT_TAR demo_env)"
    by (simp add: is_file_def demo_fs_def ms_OUT_TAR_def TOOL_DIR_def demo_env_def)
  from tarball_absent_until_packaging[of demo_fs demo_env "Some 30"] x m
  show ?thesis by blast
qed

text \<open>
  Claim C1 as stated excludes every crash.  The xxhash stage, killed after 31 steps,
  has started \<^verbatim>\<open>tar -czf\<close>, which has created the tarball at its final path and has
  written nothing yet: the file is empty, where the finished run has the archive of the
  package.  The rerun finds a file at the path, reports a cache hit, ends with exit
  code 0 and leaves the empty file as the artifact.
\<close>

theorem partial_tarball_counterexample:
  "status (run (build_xxhash demo_env) demo_fs (Some 31)) = Killed \<and>
   map_of (fs (run (build_xxhash demo_env) demo_fs (Some 31))) (xx_OUT_TAR demo_env)
     = Some (File [] False) \<and>
   map_of (fs (run (build_xxhash demo_env) demo_fs None)) (xx_OUT_TAR demo_env)
     = Some (File ''xxhash/_xxhash.cpython-312-wasm32-wasi.soxxhash/__init__.pyxxhash'' False) \<and>
   status (run (build_xxhash demo_env) (fs (run (build_xxhash demo_env) demo_fs (Some 31))) None)
     = Exited 0 \<and>
   out (run (build_xxhash demo_env) (fs (run (build_xxhash demo_env) demo_fs (Some 31))) None)
     = [Exec ''mkdir'' [''-p'', ''/r/_tooling''],
        Echo ''[xxhash] Cache hit: /r/_tooling/xxhash-wasi.tar.gz already exists; skipping build''] \<and>
   map_of (fs (run (build_xxhash demo_env)
                 (fs (run (build_xxhash demo_env) demo_fs (Some 31))) None))
     (xx_OUT_TAR demo_env) = Some (File [] False)"
proof -
  let ?crash = "run (build_xxhash demo_env) demo_fs (Some 31)"
  have c: "status ?crash = Killed"
    "map_of (fs ?crash) (xx_OUT_TAR demo_env) = Some (File [] False)"
    "map_of (fs ?crash) (TOOL_DIR demo_env) = Some Dir"
    using xx_demo_crash by (simp_all add: probe_def)
  have d: "map_of (fs (run (build_xxhash demo_env) demo_fs None)) (xx_OUT_TAR demo_env)
     = Some (File ''xxhash/_xxhash.cpython-312-wasm32-wasi.soxxhash/__init__.pyxxhash'' False)"
    using xx_demo_run by (simp add: probe_def)
  have t: "TOOL_DIR demo_env = ''/r/_tooling''"
    "xx_OUT_TAR demo_env = ''/r/_tooling/xxhash-wasi.tar.gz''"
    by (simp_all add: TOOL_DIR_def xx_OUT_TAR_def demo_env_def)
  have "is_file (fs ?crash) (xx_OUT_TAR demo_env)" "is_dir (fs ?crash) (TOOL_DIR demo_env)"
    using c by (simp_all add: is_file_def is_dir_def)
  from xxhash_cache_hit[OF this] c d t show ?thesis by simp
qed

section \<open>Reruns of the toolchain stage\<close>

text \<open>
  Claim C5, as the script has it.  When the toolchain is already extracted to its
  directory, a run of the toolchain stage on a recognised platform never extracts it
  again: it runs neither the \<^verbatim>\<open>tar -xf\<close> of the toolchain archive nor the \<^verbatim>\<open>mv\<close> to
  the versioned directory.  It does not download the archive when the archive is still
  in the tool cache, and it does download it when it is not.  The checksum is verified
  all the same: an uninterrupted run that finds the archive in the tool cache runs
  \<^verbatim>\<open>shasum\<close> on it.
\<close>

theorem toolchain_rerun:
  assumes "detect_platform e = Inr P" and "is_dir f (WASI_DIR e)"
  shows "list_all (\<lambda>ev. ev \<noteq> sdk_untar e P \<and> ev \<noteq> sdk_mv e P)
           (out (run (build_cpython e) f n)) \<and>
         (is_file f (WASI_TARBALL e P) \<longrightarrow>
            list_all (\<lambda>ev. ev \<noteq> sdk_curl e P) (out (run (build_cpython e) f n))) \<and>
         (is_dir f (TOOL_DIR e) \<and> is_file f (WASI_TARBALL e P) \<longrightarrow>
            sdk_shasum e \<in> set (out (run (build_cpython e) f None))) \<and>
         (is_dir f (TOOL_DIR e) \<and> \<not> is_file f (WASI_TARBALL e P) \<longrightarrow>
            sdk_curl e P \<in> set (out (run (build_cpython e) f None)))"
proof -
  have a: "list_all (\<lambda>ev. ev \<noteq> sdk_untar e P \<and> ev \<noteq> sdk_mv e P)
           (out (run (build_cpython e) f n))"
    using rerun_events[OF assms, of False n] by (auto simp: rerun_event_def list_all_iff)
  have b: "list_all (\<lambda>ev. ev \<noteq> sdk_curl e P) (out (run (build_cpython e) f n))"
    if "is_file f (WASI_TARBALL e P)"
    using rerun_events[OF assms, of True n] that by (auto simp: rerun_event_def list_all_iff)
  from a b sdk_check_runs[OF assms(1)] sdk_download_runs[OF assms(1)] show ?thesis
    by blast
qed

theorem toolchain_rerun_witness:
  "detect_platform demo_env = Inr ''x86_64-linux'' \<and>
   is_dir rerun_fs (WASI_DIR demo_env) \<and> is_dir rerun_fs (TOOL_DIR demo_env) \<and>
   is_file rerun_fs (WASI_TARBALL demo_env ''x86_64-linux'') \<and>
   list_all (\<lambda>ev. ev \<noteq> sdk_untar demo_env ''x86_64-linux'' \<and> ev \<noteq> sdk_mv demo_env ''x86_64-linux'')
     (out (run (build_cpython demo_env) rerun_fs None)) \<and>
   list_all (\<lambda>ev. ev \<noteq> sdk_curl demo_env ''x86_64-linux'')
     (out (run (build_cpython demo_env) rerun_fs None)) \<and>
   sdk_shasum demo_env \<in> set (out (run (build_cpython demo_env) rerun_fs None))"
proof -
  have p: "detect_platform demo_env = Inr ''x86_64-linux''"
    by (simp add: detect_platform_def demo_env_def)
  have d: "is_dir rerun_fs (WASI_DIR demo_env)" "is_dir rerun_fs (TOOL_DIR demo_env)"
    by (simp_all add: is_dir_def rerun_fs_def demo_fs_def WASI_DIR_def WASI_VER_def TOOL_DIR_def
        demo_env_def)
  have t: "is_file rerun_fs (WASI_TARBALL demo_env ''x86_64-linux'')"
    by (simp add: is_file_def rerun_fs_def WASI_TARBALL_def WASI_TARBALL_NAME_def WASI_VER_def
        TOOL_DIR_def demo_env_def)
  from toolchain_rerun[OF p d(1), of None] p d t show ?thesis by blast
qed

text \<open>
  Claim C5 as stated has the rerun skip the download and the verification.  In the
  concrete environment the toolchain is extracted and its compiler is executable, and
  the archive is no longer in the tool cache: the stage downloads the archive again and
  verifies its checksum, before it ends with exit code 0.
\<close>

theorem toolchain_rerun_counterexample:
  "is_dir demo_fs (WASI_DIR demo_env) \<and>
   is_exec demo_fs (WASI_SDK demo_env @ ''/bin/clang'') \<and>
   status (run (build_cpython demo_env) demo_fs None) = Exited 0 \<and>
   filter (\<lambda>ev. is_download ev \<or> is_checksum ev) (out (run (build_cpython demo_env) demo_fs None)) =
     [Exec ''curl'' [''-fL'', ''-o'', ''/r/_tooling/wasi-sdk-27.0-x86_64-linux.tar.gz'',
        ''https://github.com/WebAssembly/wasi-sdk/releases/download/wasi-sdk-27/wasi-sdk-27.0-x86_64-linux.tar.gz''],
      Exec ''shasum'' [''-a'', ''256'', ''-c'', ''/r/wasi-sdk.sha256sum'', ''--ignore-missing'']]"
proof -
  have d: "is_dir demo_fs (WASI_DIR demo_env)"
    by (simp add: is_dir_def demo_fs_def WASI_DIR_def WASI_VER_def TOOL_DIR_def demo_env_def)
  have x: "is_exec demo_fs (WASI_SDK demo_env @ ''/bin/clang'')"
    by (simp add: is_exec_def demo_fs_def WASI_SDK_def WASI_DIR_def WASI_VER_def TOOL_DIR_def
        demo_env_def)
  from cpython_demo_run d x show ?thesis
    by (simp add: probe_def is_download_def is_checksum_def basename_def)
qed

section \<open>A checksum mismatch stops the stage\<close>

text \<open>
  Claim C2, as stated, fails: the verification checks the files that the checksum file
  lists, and an archive whose file name is not listed is not checked.  With
  \<^verbatim>\<open>XXHASH_VER=3.5.0\<close> the archive is \<^verbatim>\<open>xxhash-3.5.0-pypi.tar.gz\<close>; the checksum file
  lists \<^verbatim>\<open>xxhash-3.4.1-pypi.tar.gz\<close>, which an earlier run has left in the tool cache.
  The downloaded bytes have the digest \<^verbatim>\<open>#XX5\<close>, the only pinned digest is \<^verbatim>\<open>#XX\<close>, and
  the stage extracts, compiles, links and ends with exit code 0.
\<close>

theorem unverified_archive_counterexample:
  "checksum_lines unpinned_env (xx_CHECKFILE unpinned_env)
     = Some [(''#XX'', ''xxhash-3.4.1-pypi.tar.gz'')] \<and>
   xx_ARCHIVE_NAME unpinned_env = ''xxhash-3.5.0-pypi.tar.gz'' \<and>
   archive_bytes unpinned_env unpinned_fs (xx_ARCHIVE_FILE unpinned_env)
     (xx_ARCHIVE_URL unpinned_env) = Some ''XX5'' \<and>
   sha256 unpinned_env ''XX5'' = ''#XX5'' \<and>
   summary (run (build_xxhash unpinned_env) unpinned_fs None) =
     (Exited 0,
      [Exec ''curl'' [''-fL'', ''-o'', ''/r/_tooling/xxhash-3.5.0-pypi.tar.gz'',
         ''https://files.pythonhosted.org/packages/source/x/xxhash/xxhash-3.5.0.tar.gz'']],
      [Exec ''shasum'' [''-a'', ''256'', ''-c'', ''/r/xxhash.sha256sum'']],
      [Exec ''tar'' [''-C'', ''/r/_tooling/build-xxhash'', ''-xf'',
         ''/r/_tooling/xxhash-3.5.0-pypi.tar.gz''],
       Exec ''/r/_tooling/wasi-sdk-27.0/bin/clang'' [''--target=wasm32-wasi'',
         ''--sysroot=/r/_tooling/wasi-sdk-27.0/share/wasi-sysroot'',
         ''-I/r/_tooling/py-headers-3.12'', ''-I/r/_tooling/py-headers-3.12/cpython'',
         ''-I/r/_tooling/build-xxhash/xxhash-3.5.0/src'',
         ''-I/r/_tooling/build-xxhash/xxhash-3.5.0/xxhash'',
         ''-I/r/_tooling/build-xxhash/xxhash-3.5.0/deps/xxhash'', ''-O3'', ''-DNDEBUG'',
         ''-fPIC'', ''-std=c99'', ''-fvisibility=default'', ''-DSSIZE_MAX=2147483647'', ''-c'',
         ''/r/_tooling/build-xxhash/xxhash-3.5.0/src/_xxhash.c'', ''-o'',
         ''/r/_tooling/build-xxhash/obj/_xxhash.o''],
       Exec ''/r/_tooling/wasi-sdk-27.0/bin/clang'' [''--target=wasm32-wasi'',
         ''--sysroot=/r/_tooling/wasi-sdk-27.0/share/wasi-sysroot'',
         ''-I/r/_tooling/build-xxhash/xxhash-3.5.0/src'',
         ''-I/r/_tooling/build-xxhash/xxhash-3.5.0/xxhash'',
         ''-I/r/_tooling/build-xxhash/xxhash-3.5.0/deps/xxhash'', ''-O3'', ''-DNDEBUG'',
         ''-fPIC'', ''-std=c99'', ''-fvisibility=default'', ''-DSSIZE_MAX=2147483647'', ''-c'',
         ''/r/_tooling/build-xxhash/xxhash-3.5.0/deps/xxhash/xxhash.c'', ''-o'',
         ''/r/_tooling/build-xxhash/obj/xxhash_core.o''],
       Exec ''/r/_tooling/wasi-sdk-27.0/bin/wasm-ld'' [''--no-entry'', ''--shared'',
         ''--export-dynamic'', ''--allow-undefined'', ''--export=PyInit__xxhash'',
         ''-L/r/_tooling/wasi-sdk-27.0/lib/clang/19/lib/wasm32-unknown-wasi'', ''-o'',
         ''/r/_tooling/build-xxhash/pkg/xxhash/_xxhash.cpython-312-wasm32-wasi.so'',
         ''/r/_tooling/build-xxhash/obj/_xxhash.o'',
         ''/r/_tooling/build-xxhash/obj/xxhash_core.o'',
         ''/r/_tooling/wasi-sdk-27.0/lib/clang/19/lib/wasm32-unknown-wasi/libclang_rt.builtins.a'']])"
  by code_simp

text \<open>
  Claim C2, as the scripts have it.  In each of the five fetches of the scripts (the two extension
  sources, the toolchain archive, the runtime source, the prebuilt pydantic tarball),
  when the checksum file has a line for the file name of the archive and the bytes of
  the archive (downloaded, or found in the tool cache) do not have the digest of that
  line, the stage does no work on any archive: it extracts nothing, configures
  nothing, compiles and links nothing, and it does not end with exit code 0; a run
  that is not interrupted ends with an exit code other than 0.

  For the two extension stages and for the toolchain archive this is said of the
  whole run of the script (for an extension stage whose output tarball is already
  cached the script ends at the cache check and fetches nothing).  The runtime
  source is fetched in the second half of build\_cpython.sh, lines 70 to 143, which
  is entered when the header bundle is absent, and the pydantic tarball after the
  first part of the driver, which may run build\_cpython.sh; for these two the
  statement is about the rest of the script from the fetch on, started in any state
  (\<open>s\<close> and \<open>t\<close>) of the script: it adds no work to the trace and stops the script.  The
  rest of the driver holds the runs of both extension stages and the assembly.
\<close>

theorem checksum_mismatch_stops_stage:
  "(pinned_mismatch e f (xx_CHECKFILE e) (xx_ARCHIVE_NAME e) (xx_ARCHIVE_FILE e) (xx_ARCHIVE_URL e)
      \<longrightarrow> filter is_work (out (run (build_xxhash e) f n)) = [] \<and>
          (\<not> is_file f (xx_OUT_TAR e) \<longrightarrow>
             status (run (build_xxhash e) f n) \<noteq> Exited 0 \<and> fails (run (build_xxhash e) f None))) \<and>
   (pinned_mismatch e f (ms_CHECKFILE e) (ms_ARCHIVE_NAME e) (ms_ARCHIVE_FILE e) (ms_ARCHIVE_URL e)
      \<longrightarrow> filter is_work (out (run (build_msgspec e) f n)) = [] \<and>
          (\<not> is_file f (ms_OUT_TAR e) \<longrightarrow>
             status (run (build_msgspec e) f n) \<noteq> Exited 0 \<and> fails (run (build_msgspec e) f None))) \<and>
   (detect_platform e = Inr P \<and>
    pinned_mismatch e f (WASI_CHECKFILE e) (WASI_TARBALL_NAME P) (WASI_TARBALL e P) (WASI_URL P)
      \<longrightarrow> filter is_work (out (run (build_cpython e) f n)) = [] \<and>
          status (run (build_cpython e) f n) \<noteq> Exited 0 \<and> fails (run (build_cpython e) f None)) \<and>
   (status s = Running \<and> \<not> is_dir (fs s) (HEADERS_OUT e) \<and>
    pinned_mismatch e (fs s) (PY_CHECKFILE e) PY_TARBALL_NAME (PY_TARBALL e) PY_URL
      \<longrightarrow> filter is_work (out (script (cpython_headers e) s)) = filter is_work (out s) \<and>
          status (script (cpython_headers e) s) \<noteq> Running \<and>
          status (script (cpython_headers e) s) \<noteq> Exited 0 \<and>
          (fuel s = None \<longrightarrow> status (script (cpython_headers e) s) \<noteq> Killed)) \<and>
   (status t = Running \<and>
    pinned_mismatch e (fs t) (PYDANTIC_CHECKFILE e) PYDANTIC_NAME (PYDANTIC_TAR e)
      PYDANTIC_WASI_WHEEL
      \<longrightarrow> filter is_work
            (out (script (guest_fetch e @ guest_extensions e @ guest_componentize e g) t))
            = filter is_work (out t) \<and>
          status (script (guest_fetch e @ guest_extensions e @ guest_componentize e g) t)
            \<noteq> Running \<and>
          status (script (guest_fetch e @ guest_extensions e @ guest_componentize e g) t)
            \<noteq> Exited 0 \<and>
          (fuel t = None \<longrightarrow>
             status (script (guest_fetch e @ guest_extensions e @ guest_componentize e g) t)
               \<noteq> Killed))"
proof (intro conjI impI)
  assume mm: "pinned_mismatch e f (xx_CHECKFILE e) (xx_ARCHIVE_NAME e) (xx_ARCHIVE_FILE e)
                (xx_ARCHIVE_URL e)"
  then obtain ls h b where g: "checksum_lines e (xx_CHECKFILE e) = Some ls"
      "(h, xx_ARCHIVE_NAME e) \<in> set ls"
      "archive_bytes e f (xx_ARCHIVE_FILE e) (xx_ARCHIVE_URL e) = Some b" "sha256 e b \<noteq> h"
    by (rule pinned_mismatchD)
  show "filter is_work (out (run (build_xxhash e) f n)) = []"
    by (rule xx_gate(1)[OF g])
  assume "\<not> is_file f (xx_OUT_TAR e)"
  then show "status (run (build_xxhash e) f n) \<noteq> Exited 0"
    by (rule xx_gate(2)[OF g])
  show "fails (run (build_xxhash e) f None)"
    by (rule steady_fails[OF xxhash_steady xx_gate(2)[OF g]]) fact
next
  assume mm: "pinned_mismatch e f (ms_CHECKFILE e) (ms_ARCHIVE_NAME e) (ms_ARCHIVE_FILE e)
                (ms_ARCHIVE_URL e)"
  then obtain ls h b where g: "checksum_lines e (ms_CHECKFILE e) = Some ls"
      "(h, ms_ARCHIVE_NAME e) \<in> set ls"
      "archive_bytes e f (ms_ARCHIVE_FILE e) (ms_ARCHIVE_URL e) = Some b" "sha256 e b \<noteq> h"
    by (rule pinned_mismatchD)
  show "filter is_work (out (run (build_msgspec e) f n)) = []"
    by (rule ms_gate(1)[OF g])
  assume "\<not> is_file f (ms_OUT_TAR e)"
  then show "status (run (build_msgspec e) f n) \<noteq> Exited 0"
    by (rule ms_gate(2)[OF g])
  show "fails (run (build_msgspec e) f None)"
    by (rule steady_fails[OF msgspec_steady ms_gate(2)[OF g]]) fact
next
  assume a: "detect_platform e = Inr P \<and>
    pinned_mismatch e f (WASI_CHECKFILE e) (WASI_TARBALL_NAME P) (WASI_TARBALL e P) (WASI_URL P)"
  then have d: "detect_platform e = Inr P" by simp
  from a obtain ls h b where g: "checksum_lines e (WASI_CHECKFILE e) = Some ls"
      "(h, WASI_TARBALL_NAME P) \<in> set ls"
      "archive_bytes e f (WASI_TARBALL e P) (WASI_URL P) = Some b" "sha256 e b \<noteq> h"
    by (auto elim: pinned_mismatchD)
  show "filter is_work (out (run (build_cpython e) f n)) = []"
    by (rule sdk_gate(1)[OF d g])
  show "status (run (build_cpython e) f n) \<noteq> Exited 0"
    by (rule sdk_gate(2)[OF d g])
  show "fails (run (build_cpython e) f None)"
    by (rule steady_fails[OF cpython_steady sdk_gate(2)[OF d g]])
next
  assume a: "status s = Running \<and> \<not> is_dir (fs s) (HEADERS_OUT e) \<and>
    pinned_mismatch e (fs s) (PY_CHECKFILE e) PY_TARBALL_NAME (PY_TARBALL e) PY_URL"
  then have r: "status s = Running" and h: "\<not> is_dir (fs s) (HEADERS_OUT e)"
    and mm: "pinned_mismatch e (fs s) (PY_CHECKFILE e) PY_TARBALL_NAME (PY_TARBALL e) PY_URL"
    by simp_all
  show "filter is_work (out (script (cpython_headers e) s)) = filter is_work (out s)"
    by (rule py_stage_gate(1)[OF mm r h])
  show "status (script (cpython_headers e) s) \<noteq> Running"
    by (rule py_stage_gate(2)[OF mm r h])
  show "status (script (cpython_headers e) s) \<noteq> Exited 0"
    by (rule py_stage_gate(3)[OF mm r h])
  assume "fuel s = None"
  with r cpython_headers_steady[of e] show "status (script (cpython_headers e) s) \<noteq> Killed"
    by (simp add: steady_def)
next
  let ?c = "script (guest_fetch e @ guest_extensions e @ guest_componentize e g) t"
  assume a: "status t = Running \<and>
    pinned_mismatch e (fs t) (PYDANTIC_CHECKFILE e) PYDANTIC_NAME (PYDANTIC_TAR e)
      PYDANTIC_WASI_WHEEL"
  then have r: "status t = Running"
    and mm: "pinned_mismatch e (fs t) (PYDANTIC_CHECKFILE e) PYDANTIC_NAME (PYDANTIC_TAR e)
      PYDANTIC_WASI_WHEEL"
    by simp_all
  show "filter is_work (out ?c) = filter is_work (out t)"
    by (rule pydantic_stage_gate(1)[OF mm])
  show "status ?c \<noteq> Running"
    by (rule pydantic_stage_gate(2)[OF mm])
  show "status ?c \<noteq> Exited 0"
    by (rule pydantic_stage_gate(3)[OF mm]) (simp add: r)
  assume "fuel t = None"
  with r guest_rest_steady[of e g] show "status ?c \<noteq> Killed"
    by (simp add: steady_def)
qed

theorem checksum_mismatch_stops_stage_witness:
  "pinned_mismatch guest_env (tampered_archives @ demo_fs) (xx_CHECKFILE guest_env)
     (xx_ARCHIVE_NAME guest_env) (xx_ARCHIVE_FILE guest_env) (xx_ARCHIVE_URL guest_env) \<and>
   \<not> is_file (tampered_archives @ demo_fs) (xx_OUT_TAR guest_env) \<and>
   filter is_work (out (run (build_xxhash guest_env) (tampered_archives @ demo_fs) None)) = [] \<and>
   fails (run (build_xxhash guest_env) (tampered_archives @ demo_fs) None) \<and>
   pinned_mismatch guest_env (tampered_archives @ demo_fs) (ms_CHECKFILE guest_env)
     (ms_ARCHIVE_NAME guest_env) (ms_ARCHIVE_FILE guest_env) (ms_ARCHIVE_URL guest_env) \<and>
   \<not> is_file (tampered_archives @ demo_fs) (ms_OUT_TAR guest_env) \<and>
   filter is_work (out (run (build_msgspec guest_env) (tampered_archives @ demo_fs) None)) = [] \<and>
   fails (run (build_msgspec guest_env) (tampered_archives @ demo_fs) None) \<and>
   detect_platform guest_env = Inr ''x86_64-linux'' \<and>
   pinned_mismatch guest_env (tampered_archives @ demo_fs) (WASI_CHECKFILE guest_env)
     (WASI_TARBALL_NAME ''x86_64-linux'') (WASI_TARBALL guest_env ''x86_64-linux'')
     (WASI_URL ''x86_64-linux'') \<and>
   filter is_work (out (run (build_cpython guest_env) (tampered_archives @ demo_fs) None)) = [] \<and>
   fails (run (build_cpython guest_env) (tampered_archives @ demo_fs) None) \<and>
   \<not> is_dir (tampered_archives @ bare_fs) (HEADERS_OUT guest_env) \<and>
   pinned_mismatch guest_env (tampered_archives @ bare_fs) (PY_CHECKFILE guest_env)
     PY_TARBALL_NAME (PY_TARBALL guest_env) PY_URL \<and>
   filter is_work (out (script (cpython_headers guest_env)
      \<lparr>fs = tampered_archives @ bare_fs, out = [], status = Running, fuel = None\<rparr>)) = [] \<and>
   status (script (cpython_headers guest_env)
      \<lparr>fs = tampered_archives @ bare_fs, out = [], status = Running, fuel = None\<rparr>)
     \<notin> {Running, Exited 0, Killed} \<and>
   pinned_mismatch guest_env (tampered_archives @ bare_fs) (PYDANTIC_CHECKFILE guest_env)
     PYDANTIC_NAME (PYDANTIC_TAR guest_env) PYDANTIC_WASI_WHEEL \<and>
   filter is_work
     (out (script (guest_fetch guest_env @ guest_extensions guest_env
                    @ guest_componentize guest_env demo_guest)
        \<lparr>fs = tampered_archives @ bare_fs, out = [], status = Running, fuel = None\<rparr>)) = [] \<and>
   status (script (guest_fetch guest_env @ guest_extensions guest_env
                    @ guest_componentize guest_env demo_guest)
      \<lparr>fs = tampered_archives @ bare_fs, out = [], status = Running, fuel = None\<rparr>)
     \<notin> {Running, Exited 0, Killed}"
proof -
  let ?f = "tampered_archives @ demo_fs"
  let ?s = "\<lparr>fs = tampered_archives @ bare_fs, out = [], status = Running, fuel = None\<rparr>"
  have x: "pinned_mismatch guest_env ?f (xx_CHECKFILE guest_env)
     (xx_ARCHIVE_NAME guest_env) (xx_ARCHIVE_FILE guest_env) (xx_ARCHIVE_URL guest_env)"
    by code_simp
  have xo: "\<not> is_file ?f (xx_OUT_TAR guest_env)"
    by code_simp
  have m: "pinned_mismatch guest_env ?f (ms_CHECKFILE guest_env)
     (ms_ARCHIVE_NAME guest_env) (ms_ARCHIVE_FILE guest_env) (ms_ARCHIVE_URL guest_env)"
    by code_simp
  have mo: "\<not> is_file ?f (ms_OUT_TAR guest_env)"
    by code_simp
  have d: "detect_platform guest_env = Inr ''x86_64-linux''"
    by code_simp
  have k: "pinned_mismatch guest_env ?f (WASI_CHECKFILE guest_env)
     (WASI_TARBALL_NAME ''x86_64-linux'') (WASI_TARBALL guest_env ''x86_64-linux'')
     (WASI_URL ''x86_64-linux'')"
    by code_simp
  have h: "\<not> is_dir (fs ?s) (HEADERS_OUT guest_env)"
    by code_simp
  have p: "pinned_mismatch guest_env (fs ?s) (PY_CHECKFILE guest_env)
     PY_TARBALL_NAME (PY_TARBALL guest_env) PY_URL"
    by code_simp
  have q: "pinned_mismatch guest_env (fs ?s) (PYDANTIC_CHECKFILE guest_env)
     PYDANTIC_NAME (PYDANTIC_TAR guest_env) PYDANTIC_WASI_WHEEL"
    by code_simp
  from checksum_mismatch_stops_stage[of guest_env ?f None "''x86_64-linux''" ?s ?s demo_guest]
    x xo m mo d k h p q
  show ?thesis by simp
qed

section \<open>Checksum files without an entry for the artifact\<close>

text \<open>
  Claim C9, as stated, fails: a checksum file without an entry for the file name of the
  artifact does not make the verification fail.  First the source of an extension,
  verified strictly: with \<^verbatim>\<open>XXHASH_VER=3.5.0\<close> the checksum file has no entry for
  \<^verbatim>\<open>xxhash-3.5.0-pypi.tar.gz\<close>, the archive is in the tool cache, and the verification
  of build\_xxhash.sh succeeds.  Then the toolchain, verified with
  \<^verbatim>\<open>--ignore-missing\<close>: on macOS on arm64, with a checksum file that pins the two Linux
  archives, the verification of build\_cpython.sh succeeds on the strength of the
  archive for Linux on x86-64, and the script goes on to extract the archive for macOS
  (which, not being an archive in this environment, \<^verbatim>\<open>tar\<close> rejects).
\<close>

theorem missing_entry_counterexample:
  "\<not> listed unpinned_env (xx_CHECKFILE unpinned_env) (xx_ARCHIVE_NAME unpinned_env) \<and>
   is_file unpinned_cached_fs (xx_ARCHIVE_FILE unpinned_env) \<and>
   fst (shasum_c unpinned_env False (TOOL_DIR unpinned_env) (xx_CHECKFILE unpinned_env)
          unpinned_cached_fs) = 0 \<and>
   detect_platform mac_env = Inr ''arm64-macos'' \<and>
   \<not> listed mac_env (WASI_CHECKFILE mac_env) (WASI_TARBALL_NAME ''arm64-macos'') \<and>
   is_file mac_fs (WASI_TARBALL mac_env ''arm64-macos'') \<and>
   fst (shasum_c mac_env True (TOOL_DIR mac_env) (WASI_CHECKFILE mac_env) mac_fs) = 0 \<and>
   summary (run (build_cpython mac_env) mac_fs None) =
     (Exited 2,
      [],
      [Exec ''shasum'' [''-a'', ''256'', ''-c'', ''/r/wasi-sdk.sha256sum'', ''--ignore-missing'']],
      [Exec ''tar'' [''-C'', ''/r/_tooling'', ''-xf'',
         ''/r/_tooling/wasi-sdk-27.0-arm64-macos.tar.gz'']])"
  by code_simp

text \<open>
  Claim C9, as the scripts have it.  The checksum verification checks the files that the
  checksum file lists, looked up in the tool cache, and no others.

  \<^item> The sources of the extensions, the runtime source and the prebuilt pydantic tarball
    are verified strictly: the verification succeeds exactly when the tool cache is a
    directory, the checksum file has at least one line, and every listed file is a
    regular file there with the listed digest.  A listed file that is absent is a
    failure.
  \<^item> The toolchain archive is verified with \<^verbatim>\<open>--ignore-missing\<close>: the verification
    succeeds exactly when the tool cache is a directory, every listed file is absent
    or a regular file with the listed digest, and at least one listed file is there
    with the listed digest.
  \<^item> Whether the checksum file has an entry for the artifact that the stage has
    fetched is not checked: when it has none, the outcome of the verification is the
    same whatever the bytes of the artifact are.
  \<^item> Each of the five fetches ends with that verification, and when the script is
    still running after a fetch, started in any state \<open>s\<close>, the verification has
    succeeded on the file system as it then is.
\<close>

theorem checksum_verification_by_lines:
  "(fst (shasum_c e False dir chk f) = 0 \<longleftrightarrow>
      is_dir f dir \<and>
      (\<exists>ls. checksum_lines e chk = Some ls \<and> ls \<noteq> [] \<and>
         (\<forall>(h, n) \<in> set ls. \<exists>b x. file_at f (dir @ ''/'' @ n) = Some (b, x) \<and> sha256 e b = h))) \<and>
   (fst (shasum_c e True dir chk f) = 0 \<longleftrightarrow>
      is_dir f dir \<and>
      (\<exists>ls. checksum_lines e chk = Some ls \<and>
         (\<forall>(h, n) \<in> set ls. map_of f (dir @ ''/'' @ n) = None \<or>
            (\<exists>b x. file_at f (dir @ ''/'' @ n) = Some (b, x) \<and> sha256 e b = h)) \<and>
         (\<exists>(h, n) \<in> set ls. \<exists>b x. file_at f (dir @ ''/'' @ n) = Some (b, x) \<and> sha256 e b = h))) \<and>
   (\<not> listed e chk name \<longrightarrow>
      fst (shasum_c e ign dir chk (store (dir @ ''/'' @ name) (File b x) f))
        = fst (shasum_c e ign dir chk f)) \<and>
   (last (xxhash_fetch e) =
      exec ''shasum'' [''-a'', ''256'', ''-c'', xx_CHECKFILE e]
        (shasum_c e False (TOOL_DIR e) (xx_CHECKFILE e)) \<and>
    (status (script (xxhash_fetch e) s) = Running \<longrightarrow>
       fst (shasum_c e False (TOOL_DIR e) (xx_CHECKFILE e) (fs (script (xxhash_fetch e) s))) = 0)) \<and>
   (last (msgspec_fetch e) =
      exec ''shasum'' [''-a'', ''256'', ''-c'', ms_CHECKFILE e]
        (shasum_c e False (TOOL_DIR e) (ms_CHECKFILE e)) \<and>
    (status (script (msgspec_fetch e) s) = Running \<longrightarrow>
       fst (shasum_c e False (TOOL_DIR e) (ms_CHECKFILE e) (fs (script (msgspec_fetch e) s))) = 0)) \<and>
   (last (cpython_src_fetch e) =
      exec ''shasum'' [''-a'', ''256'', ''-c'', PY_CHECKFILE e]
        (shasum_c e False (TOOL_DIR e) (PY_CHECKFILE e)) \<and>
    (status (script (cpython_src_fetch e) s) = Running \<longrightarrow>
       fst (shasum_c e False (TOOL_DIR e) (PY_CHECKFILE e)
              (fs (script (cpython_src_fetch e) s))) = 0)) \<and>
   (last (guest_fetch e) =
      exec ''shasum'' [''-a'', ''256'', ''-c'', PYDANTIC_CHECKFILE e]
        (shasum_c e False (TOOL_DIR e) (PYDANTIC_CHECKFILE e)) \<and>
    (status (script (guest_fetch e) s) = Running \<longrightarrow>
       fst (shasum_c e False (TOOL_DIR e) (PYDANTIC_CHECKFILE e)
              (fs (script (guest_fetch e) s))) = 0)) \<and>
   (last (cpython_sdk_fetch e P) =
      exec ''shasum'' [''-a'', ''256'', ''-c'', WASI_CHECKFILE e, ''--ignore-missing'']
        (shasum_c e True (TOOL_DIR e) (WASI_CHECKFILE e)) \<and>
    (status (script (cpython_sdk_fetch e P) s) = Running \<longrightarrow>
       fst (shasum_c e True (TOOL_DIR e) (WASI_CHECKFILE e)
              (fs (script (cpython_sdk_fetch e P) s))) = 0))"
proof (intro conjI impI)
  show "fst (shasum_c e False dir chk f) = 0 \<longleftrightarrow>
      is_dir f dir \<and>
      (\<exists>ls. checksum_lines e chk = Some ls \<and> ls \<noteq> [] \<and>
         (\<forall>(h, n) \<in> set ls. \<exists>b x. file_at f (dir @ ''/'' @ n) = Some (b, x) \<and> sha256 e b = h))"
    by (rule shasum_c_strict)
  show "fst (shasum_c e True dir chk f) = 0 \<longleftrightarrow>
      is_dir f dir \<and>
      (\<exists>ls. checksum_lines e chk = Some ls \<and>
         (\<forall>(h, n) \<in> set ls. map_of f (dir @ ''/'' @ n) = None \<or>
            (\<exists>b x. file_at f (dir @ ''/'' @ n) = Some (b, x) \<and> sha256 e b = h)) \<and>
         (\<exists>(h, n) \<in> set ls. \<exists>b x. file_at f (dir @ ''/'' @ n) = Some (b, x) \<and> sha256 e b = h))"
    by (rule shasum_c_ignore)
  show "fst (shasum_c e ign dir chk (store (dir @ ''/'' @ name) (File b x) f))
        = fst (shasum_c e ign dir chk f)" if "\<not> listed e chk name"
    using that by (rule shasum_c_unlisted)
  show "fst (shasum_c e False (TOOL_DIR e) (xx_CHECKFILE e) (fs (script (xxhash_fetch e) s))) = 0"
    if "status (script (xxhash_fetch e) s) = Running"
    using that by (rule xx_fetch_verified)
  show "fst (shasum_c e False (TOOL_DIR e) (ms_CHECKFILE e) (fs (script (msgspec_fetch e) s))) = 0"
    if "status (script (msgspec_fetch e) s) = Running"
    using that by (rule ms_fetch_verified)
  show "fst (shasum_c e False (TOOL_DIR e) (PY_CHECKFILE e)
              (fs (script (cpython_src_fetch e) s))) = 0"
    if "status (script (cpython_src_fetch e) s) = Running"
    using that by (rule py_fetch_verified)
  show "fst (shasum_c e False (TOOL_DIR e) (PYDANTIC_CHECKFILE e)
              (fs (script (guest_fetch e) s))) = 0"
    if "status (script (guest_fetch e) s) = Running"
    using that by (rule guest_fetch_verified)
  show "fst (shasum_c e True (TOOL_DIR e) (WASI_CHECKFILE e)
              (fs (script (cpython_sdk_fetch e P) s))) = 0"
    if "status (script (cpython_sdk_fetch e P) s) = Running"
    using that by (rule sdk_fetch_verified)
qed (simp_all add: xxhash_fetch_def msgspec_fetch_def cpython_src_fetch_def guest_fetch_def
      cpython_sdk_fetch_def)

theorem checksum_verification_by_lines_witness:
  "fst (shasum_c guest_env False (TOOL_DIR guest_env) (xx_CHECKFILE guest_env)
          (genuine_archives @ bare_fs)) = 0 \<and>
   fst (shasum_c guest_env True (TOOL_DIR guest_env) (xx_CHECKFILE guest_env)
          (genuine_archives @ bare_fs)) = 0 \<and>
   checksum_lines guest_env (xx_CHECKFILE guest_env)
     = Some [(''#XX'', ''xxhash-3.4.1-pypi.tar.gz'')] \<and>
   is_dir (genuine_archives @ bare_fs) (TOOL_DIR guest_env) \<and>
   (\<exists>b x. file_at (genuine_archives @ bare_fs)
             (TOOL_DIR guest_env @ ''/'' @ ''xxhash-3.4.1-pypi.tar.gz'') = Some (b, x)
          \<and> sha256 guest_env b = ''#XX'') \<and>
   \<not> listed guest_env (xx_CHECKFILE guest_env) ''xxhash-3.5.0-pypi.tar.gz'' \<and>
   fst (shasum_c guest_env False (TOOL_DIR guest_env) (xx_CHECKFILE guest_env)
          (store (TOOL_DIR guest_env @ ''/'' @ ''xxhash-3.5.0-pypi.tar.gz'')
             (File ''XX5 tampered'' False) (genuine_archives @ bare_fs))) = 0 \<and>
   status (script (xxhash_fetch guest_env)
     \<lparr>fs = genuine_archives @ bare_fs, out = [], status = Running, fuel = None\<rparr>) = Running \<and>
   status (script (msgspec_fetch guest_env)
     \<lparr>fs = genuine_archives @ bare_fs, out = [], status = Running, fuel = None\<rparr>) = Running \<and>
   status (script (cpython_src_fetch guest_env)
     \<lparr>fs = genuine_archives @ bare_fs, out = [], status = Running, fuel = None\<rparr>) = Running \<and>
   status (script (guest_fetch guest_env)
     \<lparr>fs = genuine_archives @ bare_fs, out = [], status = Running, fuel = None\<rparr>) = Running \<and>
   status (script (cpython_sdk_fetch guest_env ''x86_64-linux'')
     \<lparr>fs = genuine_archives @ bare_fs, out = [], status = Running, fuel = None\<rparr>) = Running \<and>
   fst (shasum_c guest_env False (TOOL_DIR guest_env) (xx_CHECKFILE guest_env)
     (fs (script (xxhash_fetch guest_env)
        \<lparr>fs = genuine_archives @ bare_fs, out = [], status = Running, fuel = None\<rparr>))) = 0 \<and>
   fst (shasum_c guest_env False (TOOL_DIR guest_env) (ms_CHECKFILE guest_env)
     (fs (script (msgspec_fetch guest_env)
        \<lparr>fs = genuine_archives @ bare_fs, out = [], status = Running, fuel = None\<rparr>))) = 0 \<and>
   fst (shasum_c guest_env False (TOOL_DIR guest_env) (PY_CHECKFILE guest_env)
     (fs (script (cpython_src_fetch guest_env)
        \<lparr>fs = genuine_archives @ bare_fs, out = [], status = Running, fuel = None\<rparr>))) = 0 \<and>
   fst (shasum_c guest_env False (TOOL_DIR guest_env) (PYDANTIC_CHECKFILE guest_env)
     (fs (script (guest_fetch guest_env)
        \<lparr>fs = genuine_archives @ bare_fs, out = [], status = Running, fuel = None\<rparr>))) = 0 \<and>
   fst (shasum_c guest_env True (TOOL_DIR guest_env) (WASI_CHECKFILE guest_env)
     (fs (script (cpython_sdk_fetch guest_env ''x86_64-linux'')
        \<lparr>fs = genuine_archives @ bare_fs, out = [], status = Running, fuel = None\<rparr>))) = 0"
proof -
  let ?e = guest_env
  let ?f = "genuine_archives @ bare_fs"
  let ?s = "\<lparr>fs = genuine_archives @ bare_fs, out = [], status = Running, fuel = None\<rparr>"
  have s: "fst (shasum_c ?e False (TOOL_DIR ?e) (xx_CHECKFILE ?e) ?f) = 0"
    by code_simp
  have i: "fst (shasum_c ?e True (TOOL_DIR ?e) (xx_CHECKFILE ?e) ?f) = 0"
    by code_simp
  have c: "checksum_lines ?e (xx_CHECKFILE ?e) = Some [(''#XX'', ''xxhash-3.4.1-pypi.tar.gz'')]"
    by code_simp
  have n: "\<not> listed ?e (xx_CHECKFILE ?e) ''xxhash-3.5.0-pypi.tar.gz''"
    by code_simp
  have r: "status (script (xxhash_fetch ?e) ?s) = Running"
    "status (script (msgspec_fetch ?e) ?s) = Running"
    "status (script (cpython_src_fetch ?e) ?s) = Running"
    "status (script (guest_fetch ?e) ?s) = Running"
    "status (script (cpython_sdk_fetch ?e ''x86_64-linux'') ?s) = Running"
    by code_simp+
  note t = checksum_verification_by_lines[of ?e "TOOL_DIR ?e" "xx_CHECKFILE ?e" ?f
      "''xxhash-3.5.0-pypi.tar.gz''" False "''XX5 tampered''" False ?s "''x86_64-linux''"]
  from t s c have d: "is_dir ?f (TOOL_DIR ?e)"
    and l: "\<exists>b x. file_at ?f (TOOL_DIR ?e @ ''/'' @ ''xxhash-3.4.1-pypi.tar.gz'')
            = Some (b, x) \<and> sha256 ?e b = ''#XX''"
    by auto
  from t n s have u: "fst (shasum_c ?e False (TOOL_DIR ?e) (xx_CHECKFILE ?e)
          (store (TOOL_DIR ?e @ ''/'' @ ''xxhash-3.5.0-pypi.tar.gz'') (File ''XX5 tampered'' False)
             ?f)) = 0"
    by simp
  from t r have v:
    "fst (shasum_c ?e False (TOOL_DIR ?e) (xx_CHECKFILE ?e)
       (fs (script (xxhash_fetch ?e) ?s))) = 0"
    "fst (shasum_c ?e False (TOOL_DIR ?e) (ms_CHECKFILE ?e)
       (fs (script (msgspec_fetch ?e) ?s))) = 0"
    "fst (shasum_c ?e False (TOOL_DIR ?e) (PY_CHECKFILE ?e)
       (fs (script (cpython_src_fetch ?e) ?s))) = 0"
    "fst (shasum_c ?e False (TOOL_DIR ?e) (PYDANTIC_CHECKFILE ?e)
       (fs (script (guest_fetch ?e) ?s))) = 0"
    "fst (shasum_c ?e True (TOOL_DIR ?e) (WASI_CHECKFILE ?e)
       (fs (script (cpython_sdk_fetch ?e ''x86_64-linux'') ?s))) = 0"
    by blast+
  from s i c d l n u r v show ?thesis
    by (intro conjI)
qed

section \<open>A cached archive is verified before it is used\<close>

text \<open>
  Claim C10, as stated, fails for a cached archive whose file name the checksum file
  does not list.  With \<^verbatim>\<open>XXHASH_VER=3.5.0\<close> the tool cache holds
  \<^verbatim>\<open>xxhash-3.5.0-pypi.tar.gz\<close> with other bytes than the network serves for that release,
  next to the archive of release 3.4.1, the only one that the checksum file lists.  The
  stage passes its cache check, downloads nothing, runs \<^verbatim>\<open>shasum -c\<close>, which succeeds, and
  then extracts the tampered archive, compiles, links and ends with exit code 0.
\<close>

theorem unlisted_cached_archive_counterexample:
  "file_at unpinned_cached_fs (xx_ARCHIVE_FILE unpinned_env) = Some (''XX5 tampered'', False) \<and>
   curl_fetch unpinned_env (xx_ARCHIVE_URL unpinned_env) = Some ''XX5'' \<and>
   checksum_lines unpinned_env (xx_CHECKFILE unpinned_env)
     = Some [(''#XX'', ''xxhash-3.4.1-pypi.tar.gz'')] \<and>
   sha256 unpinned_env ''XX5 tampered'' = ''#XX5 tampered'' \<and>
   \<not> is_file unpinned_cached_fs (xx_OUT_TAR unpinned_env) \<and>
   summary (run (build_xxhash unpinned_env) unpinned_cached_fs None) =
     (Exited 0,
      [],
      [Exec ''shasum'' [''-a'', ''256'', ''-c'', ''/r/xxhash.sha256sum'']],
      [Exec ''tar'' [''-C'', ''/r/_tooling/build-xxhash'', ''-xf'',
         ''/r/_tooling/xxhash-3.5.0-pypi.tar.gz''],
       Exec ''/r/_tooling/wasi-sdk-27.0/bin/clang'' [''--target=wasm32-wasi'',
         ''--sysroot=/r/_tooling/wasi-sdk-27.0/share/wasi-sysroot'',
         ''-I/r/_tooling/py-headers-3.12'', ''-I/r/_tooling/py-headers-3.12/cpython'',
         ''-I/r/_tooling/build-xxhash/xxhash-3.5.0/src'',
         ''-I/r/_tooling/build-xxhash/xxhash-3.5.0/xxhash'',
         ''-I/r/_tooling/build-xxhash/xxhash-3.5.0/deps/xxhash'', ''-O3'', ''-DNDEBUG'',
         ''-fPIC'', ''-std=c99'', ''-fvisibility=default'', ''-DSSIZE_MAX=2147483647'', ''-c'',
         ''/r/_tooling/build-xxhash/xxhash-3.5.0/src/_xxhash.c'', ''-o'',
         ''/r/_tooling/build-xxhash/obj/_xxhash.o''],
       Exec ''/r/_tooling/wasi-sdk-27.0/bin/clang'' [''--target=wasm32-wasi'',
         ''--sysroot=/r/_tooling/wasi-sdk-27.0/share/wasi-sysroot'',
         ''-I/r/_tooling/build-xxhash/xxhash-3.5.0/src'',
         ''-I/r/_tooling/build-xxhash/xxhash-3.5.0/xxhash'',
         ''-I/r/_tooling/build-xxhash/xxhash-3.5.0/deps/xxhash'', ''-O3'', ''-DNDEBUG'',
         ''-fPIC'', ''-std=c99'', ''-fvisibility=default'', ''-DSSIZE_MAX=2147483647'', ''-c'',
         ''/r/_tooling/build-xxhash/xxhash-3.5.0/deps/xxhash/xxhash.c'', ''-o'',
         ''/r/_tooling/build-xxhash/obj/xxhash_core.o''],
       Exec ''/r/_tooling/wasi-sdk-27.0/bin/wasm-ld'' [''--no-entry'', ''--shared'',
         ''--export-dynamic'', ''--allow-undefined'', ''--export=PyInit__xxhash'',
         ''-L/r/_tooling/wasi-sdk-27.0/lib/clang/19/lib/wasm32-unknown-wasi'', ''-o'',
         ''/r/_tooling/build-xxhash/pkg/xxhash/_xxhash.cpython-312-wasm32-wasi.so'',
         ''/r/_tooling/build-xxhash/obj/_xxhash.o'',
         ''/r/_tooling/build-xxhash/obj/xxhash_core.o'',
         ''/r/_tooling/wasi-sdk-27.0/lib/clang/19/lib/wasm32-unknown-wasi/libclang_rt.builtins.a'']])"
  by code_simp

text \<open>
  Claim C10, as the scripts have it.  For the source archive of each extension stage, for the toolchain
  archive and for the runtime source:

  \<^item> in every run, interrupted or not, no work (extraction, configuration, compilation,
    linking) comes before the first \<^verbatim>\<open>shasum -c\<close> of the archive's checksum file;
  \<^item> when the archive file is already in the tool cache it is not downloaded again,
    and a run that is not interrupted and gets to the fetch (for an extension stage:
    through the cache check and the prerequisite checks) does run that \<^verbatim>\<open>shasum -c\<close>;
  \<^item> when the checksum file has a line for the file name of the cached archive and
    the archive does not have the digest of that line, no work is done and the stage
    does not end with exit code 0.

  The extension stages and the toolchain archive are taken over the whole run of
  their script; the runtime source over the second half of build\_cpython.sh (lines 70
  to 143), from any state \<open>s\<close> of the script, the order of verification and work also
  over the whole run.
\<close>

theorem cached_archive_verified:
  "(verified_first is_work (xx_shasum e) (out (run (build_xxhash e) f n)) \<and>
    (is_file f (xx_ARCHIVE_FILE e) \<longrightarrow>
       filter is_download (out (run (build_xxhash e) f n)) = [] \<and>
       (passes (xxhash_prepare e) f \<longrightarrow> xx_shasum e \<in> set (out (run (build_xxhash e) f None))) \<and>
       (pinned_mismatch e f (xx_CHECKFILE e) (xx_ARCHIVE_NAME e) (xx_ARCHIVE_FILE e)
          (xx_ARCHIVE_URL e) \<longrightarrow>
          filter is_work (out (run (build_xxhash e) f n)) = [] \<and>
          (\<not> is_file f (xx_OUT_TAR e) \<longrightarrow> status (run (build_xxhash e) f n) \<noteq> Exited 0)))) \<and>
   (verified_first is_work (ms_shasum e) (out (run (build_msgspec e) f n)) \<and>
    (is_file f (ms_ARCHIVE_FILE e) \<longrightarrow>
       filter is_download (out (run (build_msgspec e) f n)) = [] \<and>
       (passes (msgspec_prepare e) f \<longrightarrow> ms_shasum e \<in> set (out (run (build_msgspec e) f None))) \<and>
       (pinned_mismatch e f (ms_CHECKFILE e) (ms_ARCHIVE_NAME e) (ms_ARCHIVE_FILE e)
          (ms_ARCHIVE_URL e) \<longrightarrow>
          filter is_work (out (run (build_msgspec e) f n)) = [] \<and>
          (\<not> is_file f (ms_OUT_TAR e) \<longrightarrow> status (run (build_msgspec e) f n) \<noteq> Exited 0)))) \<and>
   (detect_platform e = Inr P \<longrightarrow>
      verified_first is_work (sdk_shasum e) (out (run (build_cpython e) f n)) \<and>
      (is_file f (WASI_TARBALL e P) \<longrightarrow>
         sdk_curl e P \<notin> set (out (run (build_cpython e) f n)) \<and>
         (is_dir f (TOOL_DIR e) \<longrightarrow> sdk_shasum e \<in> set (out (run (build_cpython e) f None))) \<and>
         (pinned_mismatch e f (WASI_CHECKFILE e) (WASI_TARBALL_NAME P) (WASI_TARBALL e P)
            (WASI_URL P) \<longrightarrow>
            filter is_work (out (run (build_cpython e) f n)) = [] \<and>
            status (run (build_cpython e) f n) \<noteq> Exited 0))) \<and>
   (verified_first (py_work e) (py_shasum e) (out (run (build_cpython e) f n)) \<and>
    (is_file (fs s) (PY_TARBALL e) \<longrightarrow>
       filter is_download (out (script (cpython_headers e) s)) = filter is_download (out s) \<and>
       (status s = Running \<and> \<not> is_dir (fs s) (HEADERS_OUT e) \<longrightarrow>
          (fuel s = None \<longrightarrow> py_shasum e \<in> set (out (script (cpython_headers e) s))) \<and>
          (pinned_mismatch e (fs s) (PY_CHECKFILE e) PY_TARBALL_NAME (PY_TARBALL e) PY_URL \<longrightarrow>
             filter is_work (out (script (cpython_headers e) s)) = filter is_work (out s) \<and>
             status (script (cpython_headers e) s) \<noteq> Running \<and>
             status (script (cpython_headers e) s) \<noteq> Exited 0))))"
proof -
  have xx: "verified_first is_work (xx_shasum e) (out (run (build_xxhash e) f n)) \<and>
    (is_file f (xx_ARCHIVE_FILE e) \<longrightarrow>
       filter is_download (out (run (build_xxhash e) f n)) = [] \<and>
       (passes (xxhash_prepare e) f \<longrightarrow> xx_shasum e \<in> set (out (run (build_xxhash e) f None))) \<and>
       (pinned_mismatch e f (xx_CHECKFILE e) (xx_ARCHIVE_NAME e) (xx_ARCHIVE_FILE e)
          (xx_ARCHIVE_URL e) \<longrightarrow>
          filter is_work (out (run (build_xxhash e) f n)) = [] \<and>
          (\<not> is_file f (xx_OUT_TAR e) \<longrightarrow> status (run (build_xxhash e) f n) \<noteq> Exited 0)))"
  proof (intro conjI impI)
    show "verified_first is_work (xx_shasum e) (out (run (build_xxhash e) f n))"
      by (rule xx_verify_first)
    assume c: "is_file f (xx_ARCHIVE_FILE e)"
    then show "filter is_download (out (run (build_xxhash e) f n)) = []"
      by (rule xx_cached_no_download)
    show "xx_shasum e \<in> set (out (run (build_xxhash e) f None))"
      if "passes (xxhash_prepare e) f"
      by (rule xx_check_runs[OF c that])
    assume "pinned_mismatch e f (xx_CHECKFILE e) (xx_ARCHIVE_NAME e) (xx_ARCHIVE_FILE e)
              (xx_ARCHIVE_URL e)"
    then obtain ls h b where g: "checksum_lines e (xx_CHECKFILE e) = Some ls"
        "(h, xx_ARCHIVE_NAME e) \<in> set ls"
        "archive_bytes e f (xx_ARCHIVE_FILE e) (xx_ARCHIVE_URL e) = Some b" "sha256 e b \<noteq> h"
      by (rule pinned_mismatchD)
    show "filter is_work (out (run (build_xxhash e) f n)) = []"
      by (rule xx_gate(1)[OF g])
    show "status (run (build_xxhash e) f n) \<noteq> Exited 0" if "\<not> is_file f (xx_OUT_TAR e)"
      by (rule xx_gate(2)[OF g that])
  qed
  have ms: "verified_first is_work (ms_shasum e) (out (run (build_msgspec e) f n)) \<and>
    (is_file f (ms_ARCHIVE_FILE e) \<longrightarrow>
       filter is_download (out (run (build_msgspec e) f n)) = [] \<and>
       (passes (msgspec_prepare e) f \<longrightarrow> ms_shasum e \<in> set (out (run (build_msgspec e) f None))) \<and>
       (pinned_mismatch e f (ms_CHECKFILE e) (ms_ARCHIVE_NAME e) (ms_ARCHIVE_FILE e)
          (ms_ARCHIVE_URL e) \<longrightarrow>
          filter is_work (out (run (build_msgspec e) f n)) = [] \<and>
          (\<not> is_file f (ms_OUT_TAR e) \<longrightarrow> status (run (build_msgspec e) f n) \<noteq> Exited 0)))"
  proof (intro conjI impI)
    show "verified_first is_work (ms_shasum e) (out (run (build_msgspec e) f n))"
      by (rule ms_verify_first)
    assume c: "is_file f (ms_ARCHIVE_FILE e)"
    then show "filter is_download (out (run (build_msgspec e) f n)) = []"
      by (rule ms_cached_no_download)
    show "ms_shasum e \<in> set (out (run (build_msgspec e) f None))"
      if "passes (msgspec_prepare e) f"
      by (rule ms_check_runs[OF c that])
    assume "pinned_mismatch e f (ms_CHECKFILE e) (ms_ARCHIVE_NAME e) (ms_ARCHIVE_FILE e)
              (ms_ARCHIVE_URL e)"
    then obtain ls h b where g: "checksum_lines e (ms_CHECKFILE e) = Some ls"
        "(h, ms_ARCHIVE_NAME e) \<in> set ls"
        "archive_bytes e f (ms_ARCHIVE_FILE e) (ms_ARCHIVE_URL e) = Some b" "sha256 e b \<noteq> h"
      by (rule pinned_mismatchD)
    show "filter is_work (out (run (build_msgspec e) f n)) = []"
      by (rule ms_gate(1)[OF g])
    show "status (run (build_msgspec e) f n) \<noteq> Exited 0" if "\<not> is_file f (ms_OUT_TAR e)"
      by (rule ms_gate(2)[OF g that])
  qed
  have sdk: "detect_platform e = Inr P \<longrightarrow>
      verified_first is_work (sdk_shasum e) (out (run (build_cpython e) f n)) \<and>
      (is_file f (WASI_TARBALL e P) \<longrightarrow>
         sdk_curl e P \<notin> set (out (run (build_cpython e) f n)) \<and>
         (is_dir f (TOOL_DIR e) \<longrightarrow> sdk_shasum e \<in> set (out (run (build_cpython e) f None))) \<and>
         (pinned_mismatch e f (WASI_CHECKFILE e) (WASI_TARBALL_NAME P) (WASI_TARBALL e P)
            (WASI_URL P) \<longrightarrow>
            filter is_work (out (run (build_cpython e) f n)) = [] \<and>
            status (run (build_cpython e) f n) \<noteq> Exited 0))"
  proof (intro conjI impI)
    assume d: "detect_platform e = Inr P"
    then show "verified_first is_work (sdk_shasum e) (out (run (build_cpython e) f n))"
      by (rule sdk_verify_first)
    assume c: "is_file f (WASI_TARBALL e P)"
    show "sdk_curl e P \<notin> set (out (run (build_cpython e) f n))"
      by (rule sdk_cached_no_download[OF d c])
    show "sdk_shasum e \<in> set (out (run (build_cpython e) f None))" if "is_dir f (TOOL_DIR e)"
      by (rule sdk_check_runs[OF d that c])
    assume "pinned_mismatch e f (WASI_CHECKFILE e) (WASI_TARBALL_NAME P) (WASI_TARBALL e P)
              (WASI_URL P)"
    then obtain ls h b where g: "checksum_lines e (WASI_CHECKFILE e) = Some ls"
        "(h, WASI_TARBALL_NAME P) \<in> set ls"
        "archive_bytes e f (WASI_TARBALL e P) (WASI_URL P) = Some b" "sha256 e b \<noteq> h"
      by (rule pinned_mismatchD)
    show "filter is_work (out (run (build_cpython e) f n)) = []"
      by (rule sdk_gate(1)[OF d g])
    show "status (run (build_cpython e) f n) \<noteq> Exited 0"
      by (rule sdk_gate(2)[OF d g])
  qed
  have py: "verified_first (py_work e) (py_shasum e) (out (run (build_cpython e) f n)) \<and>
    (is_file (fs s) (PY_TARBALL e) \<longrightarrow>
       filter is_download (out (script (cpython_headers e) s)) = filter is_download (out s) \<and>
       (status s = Running \<and> \<not> is_dir (fs s) (HEADERS_OUT e) \<longrightarrow>
          (fuel s = None \<longrightarrow> py_shasum e \<in> set (out (script (cpython_headers e) s))) \<and>
          (pinned_mismatch e (fs s) (PY_CHECKFILE e) PY_TARBALL_NAME (PY_TARBALL e) PY_URL \<longrightarrow>
             filter is_work (out (script (cpython_headers e) s)) = filter is_work (out s) \<and>
             status (script (cpython_headers e) s) \<noteq> Running \<and>
             status (script (cpython_headers e) s) \<noteq> Exited 0)))"
  proof (intro conjI impI)
    show "verified_first (py_work e) (py_shasum e) (out (run (build_cpython e) f n))"
      by (rule py_verify_first)
    assume c: "is_file (fs s) (PY_TARBALL e)"
    then show "filter is_download (out (script (cpython_headers e) s))
                 = filter is_download (out s)"
      by (rule py_stage_cached)
    assume "status s = Running \<and> \<not> is_dir (fs s) (HEADERS_OUT e)"
    then have r: "status s = Running" and h: "\<not> is_dir (fs s) (HEADERS_OUT e)"
      by simp_all
    show "py_shasum e \<in> set (out (script (cpython_headers e) s))" if "fuel s = None"
      by (rule py_check_runs[OF r that h c])
    assume mm: "pinned_mismatch e (fs s) (PY_CHECKFILE e) PY_TARBALL_NAME (PY_TARBALL e) PY_URL"
    show "filter is_work (out (script (cpython_headers e) s)) = filter is_work (out s)"
      by (rule py_stage_gate(1)[OF mm r h])
    show "status (script (cpython_headers e) s) \<noteq> Running"
      by (rule py_stage_gate(2)[OF mm r h])
    show "status (script (cpython_headers e) s) \<noteq> Exited 0"
      by (rule py_stage_gate(3)[OF mm r h])
  qed
  show ?thesis
    by (rule conjI[OF xx conjI[OF ms conjI[OF sdk py]]])
qed

theorem cached_archive_verified_witness:
  "(is_file (tampered_archives @ demo_fs) (xx_ARCHIVE_FILE demo_env) \<and>
    passes (xxhash_prepare demo_env) (tampered_archives @ demo_fs) \<and>
    pinned_mismatch demo_env (tampered_archives @ demo_fs) (xx_CHECKFILE demo_env)
      (xx_ARCHIVE_NAME demo_env) (xx_ARCHIVE_FILE demo_env) (xx_ARCHIVE_URL demo_env) \<and>
    \<not> is_file (tampered_archives @ demo_fs) (xx_OUT_TAR demo_env) \<and>
    verified_first is_work (xx_shasum demo_env)
      (out (run (build_xxhash demo_env) (tampered_archives @ demo_fs) None)) \<and>
    filter is_download (out (run (build_xxhash demo_env) (tampered_archives @ demo_fs) None)) = [] \<and>
    xx_shasum demo_env \<in> set (out (run (build_xxhash demo_env) (tampered_archives @ demo_fs) None)) \<and>
    filter is_work (out (run (build_xxhash demo_env) (tampered_archives @ demo_fs) None)) = [] \<and>
    status (run (build_xxhash demo_env) (tampered_archives @ demo_fs) None) \<noteq> Exited 0) \<and>
   (is_file (tampered_archives @ demo_fs) (ms_ARCHIVE_FILE demo_env) \<and>
    passes (msgspec_prepare demo_env) (tampered_archives @ demo_fs) \<and>
    pinned_mismatch demo_env (tampered_archives @ demo_fs) (ms_CHECKFILE demo_env)
      (ms_ARCHIVE_NAME demo_env) (ms_ARCHIVE_FILE demo_env) (ms_ARCHIVE_URL demo_env) \<and>
    \<not> is_file (tampered_archives @ demo_fs) (ms_OUT_TAR demo_env) \<and>
    verified_first is_work (ms_shasum demo_env)
      (out (run (build_msgspec demo_env) (tampered_archives @ demo_fs) None)) \<and>
    filter is_download (out (run (build_msgspec demo_env) (tampered_archives @ demo_fs) None)) = [] \<and>
    ms_shasum demo_env \<in> set (out (run (build_msgspec demo_env) (tampered_archives @ demo_fs) None)) \<and>
    filter is_work (out (run (build_msgspec demo_env) (tampered_archives @ demo_fs) None)) = [] \<and>
    status (run (build_msgspec demo_env) (tampered_archives @ demo_fs) None) \<noteq> Exited 0) \<and>
   (detect_platform demo_env = Inr ''x86_64-linux'' \<and>
    is_file (tampered_archives @ demo_fs) (WASI_TARBALL demo_env ''x86_64-linux'') \<and>
    is_dir (tampered_archives @ demo_fs) (TOOL_DIR demo_env) \<and>
    pinned_mismatch demo_env (tampered_archives @ demo_fs) (WASI_CHECKFILE demo_env)
      (WASI_TARBALL_NAME ''x86_64-linux'') (WASI_TARBALL demo_env ''x86_64-linux'')
      (WASI_URL ''x86_64-linux'') \<and>
    verified_first is_work (sdk_shasum demo_env)
      (out (run (build_cpython demo_env) (tampered_archives @ demo_fs) None)) \<and>
    sdk_curl demo_env ''x86_64-linux''
      \<notin> set (out (run (build_cpython demo_env) (tampered_archives @ demo_fs) None)) \<and>
    sdk_shasum demo_env
      \<in> set (out (run (build_cpython demo_env) (tampered_archives @ demo_fs) None)) \<and>
    filter is_work (out (run (build_cpython demo_env) (tampered_archives @ demo_fs) None)) = [] \<and>
    status (run (build_cpython demo_env) (tampered_archives @ demo_fs) None) \<noteq> Exited 0) \<and>
   (is_file (tampered_archives @ bare_fs) (PY_TARBALL demo_env) \<and>
    \<not> is_dir (tampered_archives @ bare_fs) (HEADERS_OUT demo_env) \<and>
    pinned_mismatch demo_env (tampered_archives @ bare_fs) (PY_CHECKFILE demo_env)
      PY_TARBALL_NAME (PY_TARBALL demo_env) PY_URL \<and>
    filter is_download (out (script (cpython_headers demo_env)
      \<lparr>fs = tampered_archives @ bare_fs, out = [], status = Running, fuel = None\<rparr>)) = [] \<and>
    py_shasum demo_env \<in> set (out (script (cpython_headers demo_env)
      \<lparr>fs = tampered_archives @ bare_fs, out = [], status = Running, fuel = None\<rparr>)) \<and>
    filter is_work (out (script (cpython_headers demo_env)
      \<lparr>fs = tampered_archives @ bare_fs, out = [], status = Running, fuel = None\<rparr>)) = [] \<and>
    status (script (cpython_headers demo_env)
      \<lparr>fs = tampered_archives @ bare_fs, out = [], status = Running, fuel = None\<rparr>)
      \<notin> {Running, Exited 0})"
proof -
  let ?f = "tampered_archives @ demo_fs"
  let ?s = "\<lparr>fs = tampered_archives @ bare_fs, out = [], status = Running, fuel = None\<rparr>"
  have x: "is_file ?f (xx_ARCHIVE_FILE demo_env)"
    "pinned_mismatch demo_env ?f (xx_CHECKFILE demo_env)
      (xx_ARCHIVE_NAME demo_env) (xx_ARCHIVE_FILE demo_env) (xx_ARCHIVE_URL demo_env)"
    "\<not> is_file ?f (xx_OUT_TAR demo_env)"
    by code_simp+
  have xp: "passes (xxhash_prepare demo_env) ?f"
    by code_simp
  have m: "is_file ?f (ms_ARCHIVE_FILE demo_env)"
    "pinned_mismatch demo_env ?f (ms_CHECKFILE demo_env)
      (ms_ARCHIVE_NAME demo_env) (ms_ARCHIVE_FILE demo_env) (ms_ARCHIVE_URL demo_env)"
    "\<not> is_file ?f (ms_OUT_TAR demo_env)"
    by code_simp+
  have mp: "passes (msgspec_prepare demo_env) ?f"
    by code_simp
  have k: "detect_platform demo_env = Inr ''x86_64-linux''"
    "is_file ?f (WASI_TARBALL demo_env ''x86_64-linux'')"
    "is_dir ?f (TOOL_DIR demo_env)"
    "pinned_mismatch demo_env ?f (WASI_CHECKFILE demo_env)
      (WASI_TARBALL_NAME ''x86_64-linux'') (WASI_TARBALL demo_env ''x86_64-linux'')
      (WASI_URL ''x86_64-linux'')"
    by code_simp+
  have p: "is_file (fs ?s) (PY_TARBALL demo_env)"
    "\<not> is_dir (fs ?s) (HEADERS_OUT demo_env)"
    "pinned_mismatch demo_env (fs ?s) (PY_CHECKFILE demo_env)
      PY_TARBALL_NAME (PY_TARBALL demo_env) PY_URL"
    by code_simp+
  from cached_archive_verified[of demo_env ?f None "''x86_64-linux''" ?s] x xp m mp k p
  show ?thesis by simp
qed

end
